theory Spec2Isabelle
  imports Complex_Main "HOL-Library.Multiset"
begin

section \<open>Conventions of the embedding\<close>

text \<open>
  The development embeds the channel-processing and RGB-generation cells of
  \<^verbatim>\<open>color_plus.py\<close>.  Python dictionaries that are iterated are association lists
  in insertion order (keys distinct), dictionaries that are only looked up are maps,
  tuples are pairs, and every \<^verbatim>\<open>raise\<close> is a value of a sum type.
\<close>

section \<open>Path selection\<close>

text \<open>
  The module-level detection (lines 27-30): \<^verbatim>\<open>DOWNLOAD_SUMMARY\<close> may be absent from
  the globals (\<open>None\<close> here); \<^verbatim>\<open>DOWNLOAD_CONFIG\<close> is always there.
\<close>

type_synonym py_dict = "string \<rightharpoonup> string"

definition HAS_DOWNLOAD_SUMMARY :: "py_dict option \<Rightarrow> bool" where
  "HAS_DOWNLOAD_SUMMARY download_summary = (download_summary \<noteq> None)"

definition DATA_LEVEL :: "py_dict option \<Rightarrow> string" where
  "DATA_LEVEL download_summary =
     (case download_summary of
        None \<Rightarrow> ''level1b''
      | Some s \<Rightarrow> (case s ''data_level'' of None \<Rightarrow> ''level1b'' | Some v \<Rightarrow> v))"

definition DOMAIN_TYPE :: "py_dict \<Rightarrow> string" where
  "DOMAIN_TYPE download_config =
     (case download_config ''domain_type'' of None \<Rightarrow> ''conus'' | Some v \<Rightarrow> v)"

text \<open>\<^verbatim>\<open>determine_processing_path\<close> (lines 556-583), the three globals as arguments.\<close>

definition determine_processing_path :: "bool \<Rightarrow> string \<Rightarrow> string \<Rightarrow> string" where
  "determine_processing_path has_summary data_level domain_type =
     (if data_level = ''level2'' \<or> has_summary then ''level2_aware''
      else if domain_type = ''full_disk'' then ''enhanced_full_disk''
      else ''standard_conus'')"

definition selected_path :: "py_dict option \<Rightarrow> py_dict \<Rightarrow> string" where
  "selected_path download_summary download_config =
     determine_processing_path (HAS_DOWNLOAD_SUMMARY download_summary)
       (DATA_LEVEL download_summary) (DOMAIN_TYPE download_config)"

section \<open>NumPy arrays\<close>

text \<open>
  A two-dimensional NumPy array is its shape and its row-major buffer, as NumPy stores
  it; a well-formed array has a buffer of \<open>rows * columns\<close> cells.  A floating-point
  cell is \<open>NaN\<close> or a real number: binary32 and binary64 rounding and the infinities
  are idealised away, so arithmetic on cells is exact, and a dtype cast
  (\<^verbatim>\<open>astype\<close>) is the identity.  The scalar arithmetic that decides a shape (a zoom
  factor, a dimension times a zoom factor) is rounded to binary64 as Python rounds it.
\<close>

datatype py_error =
    KeyError string
  | ZeroDivisionError
  | ValueError string
  | TypeError string

datatype pixel = NaN | Val real

datatype 'a ndarray = NdArray (shape: "nat \<times> nat") (flat: "'a list")

definition wf_array :: "'a ndarray \<Rightarrow> bool" where
  "wf_array a = (length (flat a) = fst (shape a) * snd (shape a))"

definition cell :: "'a ndarray \<Rightarrow> nat \<Rightarrow> nat \<Rightarrow> 'a" where
  "cell a i j = flat a ! (i * snd (shape a) + j)"

definition tabulate2 :: "nat \<times> nat \<Rightarrow> (nat \<Rightarrow> nat \<Rightarrow> 'a) \<Rightarrow> 'a ndarray" where
  "tabulate2 s f = NdArray s (concat (map (\<lambda>i. map (f i) [0..<snd s]) [0..<fst s]))"

definition np_full :: "nat \<times> nat \<Rightarrow> 'a \<Rightarrow> 'a ndarray" where
  "np_full s v = NdArray s (replicate (fst s * snd s) v)"

definition map_array :: "('a \<Rightarrow> 'b) \<Rightarrow> 'a ndarray \<Rightarrow> 'b ndarray" where
  "map_array f a = NdArray (shape a) (map f (flat a))"

text \<open>Python's \<^verbatim>\<open>int(x)\<close> on a float truncates towards zero.\<close>

definition py_int :: "real \<Rightarrow> int" where
  "py_int x = (if 0 \<le> x then \<lfloor>x\<rfloor> else \<lceil>x\<rceil>)"

text \<open>
  A Python float is an IEEE binary64 number, and \<^verbatim>\<open>*\<close> and \<^verbatim>\<open>/\<close> on floats (an \<^verbatim>\<open>int\<close>
  operand is converted first, and \<^verbatim>\<open>int / int\<close> is rounded once) return the binary64
  number nearest to the exact result, a tie going to the even significand.  \<open>binary64 x\<close>
  is that number for the exact result \<open>x\<close>: \<open>x\<close> is scaled so that its integer part has 53
  bits, rounded to an integer and scaled back.  Overflow to infinity and the subnormal
  range are left out: the quantities rounded here are array dimensions, zoom factors
  and their products.
\<close>

definition round_half_even :: "real \<Rightarrow> int" where
  "round_half_even x =
     (let f = \<lfloor>x\<rfloor>
      in if x - of_int f < 1 / 2 then f
         else if 1 / 2 < x - of_int f then f + 1
         else if even f then f else f + 1)"

definition binary64 :: "real \<Rightarrow> real" where
  "binary64 x =
     (if x = 0 then 0
      else let e = \<lfloor>log 2 \<bar>x\<bar>\<rfloor> - 52
           in of_int (round_half_even (x / 2 powr of_int e)) * 2 powr of_int e)"

text \<open>Line 14 sets the flag unconditionally.\<close>

definition NUMBA_AVAILABLE :: bool where
  "NUMBA_AVAILABLE = True"

section \<open>Resampling\<close>

text \<open>
  The Numba kernels \<^verbatim>\<open>numba_fast_upscale_2x\<close>, \<^verbatim>\<open>numba_fast_upscale_4x\<close> and
  \<^verbatim>\<open>numba_bilinear_upscale\<close> are compiled in another notebook cell.  Each is
  called with the input and a preallocated output and writes into the output in place,
  so each is a parameter here: given the input and the output's shape, the value that
  cell \<open>(i, j)\<close> of the output holds after the call.  \<^verbatim>\<open>scipy.ndimage.zoom\<close> is a
  parameter as well.
\<close>

record 'a resample_kernels =
  numba_fast_upscale_2x :: "'a ndarray \<Rightarrow> nat \<times> nat \<Rightarrow> nat \<Rightarrow> nat \<Rightarrow> 'a"
  numba_fast_upscale_4x :: "'a ndarray \<Rightarrow> nat \<times> nat \<Rightarrow> nat \<Rightarrow> nat \<Rightarrow> 'a"
  numba_bilinear_upscale :: "'a ndarray \<Rightarrow> real \<Rightarrow> real \<Rightarrow> nat \<times> nat \<Rightarrow> nat \<Rightarrow> nat \<Rightarrow> 'a"
  scipy_zoom :: "'a ndarray \<Rightarrow> real \<times> real \<Rightarrow> py_error + 'a ndarray"

text \<open>
  \<^verbatim>\<open>output = np.zeros(target_shape, ...); kernel(data, output); return output\<close>:
  \<^verbatim>\<open>np.zeros\<close> raises \<^verbatim>\<open>ValueError\<close> on a negative dimension.
\<close>

definition zeros_then_fill ::
  "int \<times> int \<Rightarrow> (nat \<times> nat \<Rightarrow> nat \<Rightarrow> nat \<Rightarrow> 'a) \<Rightarrow> py_error + 'a ndarray" where
  "zeros_then_fill target_shape fill =
     (if fst target_shape < 0 \<or> snd target_shape < 0
      then Inl (ValueError ''negative dimensions are not allowed'')
      else let s = (nat (fst target_shape), nat (snd target_shape))
           in Inr (tabulate2 s (fill s)))"

text \<open>
  \<^verbatim>\<open>fast_upscale_array\<close> (lines 749-772).  The zoom factor is a pair of floats; the
  products of line 754 and the ratios of lines 766-767 are rounded to binary64 (a
  dimension is far below \<open>2 ^ 53\<close> and converts to a float exactly).
\<close>

definition fast_upscale_array ::
  "'a resample_kernels \<Rightarrow> 'a ndarray \<Rightarrow> real \<times> real \<Rightarrow> py_error + 'a ndarray" where
  "fast_upscale_array K data zoom_factor =
     (if zoom_factor = (1, 1) then Inr data
      else
        let target_shape =
              (py_int (binary64 (real (fst (shape data)) * fst zoom_factor)),
               py_int (binary64 (real (snd (shape data)) * snd zoom_factor)))
        in if NUMBA_AVAILABLE then
             (if zoom_factor = (2, 2) then
                zeros_then_fill target_shape (numba_fast_upscale_2x K data)
              else if zoom_factor = (4, 4) then
                zeros_then_fill target_shape (numba_fast_upscale_4x K data)
              else if fst target_shape = 0 \<or> snd target_shape = 0 then Inl ZeroDivisionError
              else
                let y_ratio = binary64 (real (fst (shape data)) / real_of_int (fst target_shape));
                    x_ratio = binary64 (real (snd (shape data)) / real_of_int (snd target_shape))
                in zeros_then_fill target_shape (numba_bilinear_upscale K data y_ratio x_ratio))
           else scipy_zoom K data zoom_factor)"

text \<open>
  A sample instance of the absent kernels, for closed examples only: nearest-neighbour
  replication.
\<close>

definition nearest_kernels :: "'a resample_kernels" where
  "nearest_kernels =
     \<lparr> numba_fast_upscale_2x = (\<lambda>d s i j. cell d (i div 2) (j div 2)),
       numba_fast_upscale_4x = (\<lambda>d s i j. cell d (i div 4) (j div 4)),
       numba_bilinear_upscale =
         (\<lambda>d y_ratio x_ratio s i j.
            cell d (nat \<lfloor>real i * y_ratio\<rfloor>) (nat \<lfloor>real j * x_ratio\<rfloor>)),
       scipy_zoom = (\<lambda>d z. Inr d) \<rparr>"

section \<open>Infrared calibration\<close>

text \<open>\<^verbatim>\<open>EnhancedIRChannelProcessor.CHANNEL_CONSTANTS\<close> (lines 349-360): wavelength, fk1, fk2, bc1, bc2.\<close>

type_synonym planck_row = "real \<times> real \<times> real \<times> real \<times> real"

definition C13_CONSTANTS :: planck_row where
  "C13_CONSTANTS = (10.3499, 747.3, 868.467, 0.53083, 0.99111)"

definition CHANNEL_CONSTANTS :: "(string \<times> planck_row) list" where
  "CHANNEL_CONSTANTS =
     [(''C07'', (3.8853, 5449.58, 920.062, 0.43616, 0.99715)),
      (''C08'', (6.2428, 2083.8, 897.668, 0.27387, 0.99636)),
      (''C09'', (6.9419, 1673.8, 895.963, 0.30802, 0.99574)),
      (''C10'', (7.3414, 1499.79, 894.765, 0.33708, 0.99536)),
      (''C11'', (8.4447, 1128.55, 889.377, 0.39298, 0.99419)),
      (''C12'', (9.6136, 868.052, 878.786, 0.47261, 0.99248)),
      (''C13'', C13_CONSTANTS),
      (''C14'', (11.1949, 634.106, 855.701, 0.60474, 0.98917)),
      (''C15'', (12.2740, 516.292, 836.581, 0.70681, 0.98622)),
      (''C16'', (13.2807, 431.815, 816.406, 0.81669, 0.98279))]"

text \<open>\<^verbatim>\<open>_, fk1, fk2, bc1, bc2 = constants\<close>.\<close>

definition unpack_constants :: "planck_row \<Rightarrow> real \<times> real \<times> real \<times> real" where
  "unpack_constants constants = (case constants of (w, fk1, fk2, bc1, bc2) \<Rightarrow> (fk1, fk2, bc1, bc2))"

text \<open>
  The duck-typed dataset the workers pass (\<^verbatim>\<open>SimpleMockDataset\<close>): four attributes, each
  with a \<^verbatim>\<open>values\<close> field holding the record's entry, which is \<^verbatim>\<open>None\<close> when the
  file had no such variable.  \<^verbatim>\<open>float(None)\<close> raises \<^verbatim>\<open>TypeError\<close>.
\<close>

datatype SimpleMockDataset =
  SimpleMockDataset (fk1_values: "real option") (fk2_values: "real option")
    (bc1_values: "real option") (bc2_values: "real option")

definition py_float :: "real option \<Rightarrow> py_error + real" where
  "py_float v = (case v of None \<Rightarrow> Inl (TypeError ''float() argument must be a string or a real number'')
                 | Some x \<Rightarrow> Inr x)"

definition dataset_constants :: "SimpleMockDataset \<Rightarrow> py_error + real \<times> real \<times> real \<times> real" where
  "dataset_constants ds =
     (case py_float (fk1_values ds) of Inl e \<Rightarrow> Inl e | Inr fk1 \<Rightarrow>
      case py_float (fk2_values ds) of Inl e \<Rightarrow> Inl e | Inr fk2 \<Rightarrow>
      case py_float (bc1_values ds) of Inl e \<Rightarrow> Inl e | Inr bc1 \<Rightarrow>
      case py_float (bc2_values ds) of Inl e \<Rightarrow> Inl e | Inr bc2 \<Rightarrow>
      Inr (fk1, fk2, bc1, bc2))"

text \<open>The choice of constants in \<^verbatim>\<open>radiance_to_brightness_temp\<close> (lines 365-383).\<close>

definition planck_constants ::
  "string \<Rightarrow> SimpleMockDataset option \<Rightarrow> real \<times> real \<times> real \<times> real" where
  "planck_constants channel_code ds =
     (case ds of
        Some d \<Rightarrow>
          (case dataset_constants d of
             Inr c \<Rightarrow> c
           | Inl e \<Rightarrow>
               unpack_constants
                 (case map_of CHANNEL_CONSTANTS channel_code of
                    Some constants \<Rightarrow> constants | None \<Rightarrow> C13_CONSTANTS))
      | None \<Rightarrow>
          (case map_of CHANNEL_CONSTANTS channel_code of
             Some constants \<Rightarrow> unpack_constants constants
           | None \<Rightarrow> unpack_constants C13_CONSTANTS))"

text \<open>The NumPy branch (lines 397-404): \<open>NaN > 0\<close> is false, so a \<open>NaN\<close> cell stays \<open>NaN\<close>.\<close>

definition numpy_brightness_temp ::
  "pixel ndarray \<Rightarrow> real \<Rightarrow> real \<Rightarrow> real \<Rightarrow> real \<Rightarrow> pixel ndarray" where
  "numpy_brightness_temp radiance fk1 fk2 bc1 bc2 =
     map_array
       (\<lambda>p. case p of
               NaN \<Rightarrow> NaN
             | Val r \<Rightarrow> if 0 < r then Val ((fk2 / ln (fk1 / r + 1) - bc1) / bc2) else NaN)
       radiance"

text \<open>
  Modelled from the spec: the Numba kernel \<^verbatim>\<open>numba_radiance_to_brightness_temp\<close>, which
  the live branch of \<^verbatim>\<open>radiance_to_brightness_temp\<close> calls, is compiled in another
  notebook cell and is not among the sources.  Spec, section 4.2: temperature =
  \<open>bc2\<^sup>-\<^sup>1 * (fk2 / ln (fk1 / radiance + 1) - bc1)\<close>, computed elementwise; pixels with
  non-positive radiance map to the NaN sentinel.
\<close>

definition spec_brightness_temp_kernel ::
  "pixel ndarray \<Rightarrow> real \<Rightarrow> real \<Rightarrow> real \<Rightarrow> real \<Rightarrow> pixel ndarray" where
  "spec_brightness_temp_kernel radiance fk1 fk2 bc1 bc2 =
     map_array
       (\<lambda>p. case p of
               NaN \<Rightarrow> NaN
             | Val r \<Rightarrow> if r \<le> 0 then NaN
                        else Val (inverse bc2 * (fk2 / ln (fk1 / r + 1) - bc1)))
       radiance"

text \<open>
  \<^verbatim>\<open>radiance_to_brightness_temp\<close> (lines 362-404); its first argument stands for the
  Numba kernel.
\<close>

definition radiance_to_brightness_temp ::
  "(pixel ndarray \<Rightarrow> real \<Rightarrow> real \<Rightarrow> real \<Rightarrow> real \<Rightarrow> pixel ndarray) \<Rightarrow>
   pixel ndarray \<Rightarrow> string \<Rightarrow> SimpleMockDataset option \<Rightarrow> pixel ndarray" where
  "radiance_to_brightness_temp bt_kernel radiance channel_code ds =
     (case planck_constants channel_code ds of
        (fk1, fk2, bc1, bc2) \<Rightarrow>
          if NUMBA_AVAILABLE then bt_kernel radiance fk1 fk2 bc1 bc2
          else numpy_brightness_temp radiance fk1 fk2 bc1 bc2)"

section \<open>Per-channel workers\<close>

text \<open>
  The raw record of one channel, as \<^verbatim>\<open>load_level1b_data\<close> and \<^verbatim>\<open>load_level2_data\<close>
  build it.  A key the loader leaves out and a key it sets to \<^verbatim>\<open>None\<close> are both
  \<open>None\<close> here.
\<close>

record projection_info =
  longitude_of_projection_origin :: real
  perspective_point_height :: real

record coordinate_data =
  x_coords :: "real list"
  y_coords :: "real list"
  projection_info :: projection_info
  primary_channel :: string

record raw_data =
  radiance :: "pixel ndarray option"
  calibrated_data :: "pixel ndarray option"
  native_shape :: "nat \<times> nat"
  band_id :: "int option"
  channel_type :: string
  data_level :: "string option"
  planck_fk1 :: "real option"
  planck_fk2 :: "real option"
  planck_bc1 :: "real option"
  planck_bc2 :: "real option"
  kappa0 :: "real option"
  time_coverage_start :: string
  time_coverage_end :: string
  orbital_slot :: string
  file_path :: string
  coordinates :: "coordinate_data option"

record metadata =
  md_file_path :: string
  md_shape :: "nat \<times> nat"
  md_band_id :: "int option"
  md_data_level :: "string option"
  md_time_coverage_start :: string
  md_time_coverage_end :: string
  md_orbital_slot :: string

text \<open>
  The result dictionary of a worker.  The wall-clock \<^verbatim>\<open>processing_time\<close> is left out.
  The type \<open>'e\<close> is the cell type of an enhanced image.
\<close>

datatype 'e worker_result =
    Success string "pixel ndarray" "'e ndarray" string metadata "coordinate_data option"
  | Failure string py_error

text \<open>
  What the workers call and the sources do not define or only dispatch: the resampling
  kernels, the two calibration kernels, and the two enhancement entry points
  (\<^verbatim>\<open>enhance_ir_channel\<close> and \<^verbatim>\<open>enhance_visible_channel\<close> pass the calibrated array to
  lookup tables and Numba kernels of another cell).
\<close>

record 'e channel_kernels =
  upscale_kernels :: "pixel resample_kernels"
  numba_radiance_to_brightness_temp ::
    "pixel ndarray \<Rightarrow> real \<Rightarrow> real \<Rightarrow> real \<Rightarrow> real \<Rightarrow> pixel ndarray"
  numba_visible_calibration :: "pixel ndarray \<Rightarrow> real \<Rightarrow> pixel ndarray"
  enhance_ir_channel :: "pixel ndarray \<Rightarrow> string \<Rightarrow> 'e ndarray"
  enhance_visible_channel :: "pixel ndarray \<Rightarrow> 'e ndarray"

text \<open>\<^verbatim>\<open>SimpleMockDataset(raw_data) if raw_data['planck_fk1'] is not None else None\<close>.\<close>

definition simple_mock_ds :: "raw_data \<Rightarrow> SimpleMockDataset option" where
  "simple_mock_ds raw =
     (if planck_fk1 raw \<noteq> None
      then Some (SimpleMockDataset (planck_fk1 raw) (planck_fk2 raw) (planck_bc1 raw) (planck_bc2 raw))
      else None)"

text \<open>
  \<^verbatim>\<open>np.nanmax\<close>: \<^verbatim>\<open>ValueError\<close> on an array without cells, \<open>NaN\<close> (and a warning) when
  every cell is \<open>NaN\<close>.
\<close>

definition np_nanmax :: "pixel ndarray \<Rightarrow> py_error + pixel" where
  "np_nanmax a =
     (if flat a = [] then Inl (ValueError ''zero-size array to reduction operation'')
      else case concat (map (\<lambda>p. case p of NaN \<Rightarrow> [] | Val r \<Rightarrow> [r]) (flat a)) of
             [] \<Rightarrow> Inr NaN
           | r # rs \<Rightarrow> Inr (Val (fold max rs r)))"

definition scale_pixel :: "real \<Rightarrow> pixel \<Rightarrow> pixel" where
  "scale_pixel k p = (case p of NaN \<Rightarrow> NaN | Val r \<Rightarrow> Val (r * k))"

definition divide_pixel :: "real \<Rightarrow> pixel \<Rightarrow> pixel" where
  "divide_pixel m p = (case p of NaN \<Rightarrow> NaN | Val r \<Rightarrow> Val (r / m))"

text \<open>
  The calibration block, the same in both workers (lines 810-834 and 1386-1417): the
  brightness temperature of an infrared channel; for the others \<open>radiance * kappa0\<close>,
  or \<open>radiance / max\<close> when the record has no \<open>kappa0\<close>.
\<close>

definition calibration_block ::
  "'e channel_kernels \<Rightarrow> string \<Rightarrow> raw_data \<Rightarrow> pixel ndarray \<Rightarrow> py_error + pixel ndarray" where
  "calibration_block K channel_code raw rad =
     (if channel_type raw = ''ir'' then
        Inr (radiance_to_brightness_temp (numba_radiance_to_brightness_temp K) rad channel_code
               (simple_mock_ds raw))
      else
        (case kappa0 raw of
           Some k \<Rightarrow>
             Inr (if NUMBA_AVAILABLE then numba_visible_calibration K rad k
                  else map_array (scale_pixel k) rad)
         | None \<Rightarrow>
             (case np_nanmax rad of
                Inl e \<Rightarrow> Inl e
              | Inr NaN \<Rightarrow> Inr rad
              | Inr (Val max_val) \<Rightarrow>
                  Inr (if 0 < max_val then map_array (divide_pixel max_val) rad else rad))))"

text \<open>
  The resampling block, the same in both workers (lines 840-847 and 1379-1383).  The
  quotient \<^verbatim>\<open>target_shape[0] / current_shape[0]\<close> raises \<^verbatim>\<open>ZeroDivisionError\<close>.
\<close>

definition upscale_block ::
  "'e channel_kernels \<Rightarrow> nat \<times> nat \<Rightarrow> nat \<times> nat \<Rightarrow> pixel ndarray \<Rightarrow> py_error + pixel ndarray" where
  "upscale_block K current_shape target_shape a =
     (if current_shape \<noteq> target_shape then
        (if fst current_shape = 0 \<or> snd current_shape = 0 then Inl ZeroDivisionError
         else
           let zoom_factor = (binary64 (real (fst target_shape) / real (fst current_shape)),
                              binary64 (real (snd target_shape) / real (snd current_shape)))
           in if zoom_factor \<noteq> (1, 1) then fast_upscale_array (upscale_kernels K) a zoom_factor
              else Inr a)
      else Inr a)"

text \<open>The enhancement block (lines 850-853, 1402 and 1419).\<close>

definition enhancement_block :: "'e channel_kernels \<Rightarrow> raw_data \<Rightarrow> string \<Rightarrow> pixel ndarray \<Rightarrow> 'e ndarray" where
  "enhancement_block K raw channel_code calibrated =
     (if channel_type raw = ''ir'' then enhance_ir_channel K calibrated channel_code
      else enhance_visible_channel K calibrated)"

text \<open>The tail of a worker: the result dictionary, or the \<^verbatim>\<open>except\<close> branch.\<close>

definition worker_result_of ::
  "string \<Rightarrow> raw_data \<Rightarrow> nat \<times> nat \<Rightarrow> string option \<Rightarrow>
   py_error + pixel ndarray \<times> 'e ndarray \<Rightarrow> 'e worker_result" where
  "worker_result_of channel_code raw target_shape level outcome =
     (case outcome of
        Inl e \<Rightarrow> Failure channel_code e
      | Inr (calibrated, enhanced) \<Rightarrow>
          Success channel_code calibrated enhanced (channel_type raw)
            \<lparr> md_file_path = file_path raw, md_shape = target_shape, md_band_id = band_id raw,
              md_data_level = level,
              md_time_coverage_start = time_coverage_start raw,
              md_time_coverage_end = time_coverage_end raw,
              md_orbital_slot = orbital_slot raw \<rparr>
            (coordinates raw))"

text \<open>
  \<^verbatim>\<open>standard_conus_worker\<close> (lines 1361-1460): the radiance is resampled, then
  calibrated, then enhanced.
\<close>

type_synonym standard_task = "string \<times> raw_data \<times> (nat \<times> nat) \<times> (nat \<times> nat) option"

definition standard_conus_worker :: "'e channel_kernels \<Rightarrow> standard_task \<Rightarrow> 'e worker_result" where
  "standard_conus_worker K task_data =
     (case task_data of (channel_code, raw, target_shape, reference_shape) \<Rightarrow>
        worker_result_of channel_code raw target_shape None
          (case radiance raw of
             None \<Rightarrow> Inl (KeyError ''radiance'')
           | Some rad \<Rightarrow>
               (case upscale_block K (native_shape raw) target_shape rad of
                  Inl e \<Rightarrow> Inl e
                | Inr upscaled \<Rightarrow>
                    (case calibration_block K channel_code raw upscaled of
                       Inl e \<Rightarrow> Inl e
                     | Inr calibrated \<Rightarrow>
                         Inr (calibrated, enhancement_block K raw channel_code calibrated)))))"

text \<open>
  \<^verbatim>\<open>level2_aware_worker\<close> (lines 788-895): a level 2 record is already calibrated; a
  level 1b record is calibrated first; the calibrated array is then resampled and
  enhanced.
\<close>

type_synonym level2_task =
  "string \<times> raw_data \<times> (nat \<times> nat) \<times> (nat \<times> nat) option \<times> string"

definition level2_aware_worker :: "'e channel_kernels \<Rightarrow> level2_task \<Rightarrow> 'e worker_result" where
  "level2_aware_worker K task_data =
     (case task_data of (channel_code, raw, target_shape, reference_shape, domain_type) \<Rightarrow>
        let level = (case data_level raw of None \<Rightarrow> ''level1b'' | Some l \<Rightarrow> l) in
        worker_result_of channel_code raw target_shape (Some level)
          (case (if level = ''level2'' then
                   (case calibrated_data raw of
                      None \<Rightarrow> Inl (KeyError ''calibrated_data'') | Some c \<Rightarrow> Inr c)
                 else
                   (case radiance raw of
                      None \<Rightarrow> Inl (KeyError ''radiance'')
                    | Some rad \<Rightarrow> calibration_block K channel_code raw rad)) of
             Inl e \<Rightarrow> Inl e
           | Inr calibrated \<Rightarrow>
               (case upscale_block K (native_shape raw) target_shape calibrated of
                  Inl e \<Rightarrow> Inl e
                | Inr upscaled \<Rightarrow> Inr (upscaled, enhancement_block K raw channel_code upscaled))))"

text \<open>
  The pipeline in the order the specification gives for every task: calibrate the raw
  radiance, resample the calibrated array, enhance.
\<close>

definition spec_pipeline ::
  "'e channel_kernels \<Rightarrow> string \<Rightarrow> raw_data \<Rightarrow> nat \<times> nat \<Rightarrow> pixel ndarray \<Rightarrow>
   py_error + pixel ndarray \<times> 'e ndarray" where
  "spec_pipeline K channel_code raw target_shape rad =
     (case calibration_block K channel_code raw rad of
        Inl e \<Rightarrow> Inl e
      | Inr calibrated \<Rightarrow>
          (case upscale_block K (native_shape raw) target_shape calibrated of
             Inl e \<Rightarrow> Inl e
           | Inr upscaled \<Rightarrow> Inr (upscaled, enhancement_block K raw channel_code upscaled)))"

section \<open>Solar geometry\<close>

text \<open>
  \<^verbatim>\<open>create_valid_coordinate_mask\<close> (lines 589-608).  The two coordinate arguments are
  either both one-dimensional axes, which the function crosses with \<^verbatim>\<open>meshgrid\<close>
  (\<open>x\<close> along the columns, \<open>y\<close> along the rows), or already grids, taken as they
  are (grids of one shape: NumPy's broadcasting of unequal shapes is outside this
  model).  The result is the mask and the two grids scaled by the satellite height.
\<close>

datatype coords = Axes "real list" "real list" | Grids "real ndarray" "real ndarray"

definition earth_radius :: real where
  "earth_radius = 6378137"

definition default_sat_height :: real where
  "default_sat_height = 35786023"

text \<open>
  \<^verbatim>\<open>np.arcsin(earth_radius / sat_height)\<close>: the quotient of two Python floats raises on
  a zero height, and \<^verbatim>\<open>np.arcsin\<close> is \<open>NaN\<close> outside \<open>[-1, 1]\<close>.  A comparison with
  \<open>NaN\<close> is false.
\<close>

definition max_viewing_angle_of :: "real \<Rightarrow> py_error + pixel" where
  "max_viewing_angle_of sat_height =
     (if sat_height = 0 then Inl ZeroDivisionError
      else if \<bar>earth_radius / sat_height\<bar> \<le> 1 then Inr (Val (arcsin (earth_radius / sat_height)))
      else Inr NaN)"

definition le_pixel_sq :: "real \<Rightarrow> pixel \<Rightarrow> bool" where
  "le_pixel_sq r p = (case p of NaN \<Rightarrow> False | Val a \<Rightarrow> r \<le> a\<^sup>2)"

definition create_valid_coordinate_mask ::
  "coords \<Rightarrow> real \<Rightarrow> py_error + bool ndarray \<times> real ndarray \<times> real ndarray" where
  "create_valid_coordinate_mask xy sat_height =
     (case max_viewing_angle_of sat_height of
        Inl e \<Rightarrow> Inl e
      | Inr max_viewing_angle \<Rightarrow>
          (let (x_2d, y_2d) =
                 (case xy of
                    Axes xs ys \<Rightarrow>
                      (tabulate2 (length ys, length xs) (\<lambda>i j. xs ! j),
                       tabulate2 (length ys, length xs) (\<lambda>i j. ys ! i))
                  | Grids gx gy \<Rightarrow> (gx, gy));
               r_squared =
                 NdArray (shape x_2d) (map2 (\<lambda>x y. x\<^sup>2 + y\<^sup>2) (flat x_2d) (flat y_2d));
               valid_mask = map_array (\<lambda>r. le_pixel_sq r max_viewing_angle) r_squared
           in Inr (valid_mask,
                   map_array (\<lambda>x. x * sat_height) x_2d,
                   map_array (\<lambda>y. y * sat_height) y_2d)))"

text \<open>
  The \<^verbatim>\<open>try\<close> block of the two solar-angle functions reprojects with \<^verbatim>\<open>pyproj\<close> and
  resizes with \<^verbatim>\<open>scipy\<close>; here it is its outcome: the two grids it returned, or an
  exception, with the parsed scan time (hour, minute) when the name \<^verbatim>\<open>scan_time\<close> was
  bound before the exception was raised.
\<close>

datatype solar_attempt =
    Returned "pixel ndarray" "pixel ndarray"
  | Raised "(nat \<times> nat) option"

definition clip :: "real \<Rightarrow> real \<Rightarrow> real \<Rightarrow> real" where
  "clip v lo hi = min (max v lo) hi"

definition radians :: "real \<Rightarrow> real" where
  "radians d = d * pi / 180"

definition cos_of_degrees :: "pixel \<Rightarrow> pixel" where
  "cos_of_degrees p = (case p of NaN \<Rightarrow> NaN | Val v \<Rightarrow> Val (cos (radians v)))"

text \<open>\<^verbatim>\<open>np.linspace(0, 1, n)\<close>, cell \<open>j\<close>.\<close>

definition linspace01 :: "nat \<Rightarrow> nat \<Rightarrow> real" where
  "linspace01 n j = (if n \<le> 1 then 0 else real j / real (n - 1))"

text \<open>
  The fallback of \<^verbatim>\<open>compute_solar_angles_enhanced\<close> (lines 1125-1162).  Its report of
  the range applies \<^verbatim>\<open>np.nanmin\<close> to the grid, which raises on a grid without cells.
\<close>

definition enhanced_fallback ::
  "coordinate_data \<Rightarrow> (nat \<times> nat) option \<Rightarrow> py_error + pixel ndarray \<times> pixel ndarray" where
  "enhanced_fallback cd scan_time =
     (let full_shape = (length (y_coords cd), length (x_coords cd))
      in case create_valid_coordinate_mask (Axes (x_coords cd) (y_coords cd)) default_sat_height of
           Inl e \<Rightarrow> Inl e
         | Inr (valid_mask, x_grid, y_grid) \<Rightarrow>
             (case scan_time of
                Some (hour, minute) \<Rightarrow>
                  (let utc_hour = real hour + real minute / 60;
                       base_sza = max (90 - 15 * \<bar>utc_hour - 12\<bar>) 20;
                       sza = tabulate2 full_shape
                               (\<lambda>i j. if cell valid_mask i j
                                      then Val (clip (base_sza
                                                       + (linspace01 (snd full_shape) j - 0.5) * 30)
                                                  10 120)
                                      else NaN);
                       cos_sza = tabulate2 full_shape
                               (\<lambda>i j. if cell valid_mask i j then cos_of_degrees (cell sza i j)
                                      else NaN)
                   in if flat sza = [] then Inl (ValueError ''zero-size array to reduction operation'')
                      else Inr (sza, cos_sza))
              | None \<Rightarrow>
                  Inr (tabulate2 full_shape (\<lambda>i j. if cell valid_mask i j then Val 60 else NaN),
                       tabulate2 full_shape
                         (\<lambda>i j. if cell valid_mask i j then Val (cos (radians 60)) else NaN))))"

text \<open>\<^verbatim>\<open>compute_solar_angles_enhanced\<close> (lines 897-1166); \<open>None\<close> is \<^verbatim>\<open>(None, None)\<close>.\<close>

definition compute_solar_angles_enhanced ::
  "solar_attempt \<Rightarrow> coordinate_data option \<Rightarrow> (pixel ndarray \<times> pixel ndarray) option" where
  "compute_solar_angles_enhanced attempt cd_opt =
     (case cd_opt of
        None \<Rightarrow> None
      | Some cd \<Rightarrow>
          (case attempt of
             Returned sza_full cos_sza_full \<Rightarrow> Some (sza_full, cos_sza_full)
           | Raised scan_time \<Rightarrow>
               (case enhanced_fallback cd scan_time of
                  Inr grids \<Rightarrow> Some grids
                | Inl fallback_error \<Rightarrow> None)))"

text \<open>
  \<^verbatim>\<open>compute_solar_angles_simple\<close> (lines 1462-1591).  Its fallback is not guarded: the
  report of the range applies \<^verbatim>\<open>np.min\<close> to the grid and the exception leaves the
  function.
\<close>

definition simple_fallback ::
  "coordinate_data \<Rightarrow> (nat \<times> nat) option \<Rightarrow> py_error + pixel ndarray \<times> pixel ndarray" where
  "simple_fallback cd scan_time =
     (let full_shape = (length (y_coords cd), length (x_coords cd))
      in case scan_time of
           Some (hour, minute) \<Rightarrow>
             (let utc_hour = real hour + real minute / 60;
                  base_sza = max (90 - 15 * \<bar>utc_hour - 12\<bar>) 30;
                  sza = tabulate2 full_shape
                          (\<lambda>i j. Val (clip (base_sza + (real j / real (snd full_shape) - 0.5) * 20)
                                        20 120))
              in if flat sza = [] then Inl (ValueError ''zero-size array to reduction operation'')
                 else Inr (sza, map_array cos_of_degrees sza))
         | None \<Rightarrow>
             Inr (np_full full_shape (Val 60), map_array cos_of_degrees (np_full full_shape (Val 60))))"

definition compute_solar_angles_simple ::
  "solar_attempt \<Rightarrow> coordinate_data option \<Rightarrow>
   py_error + (pixel ndarray \<times> pixel ndarray) option" where
  "compute_solar_angles_simple attempt cd_opt =
     (case cd_opt of
        None \<Rightarrow> Inr None
      | Some cd \<Rightarrow>
          (case attempt of
             Returned sza_full cos_sza_full \<Rightarrow> Inr (Some (sza_full, cos_sza_full))
           | Raised scan_time \<Rightarrow>
               (case simple_fallback cd scan_time of
                  Inr grids \<Rightarrow> Inr (Some grids)
                | Inl e \<Rightarrow> Inl e)))"

section \<open>Orchestration\<close>

text \<open>
  The requirement tables (lines 610-624 and 1336-1345).  They hold three values only, so
  the last \<^verbatim>\<open>else\<close> of the two target-shape functions, which returns the reference
  shape, is never taken and a requirement is a datatype.  A code the table does not have
  is \<open>native\<close>.
\<close>

datatype requirement = Native | Upscale_2x | Upscale_4x

definition get_standard_channel_requirements :: "(string \<times> requirement) list" where
  "get_standard_channel_requirements =
     [(''C02'', Native), (''C04'', Native), (''C09'', Native),
      (''C11'', Upscale_4x), (''C12'', Upscale_4x), (''C14'', Upscale_4x),
      (''C15'', Upscale_4x), (''C16'', Native),
      (''C01'', Upscale_2x), (''C03'', Upscale_2x), (''C05'', Upscale_2x),
      (''C06'', Upscale_4x), (''C07'', Upscale_4x), (''C08'', Upscale_4x),
      (''C10'', Upscale_4x), (''C13'', Upscale_4x)]"

definition get_level2_channel_requirements :: "string \<Rightarrow> (string \<times> requirement) list" where
  "get_level2_channel_requirements domain_type =
     (if domain_type = ''full_disk''
      then map (\<lambda>ch. (ch, Native))
             [''C01'', ''C02'', ''C03'', ''C04'', ''C05'', ''C06'', ''C07'', ''C08'',
              ''C09'', ''C10'', ''C11'', ''C12'', ''C13'', ''C14'', ''C15'', ''C16'']
      else get_standard_channel_requirements)"

definition get_standard_target_shape ::
  "string \<Rightarrow> nat \<times> nat \<Rightarrow> (nat \<times> nat) option \<Rightarrow> nat \<times> nat" where
  "get_standard_target_shape channel_code native reference_shape =
     (case (case map_of get_standard_channel_requirements channel_code of
              None \<Rightarrow> Native | Some r \<Rightarrow> r) of
        Native \<Rightarrow> native
      | Upscale_2x \<Rightarrow> (fst native * 2, snd native * 2)
      | Upscale_4x \<Rightarrow> (fst native * 4, snd native * 4))"

definition get_target_shape ::
  "string \<Rightarrow> nat \<times> nat \<Rightarrow> (nat \<times> nat) option \<Rightarrow> string \<Rightarrow> nat \<times> nat" where
  "get_target_shape channel_code native reference_shape domain_type =
     (case (case map_of (get_level2_channel_requirements domain_type) channel_code of
              None \<Rightarrow> Native | Some r \<Rightarrow> r) of
        Native \<Rightarrow> native
      | Upscale_2x \<Rightarrow> (fst native * 2, snd native * 2)
      | Upscale_4x \<Rightarrow> (fst native * 4, snd native * 4))"

text \<open>
  The reference shape (lines 1210-1220, 1622-1632 and 1776-1786, the same block three
  times).  \<^verbatim>\<open>raw_data_store\<close> is a dictionary in insertion order.
\<close>

definition pixel_count :: "raw_data \<Rightarrow> nat" where
  "pixel_count d = fst (native_shape d) * snd (native_shape d)"

definition largest_so_far ::
  "raw_data \<Rightarrow> nat \<times> (nat \<times> nat) option \<Rightarrow> nat \<times> (nat \<times> nat) option" where
  "largest_so_far d acc =
     (case acc of (max_pixels, reference_shape) \<Rightarrow>
        if max_pixels < pixel_count d then (pixel_count d, Some (native_shape d))
        else (max_pixels, reference_shape))"

definition determine_reference_shape :: "(string \<times> raw_data) list \<Rightarrow> (nat \<times> nat) option" where
  "determine_reference_shape raw_data_store =
     (case map_of raw_data_store ''C02'' of
        Some c02 \<Rightarrow> Some (native_shape c02)
      | None \<Rightarrow> snd (fold largest_so_far (map snd raw_data_store) (0, None)))"

text \<open>The task lists of the three paths (lines 1228-1234, 1640-1644, 1794-1799).\<close>

definition standard_tasks :: "(string \<times> raw_data) list \<Rightarrow> standard_task list" where
  "standard_tasks raw_data_store =
     (let reference_shape = determine_reference_shape raw_data_store
      in map (\<lambda>(channel_code, raw).
                (channel_code, raw,
                 get_standard_target_shape channel_code (native_shape raw) reference_shape,
                 reference_shape))
           raw_data_store)"

definition full_disk_tasks :: "(string \<times> raw_data) list \<Rightarrow> standard_task list" where
  "full_disk_tasks raw_data_store =
     (let reference_shape = determine_reference_shape raw_data_store
      in map (\<lambda>(channel_code, raw). (channel_code, raw, native_shape raw, reference_shape))
           raw_data_store)"

definition level2_tasks :: "string \<Rightarrow> (string \<times> raw_data) list \<Rightarrow> level2_task list" where
  "level2_tasks domain_type raw_data_store =
     (let reference_shape = determine_reference_shape raw_data_store
      in map (\<lambda>(channel_code, raw).
                (channel_code, raw,
                 get_target_shape channel_code (native_shape raw) reference_shape domain_type,
                 reference_shape, domain_type))
           raw_data_store)"

text \<open>
  \<^verbatim>\<open>ChannelDataStore\<close> (lines 498-535).  Its two dictionaries are association lists in
  insertion order; assigning to a key that is there replaces the value in place.
\<close>

record 'e channel_entry =
  calibrated :: "pixel ndarray"
  enhanced :: "'e ndarray"
  entry_channel_type :: string
  entry_shape :: "nat \<times> nat"

record 'e ChannelDataStore =
  channels :: "(string \<times> 'e channel_entry) list"
  metadata_dict :: "(string \<times> metadata) list"
  stored_coordinate_data :: "coordinate_data option"
  solar_angles :: "(pixel ndarray \<times> pixel ndarray) option"

definition new_store :: "'e ChannelDataStore" where
  "new_store = \<lparr> channels = [], metadata_dict = [], stored_coordinate_data = None,
                 solar_angles = None \<rparr>"

text \<open>
  Modelled from the spec: the class \<^verbatim>\<open>OptimizedMemoryStore\<close>, which \<^verbatim>\<open>process_level2_aware\<close>
  builds at line 1183, is not in the sources.  It is taken to be the channel store of the
  specification, a "mapping from channel code to {calibrated, enhanced, metadata}" that
  starts empty, and the methods and attributes that \<^verbatim>\<open>process_level2_aware\<close> uses
  (\<^verbatim>\<open>store_channel\<close>, \<^verbatim>\<open>store_coordinate_data\<close>, \<^verbatim>\<open>store_solar_angles\<close>,
  \<^verbatim>\<open>coordinate_data\<close>, \<^verbatim>\<open>metadata\<close>) are taken to be those of \<^verbatim>\<open>ChannelDataStore\<close>.
\<close>

definition OptimizedMemoryStore :: "'e ChannelDataStore" where
  "OptimizedMemoryStore = new_store"

fun dict_set :: "('k \<times> 'v) list \<Rightarrow> 'k \<Rightarrow> 'v \<Rightarrow> ('k \<times> 'v) list" where
  "dict_set [] k v = [(k, v)]"
| "dict_set ((k', v') # kvs) k v =
     (if k' = k then (k, v) # kvs else (k', v') # dict_set kvs k v)"

definition store_channel ::
  "'e ChannelDataStore \<Rightarrow> string \<Rightarrow> pixel ndarray \<Rightarrow> 'e ndarray \<Rightarrow> string \<Rightarrow> metadata \<Rightarrow>
   'e ChannelDataStore" where
  "store_channel st channel_code calibrated_arr enhanced_arr ctype md =
     st \<lparr> channels := dict_set (channels st) channel_code
                         \<lparr> calibrated = calibrated_arr, enhanced = enhanced_arr,
                           entry_channel_type = ctype, entry_shape = shape calibrated_arr \<rparr>,
          metadata_dict := dict_set (metadata_dict st) channel_code md \<rparr>"

definition store_coordinate_data ::
  "'e ChannelDataStore \<Rightarrow> real list \<Rightarrow> real list \<Rightarrow> projection_info \<Rightarrow> 'e ChannelDataStore" where
  "store_coordinate_data st xs ys proj =
     st \<lparr> stored_coordinate_data :=
            Some \<lparr> x_coords = xs, y_coords = ys, projection_info = proj,
                   primary_channel = ''C02'' \<rparr> \<rparr>"

text \<open>
  The body of the aggregation loop, the same in its parallel and its sequential form:
  a successful result is stored, a failed one is counted.  The state is the store and
  the two counters.
\<close>

definition merge_result ::
  "'e worker_result \<Rightarrow> 'e ChannelDataStore \<times> nat \<times> nat \<Rightarrow> 'e ChannelDataStore \<times> nat \<times> nat" where
  "merge_result result state =
     (case state of (st, successful, failed) \<Rightarrow>
        (case result of
           Success channel_code calibrated_arr enhanced_arr ctype md coord \<Rightarrow>
             (let st1 = store_channel st channel_code calibrated_arr enhanced_arr ctype md;
                  st2 = (case coord of
                           None \<Rightarrow> st1
                         | Some c \<Rightarrow>
                             store_coordinate_data st1 (x_coords c) (y_coords c) (projection_info c))
              in (st2, successful + 1, failed))
         | Failure channel_code e \<Rightarrow> (st, successful, failed + 1)))"

text \<open>
  The configuration and the environment of a run.  \<open>as_completed\<close> is the order in which
  the pool hands back the futures' results; \<open>solar_try_block\<close> is the outcome of the
  \<^verbatim>\<open>try\<close> block of the solar-angle function for given coordinate data and scan time
  string.  \<^verbatim>\<open>MAX_PARALLEL_WORKERS\<close> only bounds the pool.
\<close>

record 'e run_env =
  ENABLE_PARALLEL_PROCESSING :: bool
  ENABLE_SOLAR_ANGLES :: bool
  as_completed :: "'e worker_result list \<Rightarrow> 'e worker_result list"
  solar_try_block :: "coordinate_data \<Rightarrow> string option \<Rightarrow> solar_attempt"

text \<open>
  Phase 2 of a path, on the store that the path has built: the pool when it is enabled
  and there are two tasks or more.
\<close>

definition run_channel_tasks ::
  "'e ChannelDataStore \<Rightarrow> 'e run_env \<Rightarrow> ('t \<Rightarrow> 'e worker_result) \<Rightarrow> 't list \<Rightarrow>
   'e ChannelDataStore \<times> nat \<times> nat" where
  "run_channel_tasks data_store env worker tasks =
     (if ENABLE_PARALLEL_PROCESSING env \<and> 1 < length tasks
      then fold merge_result (as_completed env (map worker tasks)) (data_store, 0, 0)
      else fold merge_result (map worker tasks) (data_store, 0, 0))"

text \<open>
  \<^verbatim>\<open>scan_time\<close> for the solar angles: the start time of the first key of the metadata
  dictionary.
\<close>

definition first_scan_time :: "'e ChannelDataStore \<Rightarrow> string option" where
  "first_scan_time st =
     (case metadata_dict st of [] \<Rightarrow> None | (k, md) # rest \<Rightarrow> Some (md_time_coverage_start md))"

definition process_standard_conus ::
  "'e run_env \<Rightarrow> 'e channel_kernels \<Rightarrow> (string \<times> raw_data) list \<Rightarrow> py_error + 'e ChannelDataStore" where
  "process_standard_conus env K raw_data_store =
     (if raw_data_store = [] then Inr new_store
      else
        let st = fst (run_channel_tasks new_store env (standard_conus_worker K) (standard_tasks raw_data_store))
        in case (if ENABLE_SOLAR_ANGLES env then stored_coordinate_data st else None) of
             None \<Rightarrow> Inr st
           | Some cd \<Rightarrow>
               (case compute_solar_angles_simple (solar_try_block env cd (first_scan_time st))
                       (Some cd) of
                  Inl e \<Rightarrow> Inl e
                | Inr None \<Rightarrow> Inr st
                | Inr (Some angles) \<Rightarrow> Inr (st \<lparr> solar_angles := Some angles \<rparr>)))"

definition process_enhanced_full_disk ::
  "'e run_env \<Rightarrow> 'e channel_kernels \<Rightarrow> (string \<times> raw_data) list \<Rightarrow> 'e ChannelDataStore" where
  "process_enhanced_full_disk env K raw_data_store =
     (if raw_data_store = [] then new_store
      else
        let st = fst (run_channel_tasks new_store env (standard_conus_worker K) (full_disk_tasks raw_data_store))
        in case (if ENABLE_SOLAR_ANGLES env then stored_coordinate_data st else None) of
             None \<Rightarrow> st
           | Some cd \<Rightarrow>
               (case compute_solar_angles_enhanced (solar_try_block env cd (first_scan_time st))
                       (Some cd) of
                  None \<Rightarrow> st
                | Some angles \<Rightarrow> st \<lparr> solar_angles := Some angles \<rparr>))"

text \<open>
  \<^verbatim>\<open>process_level2_aware\<close> (lines 1168-1330) builds an \<^verbatim>\<open>OptimizedMemoryStore\<close> where the
  other two paths build a \<^verbatim>\<open>ChannelDataStore\<close>, and does not return early on an empty
  raw data store.
\<close>

definition process_level2_aware ::
  "'e run_env \<Rightarrow> 'e channel_kernels \<Rightarrow> string \<Rightarrow> (string \<times> raw_data) list \<Rightarrow> 'e ChannelDataStore" where
  "process_level2_aware env K domain_type raw_data_store =
     (let st = fst (run_channel_tasks OptimizedMemoryStore env (level2_aware_worker K)
                      (level2_tasks domain_type raw_data_store))
      in case (if ENABLE_SOLAR_ANGLES env then stored_coordinate_data st else None) of
           None \<Rightarrow> st
         | Some cd \<Rightarrow>
             (case compute_solar_angles_enhanced (solar_try_block env cd (first_scan_time st))
                     (Some cd) of
                None \<Rightarrow> st
              | Some angles \<Rightarrow> st \<lparr> solar_angles := Some angles \<rparr>))"

text \<open>
  The contents of a store by channel code: what a lookup in each of its two dictionaries
  gives.  \<open>result_code\<close> is the \<^verbatim>\<open>channel_code\<close> entry of a result, and \<open>view_update\<close>
  is what storing a result does to the contents.
\<close>

definition store_view ::
  "'e ChannelDataStore \<Rightarrow> (string \<rightharpoonup> 'e channel_entry) \<times> (string \<rightharpoonup> metadata)" where
  "store_view st = (map_of (channels st), map_of (metadata_dict st))"

definition result_code :: "'e worker_result \<Rightarrow> string" where
  "result_code result =
     (case result of
        Success channel_code calibrated_arr enhanced_arr ctype md coord \<Rightarrow> channel_code
      | Failure channel_code e \<Rightarrow> channel_code)"

definition view_update ::
  "'e worker_result \<Rightarrow> (string \<rightharpoonup> 'e channel_entry) \<times> (string \<rightharpoonup> metadata) \<Rightarrow>
   (string \<rightharpoonup> 'e channel_entry) \<times> (string \<rightharpoonup> metadata)" where
  "view_update result v =
     (case result of
        Success channel_code calibrated_arr enhanced_arr ctype md coord \<Rightarrow>
          ((fst v)(channel_code \<mapsto>
              \<lparr> calibrated = calibrated_arr, enhanced = enhanced_arr,
                entry_channel_type = ctype, entry_shape = shape calibrated_arr \<rparr>),
           (snd v)(channel_code \<mapsto> md))
      | Failure channel_code e \<Rightarrow> v)"

text \<open>Two environments for closed examples: no pool, and a pool that completes in reverse.\<close>

definition sequential_env :: "'e run_env" where
  "sequential_env =
     \<lparr> ENABLE_PARALLEL_PROCESSING = False, ENABLE_SOLAR_ANGLES = True,
       as_completed = (\<lambda>rs. rs), solar_try_block = (\<lambda>cd s. Raised None) \<rparr>"

definition reversing_pool_env :: "'e run_env" where
  "reversing_pool_env =
     \<lparr> ENABLE_PARALLEL_PROCESSING = True, ENABLE_SOLAR_ANGLES = True,
       as_completed = rev, solar_try_block = (\<lambda>cd s. Raised None) \<rparr>"

section \<open>RGB products\<close>

text \<open>\<^verbatim>\<open>RGB_CATALOG\<close> (lines 2047-2161), in its order; the descriptions are left out.\<close>

record product_info =
  required_channels :: "string list"
  worker_name :: string
  category :: string

definition RGB_CATALOG :: "(string \<times> product_info) list" where
  "RGB_CATALOG =
     [
      (''geocolor'',
       \<lparr> required_channels = [''C01'', ''C02'', ''C03'', ''C07'', ''C13''],
         worker_name = ''rgb_worker_geocolor'', category = ''core'' \<rparr>),
      (''cloud_microphysics'',
       \<lparr> required_channels = [''C02'', ''C05'', ''C07'', ''C13'', ''C15''],
         worker_name = ''rgb_worker_cloud_microphysics'', category = ''core'' \<rparr>),
      (''true_color'',
       \<lparr> required_channels = [''C01'', ''C02'', ''C03''],
         worker_name = ''rgb_worker_true_color'', category = ''basic'' \<rparr>),
      (''day_cloud_phase'',
       \<lparr> required_channels = [''C02'', ''C05'', ''C13''],
         worker_name = ''rgb_worker_day_cloud_phase'', category = ''basic'' \<rparr>),
      (''airmass'',
       \<lparr> required_channels = [''C08'', ''C10'', ''C12'', ''C13''],
         worker_name = ''rgb_worker_airmass'', category = ''atmospheric'' \<rparr>),
      (''simple_water_vapor'',
       \<lparr> required_channels = [''C08'', ''C09'', ''C10''],
         worker_name = ''rgb_worker_simple_water_vapor'', category = ''atmospheric'' \<rparr>),
      (''differential_water_vapor'',
       \<lparr> required_channels = [''C08'', ''C10''],
         worker_name = ''rgb_worker_differential_water_vapor'', category = ''atmospheric'' \<rparr>),
      (''dust'',
       \<lparr> required_channels = [''C11'', ''C13'', ''C14'', ''C15''],
         worker_name = ''rgb_worker_dust'', category = ''hazards'' \<rparr>),
      (''ash'',
       \<lparr> required_channels = [''C11'', ''C13'', ''C15''],
         worker_name = ''rgb_worker_ash'', category = ''hazards'' \<rparr>),
      (''fire_temperature'',
       \<lparr> required_channels = [''C07'', ''C06'', ''C05''],
         worker_name = ''rgb_worker_fire_temperature'', category = ''hazards'' \<rparr>),
      (''day_land_cloud_fire'',
       \<lparr> required_channels = [''C06'', ''C03'', ''C02''],
         worker_name = ''rgb_worker_day_land_cloud_fire'', category = ''hazards'' \<rparr>),
      (''day_snow_fog'',
       \<lparr> required_channels = [''C03'', ''C05'', ''C07'', ''C13''],
         worker_name = ''rgb_worker_day_snow_fog'', category = ''weather'' \<rparr>),
      (''night_microphysics'',
       \<lparr> required_channels = [''C07'', ''C13'', ''C15''],
         worker_name = ''rgb_worker_night_microphysics'', category = ''weather'' \<rparr>),
      (''split_window'',
       \<lparr> required_channels = [''C13'', ''C15''],
         worker_name = ''rgb_worker_split_window_optimized'', category = ''weather'' \<rparr>),
      (''split_window_difference'',
       \<lparr> required_channels = [''C13'', ''C15''],
         worker_name = ''rgb_worker_split_window_difference'', category = ''weather'' \<rparr>),
      (''day_snow_fog_night_fog'',
       \<lparr> required_channels = [''C03'', ''C05'', ''C07'', ''C13''],
         worker_name = ''rgb_worker_day_snow_fog_night_fog'', category = ''weather'' \<rparr>),
      (''sandwich'',
       \<lparr> required_channels = [''C02'', ''C13''],
         worker_name = ''rgb_worker_sandwich_optimized'', category = ''composite'' \<rparr>)]"

text \<open>
  What an RGB worker returns: the dictionary with the image and the method, or the one
  with the error.  A worker of the registry is a function of the channel data and of the
  solar angles (the pair of the \<^verbatim>\<open>sza\<close> and the \<^verbatim>\<open>cos_sza\<close> grids, or \<^verbatim>\<open>None\<close>) that
  returns such a dictionary or raises.  The type \<open>'p\<close> is the cell type of an RGB image.
\<close>

datatype rgb_error = MissingChannelsError "string list" | WorkerError py_error

datatype 'p rgb_result = RgbSuccess "'p ndarray" string | RgbFailure rgb_error

type_synonym ('e, 'p) rgb_worker =
  "(string \<rightharpoonup> 'e channel_entry) \<Rightarrow> (pixel ndarray \<times> pixel ndarray) option \<Rightarrow>
   py_error + 'p rgb_result"

text \<open>What \<^verbatim>\<open>create_rgb_products_unified\<close> prints about a product, as a report.\<close>

datatype rgb_event =
    AllChannelsAvailable string
  | MissingChannels string "string list"
  | UnknownProduct string
  | WorkerNotFound string
  | ProductCreated string
  | ProductFailed string rgb_error
  | ProductException string py_error

record 'p rgb_run =
  rgb_products :: "(string \<times> 'p ndarray) list"
  report :: "rgb_event list"

text \<open>\<^verbatim>\<open>RGB_PRODUCTS_TO_CREATE if RGB_PRODUCTS_TO_CREATE else list(RGB_CATALOG.keys())\<close>.\<close>

definition requested_products :: "string list option \<Rightarrow> string list" where
  "requested_products to_create =
     (case to_create of
        None \<Rightarrow> map fst RGB_CATALOG
      | Some [] \<Rightarrow> map fst RGB_CATALOG
      | Some (name # names) \<Rightarrow> name # names)"

definition missing_channels :: "string list \<Rightarrow> string list \<Rightarrow> string list" where
  "missing_channels required available = filter (\<lambda>ch. ch \<notin> set available) required"

text \<open>
  The first loop (lines 3130-3141).  A possible product keeps its catalogue entry, which
  the second loop looks up again by a lookup that cannot fail.
\<close>

definition availability_event :: "string list \<Rightarrow> string \<Rightarrow> rgb_event" where
  "availability_event available rgb_name =
     (case map_of RGB_CATALOG rgb_name of
        None \<Rightarrow> UnknownProduct rgb_name
      | Some info \<Rightarrow>
          if missing_channels (required_channels info) available = []
          then AllChannelsAvailable rgb_name
          else MissingChannels rgb_name (missing_channels (required_channels info) available))"

definition possible_products :: "string list \<Rightarrow> string list \<Rightarrow> (string \<times> product_info) list" where
  "possible_products available requested =
     concat (map (\<lambda>rgb_name.
                    case map_of RGB_CATALOG rgb_name of
                      None \<Rightarrow> []
                    | Some info \<Rightarrow>
                        if missing_channels (required_channels info) available = []
                        then [(rgb_name, info)] else [])
               requested)"

text \<open>The body of the second loop (lines 3184-3216).\<close>

definition build_product ::
  "(string \<rightharpoonup> ('e, 'p) rgb_worker) \<Rightarrow> (string \<rightharpoonup> 'e channel_entry) \<Rightarrow>
   (pixel ndarray \<times> pixel ndarray) option \<Rightarrow> string \<times> product_info \<Rightarrow> 'p rgb_run \<Rightarrow> 'p rgb_run" where
  "build_product worker_registry channels_data solar_angles_data product run =
     (case product of (product_name, info) \<Rightarrow>
        (case worker_registry (worker_name info) of
           None \<Rightarrow> run \<lparr> report := report run @ [WorkerNotFound (worker_name info)] \<rparr>
         | Some worker_func \<Rightarrow>
             (case worker_func channels_data solar_angles_data of
                Inl e \<Rightarrow> run \<lparr> report := report run @ [ProductException product_name e] \<rparr>
              | Inr (RgbFailure err) \<Rightarrow>
                  run \<lparr> report := report run @ [ProductFailed product_name err] \<rparr>
              | Inr (RgbSuccess rgb_data method) \<Rightarrow>
                  run \<lparr> rgb_products := dict_set (rgb_products run) product_name rgb_data,
                        report := report run @ [ProductCreated product_name] \<rparr>)))"

text \<open>
  \<^verbatim>\<open>create_rgb_products_unified\<close> (lines 3114-3225).  The temporary directory and the
  pickled copies are left out.
\<close>

definition create_rgb_products_unified ::
  "(string \<rightharpoonup> ('e, 'p) rgb_worker) \<Rightarrow> string list option \<Rightarrow>
   (string \<times> 'e channel_entry) list \<Rightarrow> (pixel ndarray \<times> pixel ndarray) option \<Rightarrow> 'p rgb_run" where
  "create_rgb_products_unified worker_registry to_create store_channels store_solar_angles =
     (let available_channels = map fst store_channels;
          requested = requested_products to_create;
          events = map (availability_event available_channels) requested;
          possible = possible_products available_channels requested
      in if possible = [] then \<lparr> rgb_products = [], report = events \<rparr>
         else fold (build_product worker_registry (map_of store_channels) store_solar_angles)
                possible \<lparr> rgb_products = [], report = events \<rparr>)"

text \<open>
  The five registered workers that read \<^verbatim>\<open>solar_angles_data\<close>.  Each reads the calibrated
  arrays of its channels and hands them, with the solar grid, to a Numba kernel of
  another cell, a parameter here.  The geocolor worker also calls helpers of other
  cells: \<open>geocolor_land_mask\<close> is the outcome of \<^verbatim>\<open>prepare_mesoscale_nightlights\<close> (called
  for a mesoscale domain) followed by \<^verbatim>\<open>get_land_mask_for_geocolor\<close>, and
  \<^verbatim>\<open>create_coordinate_grids\<close> that of the helper of this name.  \<open>day_snow_fog_numpy\<close> is
  the NumPy expression of lines 2716-2727, which does not read the solar grid.
\<close>

record ('p, 'm, 'g) rgb_kernels =
  numba_geocolor_core ::
    "pixel ndarray \<Rightarrow> pixel ndarray \<Rightarrow> pixel ndarray \<Rightarrow> pixel ndarray \<Rightarrow> pixel ndarray \<Rightarrow>
     pixel ndarray \<Rightarrow> pixel ndarray \<Rightarrow> 'm \<Rightarrow> 'g \<Rightarrow> 'p ndarray"
  numba_true_color_core_enhanced ::
    "pixel ndarray \<Rightarrow> pixel ndarray \<Rightarrow> pixel ndarray \<Rightarrow> pixel ndarray \<Rightarrow> 'p ndarray"
  numba_cloud_microphysics_core ::
    "pixel ndarray \<Rightarrow> pixel ndarray \<Rightarrow> pixel ndarray \<Rightarrow> pixel ndarray \<Rightarrow> pixel ndarray \<Rightarrow>
     pixel ndarray \<Rightarrow> 'p ndarray"
  numba_day_snow_fog_night_fog_core ::
    "pixel ndarray \<Rightarrow> pixel ndarray \<Rightarrow> pixel ndarray \<Rightarrow> pixel ndarray \<Rightarrow> pixel ndarray \<Rightarrow>
     'p ndarray"
  day_snow_fog_numpy ::
    "pixel ndarray \<Rightarrow> pixel ndarray \<Rightarrow> pixel ndarray \<Rightarrow> pixel ndarray \<Rightarrow> 'p ndarray"
  numba_sandwich_enhanced_core :: "pixel ndarray \<Rightarrow> pixel ndarray \<Rightarrow> pixel ndarray \<Rightarrow> 'p ndarray"
  geocolor_land_mask :: "py_error + 'm"
  create_coordinate_grids :: "real list \<Rightarrow> real list \<Rightarrow> nat \<times> nat \<Rightarrow> py_error + 'g"

text \<open>Lines 2345-2352: the pair \<open>(cos_sza, sza)\<close> of the geocolor worker.\<close>

definition geocolor_solar_inputs ::
  "nat \<times> nat \<Rightarrow> (pixel ndarray \<times> pixel ndarray) option \<Rightarrow> pixel ndarray \<times> pixel ndarray" where
  "geocolor_solar_inputs blue_shape solar_angles_data =
     (case solar_angles_data of
        Some (sza, cos_sza) \<Rightarrow> (cos_sza, sza)
      | None \<Rightarrow> (np_full blue_shape (Val 0.707), np_full blue_shape (Val 45)))"

text \<open>Lines 2458-2461: the true-colour worker reads the cosine only.\<close>

definition true_color_cos_sza ::
  "nat \<times> nat \<Rightarrow> (pixel ndarray \<times> pixel ndarray) option \<Rightarrow> pixel ndarray" where
  "true_color_cos_sza blue_shape solar_angles_data =
     (case solar_angles_data of
        Some (sza, cos_sza) \<Rightarrow> cos_sza
      | None \<Rightarrow> np_full blue_shape (Val 0.707))"

text \<open>Lines 2639-2642.\<close>

definition cloud_microphysics_sza ::
  "nat \<times> nat \<Rightarrow> (pixel ndarray \<times> pixel ndarray) option \<Rightarrow> pixel ndarray" where
  "cloud_microphysics_sza red_shape solar_angles_data =
     (case solar_angles_data of
        Some (sza, cos_sza) \<Rightarrow> sza
      | None \<Rightarrow> np_full red_shape (Val 60))"

text \<open>Lines 2703-2707.\<close>

definition day_snow_fog_night_fog_sza ::
  "nat \<times> nat \<Rightarrow> (pixel ndarray \<times> pixel ndarray) option \<Rightarrow> pixel ndarray" where
  "day_snow_fog_night_fog_sza c03_shape solar_angles_data =
     (case solar_angles_data of
        Some (sza, cos_sza) \<Rightarrow> sza
      | None \<Rightarrow> np_full c03_shape (Val 80))"

text \<open>Lines 2749-2756; the source's comment on the default: \<^verbatim>\<open>Default to twilight\<close>.\<close>

definition sandwich_sza ::
  "nat \<times> nat \<Rightarrow> (pixel ndarray \<times> pixel ndarray) option \<Rightarrow> pixel ndarray" where
  "sandwich_sza vis_shape solar_angles_data =
     (case solar_angles_data of
        Some (sza, cos_sza) \<Rightarrow> sza
      | None \<Rightarrow> np_full vis_shape (Val 80))"

definition calibrated_of :: "(string \<rightharpoonup> 'e channel_entry) \<Rightarrow> string \<Rightarrow> pixel ndarray" where
  "calibrated_of channels_data ch =
     (case channels_data ch of Some entry \<Rightarrow> calibrated entry | None \<Rightarrow> NdArray (0, 0) [])"

definition missing_from :: "string list \<Rightarrow> (string \<rightharpoonup> 'e channel_entry) \<Rightarrow> string list" where
  "missing_from required channels_data = filter (\<lambda>ch. channels_data ch = None) required"

text \<open>
  \<^verbatim>\<open>rgb_worker_geocolor\<close> (lines 2322-2382).  A worker catches what its body raises, so
  it never raises itself.  \<open>calibrated_of\<close> is read only for channels that the check
  above it has found.  \<^verbatim>\<open>COORDINATE_DATA\<close> is the module's global of line 1941, the
  coordinate data of the channel store or \<^verbatim>\<open>None\<close>; lines 2359-2360 index it, which
  raises \<^verbatim>\<open>TypeError\<close> on \<^verbatim>\<open>None\<close>.
\<close>

definition rgb_worker_geocolor ::
  "('p, 'm, 'g) rgb_kernels \<Rightarrow> coordinate_data option \<Rightarrow> ('e, 'p) rgb_worker" where
  "rgb_worker_geocolor R COORDINATE_DATA channels_data solar_angles_data =
     (let missing = missing_from [''C01'', ''C02'', ''C03'', ''C07'', ''C13''] channels_data
      in if missing \<noteq> [] then Inr (RgbFailure (MissingChannelsError missing))
         else
           let blue_ref = calibrated_of channels_data ''C01'';
               red_ref = calibrated_of channels_data ''C02'';
               nir_ref = calibrated_of channels_data ''C03'';
               c13_bt = calibrated_of channels_data ''C13'';
               c07_bt = calibrated_of channels_data ''C07'';
               (cos_sza, sza) = geocolor_solar_inputs (shape blue_ref) solar_angles_data
           in case geocolor_land_mask R of
                Inl e \<Rightarrow> Inr (RgbFailure (WorkerError e))
              | Inr land_mask \<Rightarrow>
                  (case COORDINATE_DATA of
                     None \<Rightarrow>
                       Inr (RgbFailure
                              (WorkerError (TypeError ''NoneType object is not subscriptable'')))
                   | Some coords \<Rightarrow>
                       (case create_coordinate_grids R (x_coords coords) (y_coords coords)
                               (shape blue_ref) of
                          Inl e \<Rightarrow> Inr (RgbFailure (WorkerError e))
                        | Inr grids \<Rightarrow>
                            Inr (RgbSuccess
                                   (numba_geocolor_core R blue_ref red_ref nir_ref c13_bt c07_bt
                                      cos_sza sza land_mask grids)
                                   ''geocolor_enhanced_mesoscale''))))"

text \<open>\<^verbatim>\<open>rgb_worker_true_color\<close> (lines 2442-2473).\<close>

definition rgb_worker_true_color :: "('p, 'm, 'g) rgb_kernels \<Rightarrow> ('e, 'p) rgb_worker" where
  "rgb_worker_true_color R channels_data solar_angles_data =
     (let missing = missing_from [''C01'', ''C02'', ''C03''] channels_data
      in if missing \<noteq> [] then Inr (RgbFailure (MissingChannelsError missing))
         else
           let blue_ref = calibrated_of channels_data ''C01'';
               red_ref = calibrated_of channels_data ''C02'';
               nir_ref = calibrated_of channels_data ''C03'';
               cos_sza = true_color_cos_sza (shape blue_ref) solar_angles_data
           in Inr (RgbSuccess (numba_true_color_core_enhanced R blue_ref red_ref nir_ref cos_sza)
                     ''true_color_enhanced''))"

text \<open>\<^verbatim>\<open>rgb_worker_cloud_microphysics\<close> (lines 2620-2654).\<close>

definition rgb_worker_cloud_microphysics :: "('p, 'm, 'g) rgb_kernels \<Rightarrow> ('e, 'p) rgb_worker" where
  "rgb_worker_cloud_microphysics R channels_data solar_angles_data =
     (let missing = missing_from [''C02'', ''C05'', ''C07'', ''C13'', ''C15''] channels_data
      in if missing \<noteq> [] then Inr (RgbFailure (MissingChannelsError missing))
         else
           let red_ref = calibrated_of channels_data ''C02'';
               snow_ice_ref = calibrated_of channels_data ''C05'';
               swir_bt = calibrated_of channels_data ''C07'';
               clean_ir_bt = calibrated_of channels_data ''C13'';
               dirty_ir_bt = calibrated_of channels_data ''C15'';
               sza = cloud_microphysics_sza (shape red_ref) solar_angles_data
           in Inr (RgbSuccess
                     (numba_cloud_microphysics_core R red_ref snow_ice_ref swir_bt clean_ir_bt
                        dirty_ir_bt sza)
                     ''cloud_microphysics_goes2go_night''))"

text \<open>
  \<^verbatim>\<open>rgb_worker_day_snow_fog_night_fog_core\<close> (lines 2688-2733), registered under the name
  \<^verbatim>\<open>rgb_worker_day_snow_fog_night_fog\<close>.
\<close>

definition rgb_worker_day_snow_fog_night_fog_core ::
  "('p, 'm, 'g) rgb_kernels \<Rightarrow> ('e, 'p) rgb_worker" where
  "rgb_worker_day_snow_fog_night_fog_core R channels_data solar_angles_data =
     (let missing = missing_from [''C03'', ''C05'', ''C07'', ''C13''] channels_data
      in if missing \<noteq> [] then Inr (RgbFailure (MissingChannelsError missing))
         else
           let c03_ref = calibrated_of channels_data ''C03'';
               c05_ref = calibrated_of channels_data ''C05'';
               c07_bt = calibrated_of channels_data ''C07'';
               c13_bt = calibrated_of channels_data ''C13'';
               sza = day_snow_fog_night_fog_sza (shape c03_ref) solar_angles_data
           in Inr (RgbSuccess
                     (if NUMBA_AVAILABLE
                      then numba_day_snow_fog_night_fog_core R c03_ref c05_ref c07_bt c13_bt sza
                      else day_snow_fog_numpy R c03_ref c05_ref c07_bt c13_bt)
                     ''fog_detection_24h_day_snow_fog_night_fog''))"

text \<open>\<^verbatim>\<open>rgb_worker_sandwich_optimized\<close> (lines 2735-2767).\<close>

definition kelvin_to_celsius :: "pixel \<Rightarrow> pixel" where
  "kelvin_to_celsius p = (case p of NaN \<Rightarrow> NaN | Val t \<Rightarrow> Val (t - 273.15))"

definition rgb_worker_sandwich_optimized :: "('p, 'm, 'g) rgb_kernels \<Rightarrow> ('e, 'p) rgb_worker" where
  "rgb_worker_sandwich_optimized R channels_data solar_angles_data =
     (let missing = missing_from [''C02'', ''C13''] channels_data
      in if missing \<noteq> [] then Inr (RgbFailure (MissingChannelsError missing))
         else
           let vis_ref = calibrated_of channels_data ''C02'';
               ir_bt = calibrated_of channels_data ''C13'';
               ir_bt_celsius = map_array kelvin_to_celsius ir_bt;
               sza = sandwich_sza (shape vis_ref) solar_angles_data
           in Inr (RgbSuccess (numba_sandwich_enhanced_core R vis_ref ir_bt_celsius sza)
                     ''sandwich_temperature_filtered_solar_corrected''))"

text \<open>
  For closed examples: a store entry around a calibrated array, kernels that paint every
  cell black, and a registry with the sandwich worker and a true-colour worker that
  raises.
\<close>

definition sample_entry :: "pixel ndarray \<Rightarrow> pixel channel_entry" where
  "sample_entry a =
     \<lparr> calibrated = a, enhanced = a, entry_channel_type = ''ir'', entry_shape = shape a \<rparr>"

definition black_kernels :: "(nat \<times> nat \<times> nat, unit, unit) rgb_kernels" where
  "black_kernels =
     \<lparr> numba_geocolor_core =
         (\<lambda>blue red nir c13 c07 cos_sza sza land_mask grids. map_array (\<lambda>p. (0, 0, 0)) blue),
       numba_true_color_core_enhanced = (\<lambda>blue red nir cos_sza. map_array (\<lambda>p. (0, 0, 0)) blue),
       numba_cloud_microphysics_core =
         (\<lambda>red snow swir clean dirty sza. map_array (\<lambda>p. (0, 0, 0)) red),
       numba_day_snow_fog_night_fog_core =
         (\<lambda>c03 c05 c07 c13 sza. map_array (\<lambda>p. (0, 0, 0)) c03),
       day_snow_fog_numpy = (\<lambda>c03 c05 c07 c13. map_array (\<lambda>p. (0, 0, 0)) c03),
       numba_sandwich_enhanced_core = (\<lambda>vis ir sza. map_array (\<lambda>p. (0, 0, 0)) vis),
       geocolor_land_mask = Inr (),
       create_coordinate_grids = (\<lambda>xs ys s. Inr ()) \<rparr>"

definition sample_registry :: "string \<rightharpoonup> (pixel, nat \<times> nat \<times> nat) rgb_worker" where
  "sample_registry =
     [''rgb_worker_sandwich_optimized'' \<mapsto> rgb_worker_sandwich_optimized black_kernels,
      ''rgb_worker_true_color'' \<mapsto> (\<lambda>channels_data solar. Inl (ValueError ''out of memory''))]"

definition sample_channels :: "(string \<times> pixel channel_entry) list" where
  "sample_channels =
     [(''C01'', sample_entry (NdArray (1, 1) [Val 0.1])),
      (''C02'', sample_entry (NdArray (1, 1) [Val 0.2])),
      (''C03'', sample_entry (NdArray (1, 1) [Val 0.3])),
      (''C13'', sample_entry (NdArray (1, 1) [Val 280]))]"

text \<open>A store that holds every channel the five workers read.\<close>

definition sample_all_channels :: "(string \<times> pixel channel_entry) list" where
  "sample_all_channels =
     [(''C01'', sample_entry (NdArray (1, 1) [Val 0.1])),
      (''C02'', sample_entry (NdArray (1, 1) [Val 0.2])),
      (''C03'', sample_entry (NdArray (1, 1) [Val 0.3])),
      (''C05'', sample_entry (NdArray (1, 1) [Val 0.4])),
      (''C07'', sample_entry (NdArray (1, 1) [Val 290])),
      (''C13'', sample_entry (NdArray (1, 1) [Val 280])),
      (''C15'', sample_entry (NdArray (1, 1) [Val 275]))]"

text \<open>Records for closed examples.\<close>

definition sample_record :: "string \<Rightarrow> nat \<times> nat \<Rightarrow> pixel ndarray \<Rightarrow> raw_data" where
  "sample_record ctype s rad =
     \<lparr> radiance = Some rad, calibrated_data = None, native_shape = s, band_id = Some 13,
       channel_type = ctype, data_level = Some ''level1b'',
       planck_fk1 = None, planck_fk2 = None, planck_bc1 = None, planck_bc2 = None,
       kappa0 = None, time_coverage_start = ''2024-06-01T18:00:00.0Z'',
       time_coverage_end = ''2024-06-01T18:05:00.0Z'', orbital_slot = ''GOES-East'',
       file_path = ''C13.nc'', coordinates = None \<rparr>"

text \<open>
  A second sample of the absent kernels, for closed examples only: the \<open>4x\<close> kernel
  averages horizontally between neighbours, the calibration kernels are the NumPy
  expressions of the source, and the enhancement is the identity.
\<close>

definition mean_pixel :: "pixel \<Rightarrow> pixel \<Rightarrow> pixel" where
  "mean_pixel p q = (case p of NaN \<Rightarrow> NaN | Val a \<Rightarrow> (case q of NaN \<Rightarrow> NaN | Val b \<Rightarrow> Val ((a + b) / 2)))"

definition averaging_kernels :: "pixel channel_kernels" where
  "averaging_kernels =
     \<lparr> upscale_kernels =
         nearest_kernels
           \<lparr> numba_fast_upscale_4x :=
               (\<lambda>d s i j. mean_pixel (cell d (i div 4) (j div 4))
                             (cell d (i div 4) (min ((j + 2) div 4) (snd (shape d) - 1)))) \<rparr>,
       numba_radiance_to_brightness_temp = numpy_brightness_temp,
       numba_visible_calibration = (\<lambda>rad k. map_array (scale_pixel k) rad),
       enhance_ir_channel = (\<lambda>a code. a),
       enhance_visible_channel = (\<lambda>a. a) \<rparr>"

definition calibrated_cell :: "'e worker_result \<Rightarrow> nat \<Rightarrow> nat \<Rightarrow> pixel option" where
  "calibrated_cell result i j =
     (case result of
        Success channel_code calibrated_arr enhanced_arr ctype md coord \<Rightarrow>
          Some (cell calibrated_arr i j)
      | Failure channel_code e \<Rightarrow> None)"

text \<open>Coordinate data for closed examples: a GOES-East projection and the given axes.\<close>

definition sample_coordinate_data :: "real list \<Rightarrow> real list \<Rightarrow> coordinate_data" where
  "sample_coordinate_data xs ys =
     \<lparr> x_coords = xs, y_coords = ys,
       projection_info = \<lparr> longitude_of_projection_origin = - 75,
                           perspective_point_height = 35786023 \<rparr>,
       primary_channel = ''C02'' \<rparr>"

text \<open>A raw data store for closed examples: one visible channel with its coordinates.\<close>

definition sample_raw_store :: "(string \<times> raw_data) list" where
  "sample_raw_store =
     [(''C02'', (sample_record ''visible'' (1, 2) (NdArray (1, 2) [Val 1, Val 2]))
                  \<lparr> coordinates := Some (sample_coordinate_data [0, 2] [0]) \<rparr>)]"

section \<open>Theorems\<close>

subsection \<open>Path selection (C8)\<close>

text \<open>
  C8.  The selected path is a function of the three pieces of metadata alone: level 2
  data or a download summary selects \<open>level2_aware\<close>; otherwise a full-disk domain
  selects \<open>enhanced_full_disk\<close>; otherwise the path is \<open>standard_conus\<close>.
\<close>

theorem determine_processing_path_cases:
  "(level = ''level2'' \<or> has_summary \<longrightarrow>
      determine_processing_path has_summary level domain = ''level2_aware'')
   \<and> (level \<noteq> ''level2'' \<and> \<not> has_summary \<and> domain = ''full_disk'' \<longrightarrow>
      determine_processing_path has_summary level domain = ''enhanced_full_disk'')
   \<and> (level \<noteq> ''level2'' \<and> \<not> has_summary \<and> domain \<noteq> ''full_disk'' \<longrightarrow>
      determine_processing_path has_summary level domain = ''standard_conus'')"
  by (simp add: determine_processing_path_def)

theorem determine_processing_path_cases_witness:
  "determine_processing_path True ''level1b'' ''conus'' = ''level2_aware''
   \<and> determine_processing_path False ''level2'' ''full_disk'' = ''level2_aware''
   \<and> determine_processing_path False ''level1b'' ''full_disk'' = ''enhanced_full_disk''
   \<and> determine_processing_path False ''level1b'' ''mesoscale'' = ''standard_conus''"
  using determine_processing_path_cases [of "''level1b''" True "''conus''"]
    determine_processing_path_cases [of "''level2''" False "''full_disk''"]
    determine_processing_path_cases [of "''level1b''" False "''full_disk''"]
    determine_processing_path_cases [of "''level1b''" False "''mesoscale''"]
  by simp

subsection \<open>Resampled shape (C2)\<close>

lemma shape_tabulate2 [simp]: "shape (tabulate2 s f) = s"
  by (simp add: tabulate2_def)

lemma zeros_then_fill_shape:
  "0 \<le> fst t \<Longrightarrow> 0 \<le> snd t \<Longrightarrow>
   \<exists>out. zeros_then_fill t k = Inr out \<and> shape out = (nat (fst t), nat (snd t))"
  by (simp add: zeros_then_fill_def Let_def)

lemma round_half_even_of_int [simp]: "round_half_even (of_int z) = z"
  by (simp add: round_half_even_def)

lemma binary64_exponent:
  assumes "2 powr of_int E \<le> \<bar>x\<bar>" "\<bar>x\<bar> < 2 powr (of_int E + 1)"
  shows "binary64 x = of_int (round_half_even (x / 2 powr of_int (E - 52))) * 2 powr of_int (E - 52)"
proof -
  have pos: "0 < \<bar>x\<bar>" using assms(1) by (smt (verit) powr_gt_zero)
  then have nz: "x \<noteq> 0" by auto
  have "of_int E \<le> log 2 \<bar>x\<bar>" using assms(1) pos by (simp add: le_log_iff)
  moreover have "log 2 \<bar>x\<bar> < of_int E + 1" using assms(2) pos by (simp add: log_less_iff)
  ultimately have "\<lfloor>log 2 \<bar>x\<bar>\<rfloor> = E" by linarith
  then show ?thesis using nz by (simp add: binary64_def Let_def)
qed

lemma binary64_dyadic:
  assumes "m \<noteq> 0" "\<bar>m\<bar> < 2 ^ 53"
  shows "binary64 (of_int m * 2 powr of_int k) = of_int m * 2 powr of_int k"
proof -
  define L where "L = \<lfloor>log 2 (of_int \<bar>m\<bar>)\<rfloor>"
  have m1: "1 \<le> (of_int \<bar>m\<bar> :: real)" using assms(1) by (simp add: of_int_1_le_iff [symmetric] del: of_int_1_le_iff) 
  have L0: "0 \<le> L" unfolding L_def using m1 by (simp add: zero_le_log_cancel_iff)
  have "(of_int \<bar>m\<bar> :: real) < 2 ^ 53" using assms(2) by (metis of_int_less_iff of_int_numeral of_int_power)
  then have "log 2 (of_int \<bar>m\<bar>) < 53" using m1 by (simp add: log_less_iff powr_realpow [symmetric])
  then have L52: "L \<le> 52" unfolding L_def by linarith
  have lo: "2 powr of_int L \<le> (of_int \<bar>m\<bar> :: real)"
    unfolding L_def using m1 by (simp add: le_log_iff [symmetric])
  have hi: "(of_int \<bar>m\<bar> :: real) < 2 powr (of_int L + 1)"
    unfolding L_def using m1 by (simp add: log_less_iff [symmetric])
  let ?x = "of_int m * 2 powr of_int k :: real"
  have ax: "\<bar>?x\<bar> = of_int \<bar>m\<bar> * 2 powr of_int k" by (simp add: abs_mult)
  have a: "2 powr of_int (L + k) \<le> \<bar>?x\<bar>"
    unfolding ax using lo by (simp add: powr_add)
  have b: "\<bar>?x\<bar> < 2 powr (of_int (L + k) + 1)"
    unfolding ax using hi by (simp add: powr_add algebra_simps)
  have q: "?x / 2 powr of_int (L + k - 52) = of_int (m * 2 ^ nat (52 - L))"
  proof -
    have "?x / 2 powr of_int (L + k - 52) = of_int m * 2 powr (of_int k - of_int (L + k - 52))"
      by (simp only: powr_diff [of 2 "of_int k" "of_int (L + k - 52)"] times_divide_eq_right)
    also have "of_int k - of_int (L + k - 52) = (real (nat (52 - L)))"
      using L52 by simp
    also have "of_int m * 2 powr real (nat (52 - L)) = of_int (m * 2 ^ nat (52 - L))"
      by (simp add: powr_realpow)
    finally show ?thesis .
  qed
  have "binary64 ?x = of_int (m * 2 ^ nat (52 - L)) * 2 powr of_int (L + k - 52)"
    unfolding binary64_exponent [OF a b] q round_half_even_of_int by (rule refl)
  also have "\<dots> = of_int m * (2 powr real (nat (52 - L)) * 2 powr of_int (L + k - 52))"
    by (simp add: powr_realpow)
  also have "2 powr real (nat (52 - L)) * 2 powr of_int (L + k - 52) = (2::real) powr of_int k"
    using L52 by (simp add: powr_add [symmetric])
  finally show ?thesis .
qed

lemma binary64_of_nat: "n < 2 ^ 53 \<Longrightarrow> binary64 (real n) = real n"
proof (cases "n = 0")
  case True then show ?thesis by (simp add: binary64_def)
next
  case False
  assume "n < 2 ^ 53"
  then have "\<bar>int n\<bar> < 2 ^ 53" by (metis abs_of_nat of_nat_less_iff of_nat_numeral of_nat_power)
  then show ?thesis using binary64_dyadic [of "int n" 0] False by simp
qed

lemma binary64_quarters:
  assumes "0 < n" "n < 2 ^ 53"
  shows "binary64 (real n / 4) = real n / 4"
proof -
  have "\<bar>int n\<bar> < 2 ^ 53"
    using assms(2) by (metis abs_of_nat of_nat_less_iff of_nat_numeral of_nat_power)
  then show ?thesis
    using binary64_dyadic [of "int n" "- 2"] assms(1) by (simp add: powr_minus_divide)
qed

lemma binary64_four_thirds: "binary64 (4 / 3) = 6004799503160661 / 2 ^ 52"
proof -
  have "binary64 (4 / 3)
      = of_int (round_half_even ((4 / 3) / 2 powr of_int (0 - 52))) * 2 powr of_int (0 - 52)"
    by (rule binary64_exponent) simp_all
  also have "(4 / 3) / 2 powr of_int (0 - 52) = (4 / 3 * 2 ^ 52 :: real)"
    by (simp add: powr_minus_divide)
  also have "round_half_even (4 / 3 * 2 ^ 52) = 6004799503160661"
    by (simp add: round_half_even_def Let_def)
  finally show ?thesis by (simp add: powr_minus_divide)
qed

lemma binary64_small [simp]:
  "binary64 1 = 1" "binary64 2 = 2" "binary64 4 = 4"
  using binary64_of_nat [of 1] binary64_of_nat [of 2] binary64_of_nat [of 4] by simp_all

lemma py_int_of_nat [simp]: "py_int (real n) = int n"
  by (simp add: py_int_def)

lemma py_int_binary64_mult:
  assumes "n < 2 ^ 51"
  shows "py_int (binary64 (real n * 2)) = int (n * 2)" "py_int (binary64 (real n * 4)) = int (n * 4)"
proof -
  have "n * 2 < 2 ^ 53" "n * 4 < 2 ^ 53" using assms by simp_all
  then have "binary64 (real (n * 2)) = real (n * 2)" "binary64 (real (n * 4)) = real (n * 4)"
    by (simp_all only: binary64_of_nat)
  then have "py_int (binary64 (real (n * 2))) = int (n * 2)"
    "py_int (binary64 (real (n * 4))) = int (n * 4)"
    by (simp_all only: py_int_of_nat)
  then show "py_int (binary64 (real n * 2)) = int (n * 2)"
    "py_int (binary64 (real n * 4)) = int (n * 4)"
    by simp_all
qed

text \<open>The declared rules: on an array of any realistic size the shape is doubled or quadrupled.\<close>

lemma fast_upscale_array_2x:
  assumes "fst (shape data) < 2 ^ 51" "snd (shape data) < 2 ^ 51"
  shows "fast_upscale_array K data (2, 2) =
     Inr (tabulate2 (fst (shape data) * 2, snd (shape data) * 2)
            (numba_fast_upscale_2x K data (fst (shape data) * 2, snd (shape data) * 2)))"
  by (simp add: fast_upscale_array_def NUMBA_AVAILABLE_def Let_def zeros_then_fill_def
      py_int_binary64_mult [OF assms(1)] py_int_binary64_mult [OF assms(2)] del: of_nat_mult)

lemma fast_upscale_array_4x:
  assumes "fst (shape data) < 2 ^ 51" "snd (shape data) < 2 ^ 51"
  shows "fast_upscale_array K data (4, 4) =
     Inr (tabulate2 (fst (shape data) * 4, snd (shape data) * 4)
            (numba_fast_upscale_4x K data (fst (shape data) * 4, snd (shape data) * 4)))"
  by (simp add: fast_upscale_array_def NUMBA_AVAILABLE_def Let_def zeros_then_fill_def
      py_int_binary64_mult [OF assms(1)] py_int_binary64_mult [OF assms(2)] del: of_nat_mult)

text \<open>
  The products are rounded before they are truncated: \<open>3 * (4 / 3)\<close> in binary64 is \<open>4\<close>,
  although the float \<open>4 / 3\<close> lies below the fraction.
\<close>

lemma binary64_three_times_four_thirds: "py_int (binary64 (real 3 * binary64 (4 / 3))) = 4"
proof -
  let ?x = "real 3 * (6004799503160661 / 2 ^ 52)"
  have "binary64 ?x
      = of_int (round_half_even (?x / 2 powr of_int (1 - 52))) * 2 powr of_int (1 - 52)"
    by (rule binary64_exponent) simp_all
  also have "?x / 2 powr of_int (1 - 52) = (18014398509481983 / 2 :: real)"
    by (simp add: powr_minus_divide)
  also have "round_half_even (18014398509481983 / 2) = 9007199254740992"
    by (simp add: round_half_even_def Let_def)
  finally have "binary64 ?x = 4" by (simp add: powr_minus_divide)
  then show ?thesis by (simp add: binary64_four_thirds py_int_def)
qed

text \<open>
  C2 fails on the code.  A zoom factor of \<open>(1, 1)\<close> does return the input itself, but line
  754 truncates the product with \<^verbatim>\<open>int\<close> where the claim rounds it: a \<open>5 \<times> 5\<close> array zoomed
  by \<open>(1.75, 1.75)\<close> (\<open>5\<close>, \<open>1.75\<close> and \<open>8.75\<close> are exact in binary64) comes back \<open>8 \<times> 8\<close>,
  while \<open>round 8.75 = 9\<close>.
\<close>

theorem fast_upscale_array_truncates:
  "fast_upscale_array nearest_kernels (np_full (5, 5) (0::real)) (1, 1)
     = Inr (np_full (5, 5) 0)
   \<and> map_sum id shape
        (fast_upscale_array nearest_kernels (np_full (5, 5) (0::real)) (1.75, 1.75)) = Inr (8, 8)
   \<and> (nat (round (real 5 * 1.75)), nat (round (real 5 * 1.75))) = (9 :: nat, 9 :: nat)"
proof -
  have p: "binary64 (35 / 4) = 35 / 4"
    using binary64_quarters [of 35] by simp
  have t: "py_int (35 / 4) = 8"
    by (simp add: py_int_def)
  have r: "binary64 (5 / 8) = 5 / 8"
    using binary64_dyadic [of 5 "- 3"] by (simp add: powr_minus_divide)
  have "map_sum id shape
        (fast_upscale_array nearest_kernels (np_full (5, 5) (0::real)) (1.75, 1.75)) = Inr (8, 8)"
    by (simp add: fast_upscale_array_def NUMBA_AVAILABLE_def Let_def zeros_then_fill_def
        np_full_def p t r)
  moreover have "(nat (round (real 5 * 1.75)), nat (round (real 5 * 1.75))) = (9 :: nat, 9 :: nat)"
    by (simp add: round_def)
  moreover have "fast_upscale_array nearest_kernels (np_full (5, 5) (0::real)) (1, 1)
     = Inr (np_full (5, 5) 0)"
    by (simp add: fast_upscale_array_def)
  ultimately show ?thesis by blast
qed

subsection \<open>Infrared calibration (C3)\<close>

text \<open>The NumPy branch of the source computes what the kernel is specified to compute.\<close>

lemma numpy_agrees: "numpy_brightness_temp = spec_brightness_temp_kernel"
  by (intro ext) (auto simp add: numpy_brightness_temp_def spec_brightness_temp_kernel_def
      map_array_def divide_inverse mult.commute split: pixel.splits)

lemma planck_constants_dataset:
  "planck_constants code (Some (SimpleMockDataset (Some a) (Some b) (Some c) (Some d))) = (a, b, c, d)"
  by (simp add: planck_constants_def dataset_constants_def py_float_def)

lemma dataset_constants_Inl:
  "fk1_values d = None \<or> fk2_values d = None \<or> bc1_values d = None \<or> bc2_values d = None
   \<Longrightarrow> \<exists>e. dataset_constants d = Inl e"
  by (auto simp add: dataset_constants_def py_float_def split: option.splits)

lemma planck_constants_None:
  "planck_constants code None =
     unpack_constants (case map_of CHANNEL_CONSTANTS code of Some t \<Rightarrow> t | None \<Rightarrow> C13_CONSTANTS)"
  by (simp add: planck_constants_def split: option.splits)

lemma planck_constants_incomplete:
  assumes "fk1_values d = None \<or> fk2_values d = None \<or> bc1_values d = None \<or> bc2_values d = None"
  shows "planck_constants code (Some d) =
     unpack_constants (case map_of CHANNEL_CONSTANTS code of Some t \<Rightarrow> t | None \<Rightarrow> C13_CONSTANTS)"
proof -
  obtain e where "dataset_constants d = Inl e"
    using dataset_constants_Inl [OF assms] by blast
  then show ?thesis
    by (simp add: planck_constants_def)
qed


lemma unrecognised_code:
  "code \<notin> set (map fst CHANNEL_CONSTANTS) \<Longrightarrow> map_of CHANNEL_CONSTANTS code = None"
  by (simp add: map_of_eq_None_iff)

text \<open>
  C3.  The constants are the dataset's four when all four are there; otherwise the
  table row of the channel code, and the row of \<open>C13\<close> for a code the table does not
  have.  With the constants \<open>fk1\<close>, \<open>fk2\<close>, \<open>bc1\<close>, \<open>bc2\<close> so chosen, the result has
  the shape of the input and holds, cell by cell,
  \<open>(fk2 / ln (fk1 / r + 1) - bc1) / bc2\<close> where the radiance \<open>r\<close> is positive and \<open>NaN\<close>
  elsewhere.
\<close>

theorem radiance_to_brightness_temp_planck:
  "(ds = Some (SimpleMockDataset (Some a) (Some b) (Some c) (Some d)) \<longrightarrow>
      planck_constants channel_code ds = (a, b, c, d))
   \<and> ((ds = None \<or> (\<exists>m. ds = Some m \<and> (fk1_values m = None \<or> fk2_values m = None
                                     \<or> bc1_values m = None \<or> bc2_values m = None))) \<longrightarrow>
      (\<forall>row. map_of CHANNEL_CONSTANTS channel_code = Some row \<longrightarrow>
          planck_constants channel_code ds = unpack_constants row)
      \<and> (channel_code \<notin> set (map fst CHANNEL_CONSTANTS) \<longrightarrow>
          planck_constants channel_code ds = unpack_constants C13_CONSTANTS))
   \<and> (planck_constants channel_code ds = (fk1, fk2, bc1, bc2) \<longrightarrow>
      shape (radiance_to_brightness_temp spec_brightness_temp_kernel rad channel_code ds)
        = shape rad
      \<and> length (flat (radiance_to_brightness_temp spec_brightness_temp_kernel rad channel_code ds))
        = length (flat rad)
      \<and> (\<forall>k < length (flat rad).
           flat (radiance_to_brightness_temp spec_brightness_temp_kernel rad channel_code ds) ! k =
             (case flat rad ! k of
                NaN \<Rightarrow> NaN
              | Val r \<Rightarrow> if 0 < r then Val ((fk2 / ln (fk1 / r + 1) - bc1) / bc2) else NaN)))"
proof (intro conjI impI allI)
  assume "ds = Some (SimpleMockDataset (Some a) (Some b) (Some c) (Some d))"
  then show "planck_constants channel_code ds = (a, b, c, d)"
    by (simp add: planck_constants_dataset)
next
  fix row
  assume i: "ds = None \<or> (\<exists>m. ds = Some m \<and> (fk1_values m = None \<or> fk2_values m = None
                                     \<or> bc1_values m = None \<or> bc2_values m = None))"
    and r: "map_of CHANNEL_CONSTANTS channel_code = Some row"
  from i show "planck_constants channel_code ds = unpack_constants row"
    using r by (auto simp add: planck_constants_None planck_constants_incomplete)
next
  assume i: "ds = None \<or> (\<exists>m. ds = Some m \<and> (fk1_values m = None \<or> fk2_values m = None
                                     \<or> bc1_values m = None \<or> bc2_values m = None))"
    and r: "channel_code \<notin> set (map fst CHANNEL_CONSTANTS)"
  from i show "planck_constants channel_code ds = unpack_constants C13_CONSTANTS"
    using unrecognised_code [OF r]
    by (auto simp add: planck_constants_None planck_constants_incomplete)
next
  assume "planck_constants channel_code ds = (fk1, fk2, bc1, bc2)"
  then have bt: "radiance_to_brightness_temp spec_brightness_temp_kernel rad channel_code ds
      = spec_brightness_temp_kernel rad fk1 fk2 bc1 bc2"
    by (simp add: radiance_to_brightness_temp_def NUMBA_AVAILABLE_def)
  show "shape (radiance_to_brightness_temp spec_brightness_temp_kernel rad channel_code ds)
        = shape rad"
    by (simp add: bt spec_brightness_temp_kernel_def map_array_def)
  show "length (flat (radiance_to_brightness_temp spec_brightness_temp_kernel rad channel_code ds))
        = length (flat rad)"
    by (simp add: bt spec_brightness_temp_kernel_def map_array_def)
  fix k
  assume "k < length (flat rad)"
  then show "flat (radiance_to_brightness_temp spec_brightness_temp_kernel rad channel_code ds) ! k =
             (case flat rad ! k of
                NaN \<Rightarrow> NaN
              | Val r \<Rightarrow> if 0 < r then Val ((fk2 / ln (fk1 / r + 1) - bc1) / bc2) else NaN)"
    by (simp add: bt spec_brightness_temp_kernel_def map_array_def divide_inverse mult.commute
        split: pixel.splits)
qed

theorem radiance_to_brightness_temp_planck_witness:
  "planck_constants ''C13'' (Some (SimpleMockDataset (Some 1) (Some 2) (Some 3) (Some 4))) = (1, 2, 3, 4)
   \<and> planck_constants ''C14'' (Some (SimpleMockDataset (Some 1) None (Some 3) (Some 4)))
       = (634.106, 855.701, 0.60474, 0.98917)
   \<and> planck_constants ''C99'' None = (747.3, 868.467, 0.53083, 0.99111)
   \<and> flat (radiance_to_brightness_temp spec_brightness_temp_kernel
             (NdArray (2, 2) [Val 1, Val 0, Val (- 3), NaN]) ''C99'' None) ! 0
       = Val ((868.467 / ln (747.3 / 1 + 1) - 0.53083) / 0.99111)
   \<and> flat (radiance_to_brightness_temp spec_brightness_temp_kernel
             (NdArray (2, 2) [Val 1, Val 0, Val (- 3), NaN]) ''C99'' None) ! 1 = NaN"
proof -
  have c14: "map_of CHANNEL_CONSTANTS ''C14'' = Some (11.1949, 634.106, 855.701, 0.60474, 0.98917)"
    by (simp add: CHANNEL_CONSTANTS_def)
  have c99: "''C99'' \<notin> set (map fst CHANNEL_CONSTANTS)"
    by (simp add: CHANNEL_CONSTANTS_def)
  have 1: "planck_constants ''C13'' (Some (SimpleMockDataset (Some 1) (Some 2) (Some 3) (Some 4))) = (1, 2, 3, 4)"
    using radiance_to_brightness_temp_planck
      [of "Some (SimpleMockDataset (Some 1) (Some 2) (Some 3) (Some 4))" 1 2 3 4 "''C13''"]
    by simp
  have 2: "planck_constants ''C14'' (Some (SimpleMockDataset (Some 1) None (Some 3) (Some 4)))
       = (634.106, 855.701, 0.60474, 0.98917)"
    using radiance_to_brightness_temp_planck
      [of "Some (SimpleMockDataset (Some 1) None (Some 3) (Some 4))" _ _ _ _ "''C14''"] c14
    by (simp add: unpack_constants_def)
  have 3: "planck_constants ''C99'' None = (747.3, 868.467, 0.53083, 0.99111)"
    using radiance_to_brightness_temp_planck [of None _ _ _ _ "''C99''"] c99
    by (simp add: unpack_constants_def C13_CONSTANTS_def)
  show ?thesis
    using 1 2 3 radiance_to_brightness_temp_planck
      [of None _ _ _ _ "''C99''" "747.3" "868.467" "0.53083" "0.99111"
          "NdArray (2, 2) [Val 1, Val 0, Val (- 3), NaN]"]
    by simp
qed

subsection \<open>Coordinate validity mask (C9)\<close>

lemma nth_concat_uniform:
  "\<forall>xs \<in> set xss. length xs = c \<Longrightarrow> i < length xss \<Longrightarrow> j < c \<Longrightarrow>
   concat xss ! (i * c + j) = xss ! i ! j"
proof (induction xss arbitrary: i)
  case Nil
  then show ?case by simp
next
  case (Cons xs xss)
  show ?case
  proof (cases i)
    case 0
    then show ?thesis using Cons.prems by (simp add: nth_append)
  next
    case (Suc k)
    have "concat (xs # xss) ! (i * c + j) = concat xss ! (k * c + j)"
      using Cons.prems Suc by (simp add: nth_append)
    also have "\<dots> = xss ! k ! j"
      using Cons.IH [of k] Cons.prems Suc by simp
    finally show ?thesis using Suc by simp
  qed
qed

lemma length_concat_uniform:
  "\<forall>xs \<in> set xss. length xs = c \<Longrightarrow> length (concat xss) = length xss * c"
  by (induction xss) simp_all

lemma length_flat_tabulate2 [simp]: "length (flat (tabulate2 s f)) = fst s * snd s"
  using length_concat_uniform [of "map (\<lambda>i. map (f i) [0..<snd s]) [0..<fst s]" "snd s"]
  by (simp add: tabulate2_def)

lemma cell_tabulate2 [simp]:
  "i < fst s \<Longrightarrow> j < snd s \<Longrightarrow> cell (tabulate2 s f) i j = f i j"
  using nth_concat_uniform [of "map (\<lambda>i. map (f i) [0..<snd s]) [0..<fst s]" "snd s" i j]
  by (simp add: cell_def tabulate2_def)

lemma flat_index_bound: "i < r \<Longrightarrow> j < c \<Longrightarrow> i * c + j < r * (c::nat)"
proof -
  assume a: "i < r" "j < c"
  then have "i * c + j < i * c + c" by simp
  also have "\<dots> = Suc i * c" by simp
  also have "\<dots> \<le> r * c" using a by (intro mult_le_mono1) simp
  finally show ?thesis .
qed

lemma arcsin_sq_less_4: "-1 \<le> r \<Longrightarrow> r \<le> 1 \<Longrightarrow> (arcsin r)\<^sup>2 < 4"
proof -
  assume a: "-1 \<le> r" "r \<le> 1"
  have "\<bar>arcsin r\<bar> \<le> pi / 2"
    using arcsin_bounded [OF a] by linarith
  moreover have "pi / 2 < 2" using pi_less_4 by simp
  ultimately have "\<bar>arcsin r\<bar> < 2" by linarith
  then have "(arcsin r)\<^sup>2 < 2\<^sup>2"
    by (metis abs_ge_zero power2_abs power_strict_mono zero_less_numeral pos2)
  then show ?thesis by simp
qed

lemma map2_concat_rows:
  "map2 g (concat (map (\<lambda>i. map (a i) cs) rs)) (concat (map (\<lambda>i. map (b i) cs) rs))
     = concat (map (\<lambda>i. map (\<lambda>j. g (a i j) (b i j)) cs) rs)"
proof (induction rs)
  case Nil
  then show ?case by simp
next
  case (Cons r rs)
  have "map2 g (map (a r) cs) (map (b r) cs) = map (\<lambda>j. g (a r j) (b r j)) cs"
    by (induction cs) simp_all
  then show ?case using Cons by (simp add: zip_append)
qed

lemma map_zip_concat_rows:
  "map (\<lambda>p. g (fst p) (snd p))
       (zip (concat (map (\<lambda>i. map (a i) cs) rs)) (concat (map (\<lambda>i. map (b i) cs) rs)))
     = concat (map (\<lambda>i. map (\<lambda>j. g (a i j) (b i j)) cs) rs)"
  using map2_concat_rows [of g a cs rs b] by (simp add: split_def)

lemma max_viewing_angle_of_Val:
  "6378137 \<le> \<bar>h\<bar> \<Longrightarrow> max_viewing_angle_of h = Inr (Val (arcsin (6378137 / h)))"
  by (auto simp add: max_viewing_angle_of_def earth_radius_def)

lemma create_valid_coordinate_mask_Axes:
  assumes "6378137 \<le> \<bar>h\<bar>"
  shows "create_valid_coordinate_mask (Axes xs ys) h =
     Inr (tabulate2 (length ys, length xs)
            (\<lambda>i j. (xs ! j)\<^sup>2 + (ys ! i)\<^sup>2 \<le> (arcsin (6378137 / h))\<^sup>2),
          tabulate2 (length ys, length xs) (\<lambda>i j. xs ! j * h),
          tabulate2 (length ys, length xs) (\<lambda>i j. ys ! i * h))"
  by (simp add: create_valid_coordinate_mask_def max_viewing_angle_of_Val [OF assms] Let_def
      map_array_def tabulate2_def le_pixel_sq_def map_concat o_def split_def
      map_zip_concat_rows [of "\<lambda>x y. x\<^sup>2 + y\<^sup>2 \<le> (arcsin (6378137 / h))\<^sup>2"])

lemma create_valid_coordinate_mask_Grids:
  assumes "6378137 \<le> \<bar>h\<bar>"
  shows "create_valid_coordinate_mask (Grids gx gy) h =
     Inr (NdArray (shape gx)
            (map2 (\<lambda>x y. x\<^sup>2 + y\<^sup>2 \<le> (arcsin (6378137 / h))\<^sup>2) (flat gx) (flat gy)),
          map_array (\<lambda>x. x * h) gx, map_array (\<lambda>y. y * h) gy)"
  by (simp add: create_valid_coordinate_mask_def max_viewing_angle_of_Val [OF assms] Let_def
      map_array_def le_pixel_sq_def zip_map_fst_snd map_zip_map2 split_def)

text \<open>
  C9.  For a satellite height at which the viewing angle \<open>arcsin (R / h)\<close> is defined
  (\<open>R = 6378137 \<le> |h|\<close>) the mask holds, at every pixel, exactly the truth value of
  \<open>x\<^sup>2 + y\<^sup>2 \<le> (arcsin (R / h))\<^sup>2\<close>, for axes crossed by the function and for grids
  passed as they are; the comparison is \<open>\<le>\<close>, so a pixel on the boundary is valid.
\<close>

theorem create_valid_coordinate_mask_iff:
  "6378137 \<le> \<bar>h\<bar> \<longrightarrow>
     (\<exists>mask x_grid y_grid.
        create_valid_coordinate_mask (Axes xs ys) h = Inr (mask, x_grid, y_grid)
        \<and> shape mask = (length ys, length xs)
        \<and> (\<forall>i < length ys. \<forall>j < length xs.
              cell mask i j = ((xs ! j)\<^sup>2 + (ys ! i)\<^sup>2 \<le> (arcsin (6378137 / h))\<^sup>2)))
     \<and> (shape gx = shape gy \<and> wf_array gx \<and> wf_array gy \<longrightarrow>
          (\<exists>mask x_grid y_grid.
             create_valid_coordinate_mask (Grids gx gy) h = Inr (mask, x_grid, y_grid)
             \<and> shape mask = shape gx
             \<and> (\<forall>i < fst (shape gx). \<forall>j < snd (shape gx).
                   cell mask i j
                     = ((cell gx i j)\<^sup>2 + (cell gy i j)\<^sup>2 \<le> (arcsin (6378137 / h))\<^sup>2))))"
proof (intro impI conjI)
  assume h: "6378137 \<le> \<bar>h\<bar>"
  show "\<exists>mask x_grid y_grid.
        create_valid_coordinate_mask (Axes xs ys) h = Inr (mask, x_grid, y_grid)
        \<and> shape mask = (length ys, length xs)
        \<and> (\<forall>i < length ys. \<forall>j < length xs.
              cell mask i j = ((xs ! j)\<^sup>2 + (ys ! i)\<^sup>2 \<le> (arcsin (6378137 / h))\<^sup>2))"
    by (simp add: create_valid_coordinate_mask_Axes [OF h])
next
  assume h: "6378137 \<le> \<bar>h\<bar>" and g: "shape gx = shape gy \<and> wf_array gx \<and> wf_array gy"
  have "\<forall>i < fst (shape gx). \<forall>j < snd (shape gx).
          map2 (\<lambda>x y. x\<^sup>2 + y\<^sup>2 \<le> (arcsin (6378137 / h))\<^sup>2) (flat gx) (flat gy)
             ! (i * snd (shape gx) + j)
           = ((cell gx i j)\<^sup>2 + (cell gy i j)\<^sup>2 \<le> (arcsin (6378137 / h))\<^sup>2)"
  proof (intro allI impI)
    fix i j
    assume ij: "i < fst (shape gx)" "j < snd (shape gx)"
    then have "i * snd (shape gx) + j < fst (shape gx) * snd (shape gx)"
      by (intro flat_index_bound)
    then show "map2 (\<lambda>x y. x\<^sup>2 + y\<^sup>2 \<le> (arcsin (6378137 / h))\<^sup>2) (flat gx) (flat gy)
             ! (i * snd (shape gx) + j)
           = ((cell gx i j)\<^sup>2 + (cell gy i j)\<^sup>2 \<le> (arcsin (6378137 / h))\<^sup>2)"
      using g by (simp add: wf_array_def cell_def)
  qed
  then show "\<exists>mask x_grid y_grid.
             create_valid_coordinate_mask (Grids gx gy) h = Inr (mask, x_grid, y_grid)
             \<and> shape mask = shape gx
             \<and> (\<forall>i < fst (shape gx). \<forall>j < snd (shape gx).
                   cell mask i j
                     = ((cell gx i j)\<^sup>2 + (cell gy i j)\<^sup>2 \<le> (arcsin (6378137 / h))\<^sup>2))"
    by (simp add: create_valid_coordinate_mask_Grids [OF h] cell_def)
qed

theorem create_valid_coordinate_mask_iff_witness:
  "(\<exists>mask x_grid y_grid.
      create_valid_coordinate_mask (Axes [0, 2] [0]) 35786023 = Inr (mask, x_grid, y_grid)
      \<and> shape mask = (1, 2) \<and> cell mask 0 0 \<and> \<not> cell mask 0 1)
   \<and> (\<exists>mask x_grid y_grid.
      create_valid_coordinate_mask (Grids (NdArray (1, 1) [0]) (NdArray (1, 1) [0])) 35786023
        = Inr (mask, x_grid, y_grid)
      \<and> shape mask = (1, 1) \<and> cell mask 0 0)"
proof -
  have "(arcsin (6378137 / 35786023 :: real))\<^sup>2 < 4"
    by (rule arcsin_sq_less_4) simp_all
  then show ?thesis
    using create_valid_coordinate_mask_iff
      [of 35786023 "[0, 2]" "[0]" "NdArray (1, 1) [0]" "NdArray (1, 1) [0]"]
    by (auto simp add: wf_array_def cell_def)
qed

subsection \<open>Solar-angle fallback (C4)\<close>

lemma clip_bounds: "lo \<le> hi \<Longrightarrow> lo \<le> clip v lo hi \<and> clip v lo hi \<le> hi"
  by (simp add: clip_def)

lemma cell_np_full: "i < fst s \<Longrightarrow> j < snd s \<Longrightarrow> cell (np_full s v) i j = v"
  using flat_index_bound [of i "fst s" j "snd s"] by (simp add: cell_def np_full_def)

lemma flat_tabulate2_nonempty: "0 < fst s \<Longrightarrow> 0 < snd s \<Longrightarrow> flat (tabulate2 s f) \<noteq> []"
  using length_flat_tabulate2 [of s f] by (cases "flat (tabulate2 s f)") auto

lemma simple_fallback_grid:
  assumes "x_coords cd \<noteq> []" "y_coords cd \<noteq> []"
  shows "\<exists>sza cos_sza. simple_fallback cd st = Inr (sza, cos_sza)
       \<and> shape sza = (length (y_coords cd), length (x_coords cd))
       \<and> (\<forall>i < length (y_coords cd). \<forall>j < length (x_coords cd).
             \<exists>v. cell sza i j = Val v \<and> 20 \<le> v \<and> v \<le> 120)"
proof (cases st)
  case None
  then show ?thesis
    by (simp add: simple_fallback_def Let_def cell_np_full) (simp add: np_full_def)
next
  case (Some t)
  obtain hour minute where t: "t = (hour, minute)" by (cases t)
  have ne: "flat (tabulate2 (length (y_coords cd), length (x_coords cd)) f) \<noteq> []" for f :: "nat \<Rightarrow> nat \<Rightarrow> pixel"
    using assms by (intro flat_tabulate2_nonempty) simp_all
  show ?thesis
    using ne clip_bounds [of 20 120]
    by (simp add: simple_fallback_def Let_def Some t)
qed

lemma enhanced_fallback_grid:
  assumes "x_coords cd \<noteq> []" "y_coords cd \<noteq> []"
  shows "\<exists>sza cos_sza. enhanced_fallback cd st = Inr (sza, cos_sza)
       \<and> shape sza = (length (y_coords cd), length (x_coords cd))
       \<and> (\<forall>i < length (y_coords cd). \<forall>j < length (x_coords cd).
             if (x_coords cd ! j)\<^sup>2 + (y_coords cd ! i)\<^sup>2 \<le> (arcsin (6378137 / 35786023))\<^sup>2
             then \<exists>v. cell sza i j = Val v \<and> 10 \<le> v \<and> v \<le> 120
             else cell sza i j = NaN)"
proof -
  have m: "create_valid_coordinate_mask (Axes (x_coords cd) (y_coords cd)) default_sat_height =
     Inr (tabulate2 (length (y_coords cd), length (x_coords cd))
            (\<lambda>i j. (x_coords cd ! j)\<^sup>2 + (y_coords cd ! i)\<^sup>2 \<le> (arcsin (6378137 / 35786023))\<^sup>2),
          tabulate2 (length (y_coords cd), length (x_coords cd)) (\<lambda>i j. x_coords cd ! j * 35786023),
          tabulate2 (length (y_coords cd), length (x_coords cd)) (\<lambda>i j. y_coords cd ! i * 35786023))"
    using create_valid_coordinate_mask_Axes [of 35786023 "x_coords cd" "y_coords cd"]
    by (simp add: default_sat_height_def)
  have ne: "flat (tabulate2 (length (y_coords cd), length (x_coords cd)) f) \<noteq> []" for f :: "nat \<Rightarrow> nat \<Rightarrow> pixel"
    using assms by (intro flat_tabulate2_nonempty) simp_all
  show ?thesis
  proof (cases st)
    case None
    then show ?thesis
      by (simp add: enhanced_fallback_def Let_def m)
  next
    case (Some t)
    obtain hour minute where t: "t = (hour, minute)" by (cases t)
    show ?thesis
      using ne clip_bounds [of 10 120]
      by (simp add: enhanced_fallback_def Let_def m Some t)
  qed
qed

lemma solar_fallback_functions:
  "x_coords cd \<noteq> [] \<and> y_coords cd \<noteq> [] \<longrightarrow>
     (\<exists>sza cos_sza.
        compute_solar_angles_simple (Raised st) (Some cd) = Inr (Some (sza, cos_sza))
        \<and> shape sza = (length (y_coords cd), length (x_coords cd))
        \<and> (\<forall>i < length (y_coords cd). \<forall>j < length (x_coords cd).
              \<exists>v. cell sza i j = Val v \<and> 20 \<le> v \<and> v \<le> 120))
     \<and> (\<exists>sza cos_sza.
        compute_solar_angles_enhanced (Raised st) (Some cd) = Some (sza, cos_sza)
        \<and> shape sza = (length (y_coords cd), length (x_coords cd))
        \<and> (\<forall>i < length (y_coords cd). \<forall>j < length (x_coords cd).
              if (x_coords cd ! j)\<^sup>2 + (y_coords cd ! i)\<^sup>2 \<le> (arcsin (6378137 / 35786023))\<^sup>2
              then \<exists>v. cell sza i j = Val v \<and> 10 \<le> v \<and> v \<le> 120
              else cell sza i j = NaN))"
proof (intro impI conjI)
  assume a: "x_coords cd \<noteq> [] \<and> y_coords cd \<noteq> []"
  obtain sza cos_sza where s: "simple_fallback cd st = Inr (sza, cos_sza)"
       "shape sza = (length (y_coords cd), length (x_coords cd))"
       "\<forall>i < length (y_coords cd). \<forall>j < length (x_coords cd).
             \<exists>v. cell sza i j = Val v \<and> 20 \<le> v \<and> v \<le> 120"
    using simple_fallback_grid [of cd st] a by blast
  then show "\<exists>sza cos_sza.
        compute_solar_angles_simple (Raised st) (Some cd) = Inr (Some (sza, cos_sza))
        \<and> shape sza = (length (y_coords cd), length (x_coords cd))
        \<and> (\<forall>i < length (y_coords cd). \<forall>j < length (x_coords cd).
              \<exists>v. cell sza i j = Val v \<and> 20 \<le> v \<and> v \<le> 120)"
    by (simp add: compute_solar_angles_simple_def)
next
  assume a: "x_coords cd \<noteq> [] \<and> y_coords cd \<noteq> []"
  obtain sza cos_sza where s: "enhanced_fallback cd st = Inr (sza, cos_sza)"
       "shape sza = (length (y_coords cd), length (x_coords cd))"
       "\<forall>i < length (y_coords cd). \<forall>j < length (x_coords cd).
             if (x_coords cd ! j)\<^sup>2 + (y_coords cd ! i)\<^sup>2 \<le> (arcsin (6378137 / 35786023))\<^sup>2
             then \<exists>v. cell sza i j = Val v \<and> 10 \<le> v \<and> v \<le> 120
             else cell sza i j = NaN"
    using enhanced_fallback_grid [of cd st] a by blast
  then show "\<exists>sza cos_sza.
        compute_solar_angles_enhanced (Raised st) (Some cd) = Some (sza, cos_sza)
        \<and> shape sza = (length (y_coords cd), length (x_coords cd))
        \<and> (\<forall>i < length (y_coords cd). \<forall>j < length (x_coords cd).
              if (x_coords cd ! j)\<^sup>2 + (y_coords cd ! i)\<^sup>2 \<le> (arcsin (6378137 / 35786023))\<^sup>2
              then \<exists>v. cell sza i j = Val v \<and> 10 \<le> v \<and> v \<le> 120
              else cell sza i j = NaN)"
    by (simp add: compute_solar_angles_enhanced_def)
qed

lemma enhanced_path_angles:
  assumes "x_coords cd \<noteq> []" "y_coords cd \<noteq> []"
  shows "compute_solar_angles_enhanced (Raised st) (Some cd) \<noteq> None"
  using enhanced_fallback_grid [OF assms, of st]
  by (auto simp add: compute_solar_angles_enhanced_def)

lemma simple_path_angles:
  assumes "x_coords cd \<noteq> []" "y_coords cd \<noteq> []"
  shows "\<exists>g. compute_solar_angles_simple (Raised st) (Some cd) = Inr (Some g)"
  using simple_fallback_grid [OF assms, of st]
  by (auto simp add: compute_solar_angles_simple_def)

lemma process_enhanced_full_disk_angles:
  assumes "ENABLE_SOLAR_ANGLES env" "raw_store \<noteq> []"
    "stored_coordinate_data
       (fst (run_channel_tasks new_store env (standard_conus_worker K) (full_disk_tasks raw_store))) = Some cd"
    "x_coords cd \<noteq> []" "y_coords cd \<noteq> []"
    "\<forall>t. \<exists>st. solar_try_block env cd t = Raised st"
  shows "solar_angles (process_enhanced_full_disk env K raw_store) \<noteq> None"
proof -
  let ?st = "fst (run_channel_tasks new_store env (standard_conus_worker K) (full_disk_tasks raw_store))"
  obtain st where r: "solar_try_block env cd (first_scan_time ?st) = Raised st"
    using assms(6) by blast
  obtain g where g: "compute_solar_angles_enhanced (Raised st) (Some cd) = Some g"
    using enhanced_path_angles [OF assms(4,5), of st] by auto
  show ?thesis
    using assms(1,2,3) r g by (simp add: process_enhanced_full_disk_def Let_def)
qed

lemma process_level2_aware_angles:
  assumes "ENABLE_SOLAR_ANGLES env"
    "stored_coordinate_data
       (fst (run_channel_tasks OptimizedMemoryStore env (level2_aware_worker K) (level2_tasks domain raw_store))) = Some cd"
    "x_coords cd \<noteq> []" "y_coords cd \<noteq> []"
    "\<forall>t. \<exists>st. solar_try_block env cd t = Raised st"
  shows "solar_angles (process_level2_aware env K domain raw_store) \<noteq> None"
proof -
  let ?st = "fst (run_channel_tasks OptimizedMemoryStore env (level2_aware_worker K) (level2_tasks domain raw_store))"
  obtain st where r: "solar_try_block env cd (first_scan_time ?st) = Raised st"
    using assms(5) by blast
  obtain g where g: "compute_solar_angles_enhanced (Raised st) (Some cd) = Some g"
    using enhanced_path_angles [OF assms(3,4), of st] by auto
  show ?thesis
    using assms(1,2) r g by (simp add: process_level2_aware_def Let_def)
qed

lemma process_standard_conus_angles:
  assumes "ENABLE_SOLAR_ANGLES env" "raw_store \<noteq> []"
    "stored_coordinate_data
       (fst (run_channel_tasks new_store env (standard_conus_worker K) (standard_tasks raw_store))) = Some cd"
    "x_coords cd \<noteq> []" "y_coords cd \<noteq> []"
    "\<forall>t. \<exists>st. solar_try_block env cd t = Raised st"
  shows "\<exists>final. process_standard_conus env K raw_store = Inr final \<and> solar_angles final \<noteq> None"
proof -
  let ?st = "fst (run_channel_tasks new_store env (standard_conus_worker K) (standard_tasks raw_store))"
  obtain st where r: "solar_try_block env cd (first_scan_time ?st) = Raised st"
    using assms(6) by blast
  obtain g where g: "compute_solar_angles_simple (Raised st) (Some cd) = Inr (Some g)"
    using simple_path_angles [OF assms(4,5), of st] by auto
  show ?thesis
    using assms(1,2,3) r g by (simp add: process_standard_conus_def Let_def)
qed

lemma sample_full_disk_phase:
  "stored_coordinate_data
     (fst (run_channel_tasks new_store sequential_env (standard_conus_worker averaging_kernels)
             (full_disk_tasks sample_raw_store)))
   = Some (sample_coordinate_data [0, 2] [0])"
  by (simp add: run_channel_tasks_def sequential_env_def full_disk_tasks_def sample_raw_store_def
      determine_reference_shape_def standard_conus_worker_def sample_record_def upscale_block_def
      calibration_block_def np_nanmax_def worker_result_of_def merge_result_def store_channel_def
      store_coordinate_data_def new_store_def sample_coordinate_data_def Let_def)

lemma sample_standard_phase:
  "stored_coordinate_data
     (fst (run_channel_tasks new_store sequential_env (standard_conus_worker averaging_kernels)
             (standard_tasks sample_raw_store)))
   = Some (sample_coordinate_data [0, 2] [0])"
  by (simp add: run_channel_tasks_def sequential_env_def standard_tasks_def sample_raw_store_def
      determine_reference_shape_def standard_conus_worker_def sample_record_def upscale_block_def
      get_standard_target_shape_def get_standard_channel_requirements_def
      calibration_block_def np_nanmax_def worker_result_of_def merge_result_def store_channel_def
      store_coordinate_data_def new_store_def sample_coordinate_data_def Let_def)

lemma sample_level2_phase:
  "stored_coordinate_data
     (fst (run_channel_tasks OptimizedMemoryStore sequential_env (level2_aware_worker averaging_kernels)
             (level2_tasks ''full_disk'' sample_raw_store)))
   = Some (sample_coordinate_data [0, 2] [0])"
  by (simp add: run_channel_tasks_def sequential_env_def level2_tasks_def sample_raw_store_def
      OptimizedMemoryStore_def
      determine_reference_shape_def level2_aware_worker_def sample_record_def upscale_block_def
      get_target_shape_def get_level2_channel_requirements_def
      calibration_block_def np_nanmax_def worker_result_of_def merge_result_def store_channel_def
      store_coordinate_data_def new_store_def sample_coordinate_data_def Let_def)

lemma flat_tabulate2_empty:
  "fst s = 0 \<or> snd s = 0 \<Longrightarrow> flat (tabulate2 s f) = []"
  using length_flat_tabulate2 [of s f] by (auto simp del: length_flat_tabulate2)

lemma enhanced_guard_empty:
  assumes "x_coords cd = [] \<or> y_coords cd = []"
  shows "compute_solar_angles_enhanced (Raised (Some hm)) (Some cd) = None"
proof -
  obtain hour minute where t: "hm = (hour, minute)" by (cases hm)
  have m: "\<exists>v xg yg. create_valid_coordinate_mask (Axes (x_coords cd) (y_coords cd)) default_sat_height
              = Inr (v, xg, yg)"
    using create_valid_coordinate_mask_Axes [of 35786023 "x_coords cd" "y_coords cd"]
    by (simp add: default_sat_height_def)
  have e: "flat (tabulate2 (length (y_coords cd), length (x_coords cd)) f) = []"
    for f :: "nat \<Rightarrow> nat \<Rightarrow> pixel"
    using assms by (intro flat_tabulate2_empty) auto
  from m obtain v xg yg where
    "create_valid_coordinate_mask (Axes (x_coords cd) (y_coords cd)) default_sat_height
       = Inr (v, xg, yg)" by blast
  then show ?thesis
    using e by (simp add: compute_solar_angles_enhanced_def enhanced_fallback_def Let_def t)
qed

lemma solar_fallback_nonempty:
  "x_coords cd \<noteq> [] \<and> y_coords cd \<noteq> [] \<longrightarrow>
     (\<exists>sza cos_sza.
        compute_solar_angles_simple (Raised st) (Some cd) = Inr (Some (sza, cos_sza))
        \<and> shape sza = (length (y_coords cd), length (x_coords cd))
        \<and> (\<forall>i < length (y_coords cd). \<forall>j < length (x_coords cd).
              \<exists>v. cell sza i j = Val v \<and> 20 \<le> v \<and> v \<le> 120))
     \<and> (\<exists>sza cos_sza.
        compute_solar_angles_enhanced (Raised st) (Some cd) = Some (sza, cos_sza)
        \<and> shape sza = (length (y_coords cd), length (x_coords cd))
        \<and> (\<forall>i < length (y_coords cd). \<forall>j < length (x_coords cd).
              if (x_coords cd ! j)\<^sup>2 + (y_coords cd ! i)\<^sup>2 \<le> (arcsin (6378137 / 35786023))\<^sup>2
              then \<exists>v. cell sza i j = Val v \<and> 10 \<le> v \<and> v \<le> 120
              else cell sza i j = NaN))
     \<and> (ENABLE_SOLAR_ANGLES env \<and> (\<forall>t. \<exists>st'. solar_try_block env cd t = Raised st') \<longrightarrow>
          (raw_store \<noteq> []
             \<and> stored_coordinate_data
                 (fst (run_channel_tasks new_store env (standard_conus_worker K) (standard_tasks raw_store)))
               = Some cd \<longrightarrow>
             (\<exists>final. process_standard_conus env K raw_store = Inr final
                \<and> solar_angles final \<noteq> None))
          \<and> (raw_store \<noteq> []
             \<and> stored_coordinate_data
                 (fst (run_channel_tasks new_store env (standard_conus_worker K) (full_disk_tasks raw_store)))
               = Some cd \<longrightarrow>
             solar_angles (process_enhanced_full_disk env K raw_store) \<noteq> None)
          \<and> (stored_coordinate_data
                 (fst (run_channel_tasks OptimizedMemoryStore env (level2_aware_worker K)
                         (level2_tasks domain raw_store)))
               = Some cd \<longrightarrow>
             solar_angles (process_level2_aware env K domain raw_store) \<noteq> None))"
proof (intro impI)
  assume a: "x_coords cd \<noteq> [] \<and> y_coords cd \<noteq> []"
  then have x: "x_coords cd \<noteq> []" and y: "y_coords cd \<noteq> []" by simp_all
  have f: "(\<exists>sza cos_sza.
        compute_solar_angles_simple (Raised st) (Some cd) = Inr (Some (sza, cos_sza))
        \<and> shape sza = (length (y_coords cd), length (x_coords cd))
        \<and> (\<forall>i < length (y_coords cd). \<forall>j < length (x_coords cd).
              \<exists>v. cell sza i j = Val v \<and> 20 \<le> v \<and> v \<le> 120))
     \<and> (\<exists>sza cos_sza.
        compute_solar_angles_enhanced (Raised st) (Some cd) = Some (sza, cos_sza)
        \<and> shape sza = (length (y_coords cd), length (x_coords cd))
        \<and> (\<forall>i < length (y_coords cd). \<forall>j < length (x_coords cd).
              if (x_coords cd ! j)\<^sup>2 + (y_coords cd ! i)\<^sup>2 \<le> (arcsin (6378137 / 35786023))\<^sup>2
              then \<exists>v. cell sza i j = Val v \<and> 10 \<le> v \<and> v \<le> 120
              else cell sza i j = NaN))"
    using solar_fallback_functions [of cd st] a by blast
  have p: "ENABLE_SOLAR_ANGLES env \<and> (\<forall>t. \<exists>st'. solar_try_block env cd t = Raised st') \<longrightarrow>
          (raw_store \<noteq> []
             \<and> stored_coordinate_data
                 (fst (run_channel_tasks new_store env (standard_conus_worker K) (standard_tasks raw_store)))
               = Some cd \<longrightarrow>
             (\<exists>final. process_standard_conus env K raw_store = Inr final
                \<and> solar_angles final \<noteq> None))
          \<and> (raw_store \<noteq> []
             \<and> stored_coordinate_data
                 (fst (run_channel_tasks new_store env (standard_conus_worker K) (full_disk_tasks raw_store)))
               = Some cd \<longrightarrow>
             solar_angles (process_enhanced_full_disk env K raw_store) \<noteq> None)
          \<and> (stored_coordinate_data
                 (fst (run_channel_tasks OptimizedMemoryStore env (level2_aware_worker K)
                         (level2_tasks domain raw_store)))
               = Some cd \<longrightarrow>
             solar_angles (process_level2_aware env K domain raw_store) \<noteq> None)"
  proof (intro impI conjI)
    assume e: "ENABLE_SOLAR_ANGLES env \<and> (\<forall>t. \<exists>st'. solar_try_block env cd t = Raised st')"
      and s: "raw_store \<noteq> []
             \<and> stored_coordinate_data
                 (fst (run_channel_tasks new_store env (standard_conus_worker K) (standard_tasks raw_store)))
               = Some cd"
    show "\<exists>final. process_standard_conus env K raw_store = Inr final \<and> solar_angles final \<noteq> None"
      using process_standard_conus_angles [of env raw_store K cd] e s x y by blast
  next
    assume e: "ENABLE_SOLAR_ANGLES env \<and> (\<forall>t. \<exists>st'. solar_try_block env cd t = Raised st')"
      and s: "raw_store \<noteq> []
             \<and> stored_coordinate_data
                 (fst (run_channel_tasks new_store env (standard_conus_worker K) (full_disk_tasks raw_store)))
               = Some cd"
    show "solar_angles (process_enhanced_full_disk env K raw_store) \<noteq> None"
      using process_enhanced_full_disk_angles [of env raw_store K cd] e s x y by blast
  next
    assume e: "ENABLE_SOLAR_ANGLES env \<and> (\<forall>t. \<exists>st'. solar_try_block env cd t = Raised st')"
      and s: "stored_coordinate_data
                 (fst (run_channel_tasks OptimizedMemoryStore env (level2_aware_worker K)
                         (level2_tasks domain raw_store)))
               = Some cd"
    show "solar_angles (process_level2_aware env K domain raw_store) \<noteq> None"
      using process_level2_aware_angles [of env K domain raw_store cd] e s x y by blast
  qed
  show "(\<exists>sza cos_sza.
        compute_solar_angles_simple (Raised st) (Some cd) = Inr (Some (sza, cos_sza))
        \<and> shape sza = (length (y_coords cd), length (x_coords cd))
        \<and> (\<forall>i < length (y_coords cd). \<forall>j < length (x_coords cd).
              \<exists>v. cell sza i j = Val v \<and> 20 \<le> v \<and> v \<le> 120))
     \<and> (\<exists>sza cos_sza.
        compute_solar_angles_enhanced (Raised st) (Some cd) = Some (sza, cos_sza)
        \<and> shape sza = (length (y_coords cd), length (x_coords cd))
        \<and> (\<forall>i < length (y_coords cd). \<forall>j < length (x_coords cd).
              if (x_coords cd ! j)\<^sup>2 + (y_coords cd ! i)\<^sup>2 \<le> (arcsin (6378137 / 35786023))\<^sup>2
              then \<exists>v. cell sza i j = Val v \<and> 10 \<le> v \<and> v \<le> 120
              else cell sza i j = NaN))
     \<and> (ENABLE_SOLAR_ANGLES env \<and> (\<forall>t. \<exists>st'. solar_try_block env cd t = Raised st') \<longrightarrow>
          (raw_store \<noteq> []
             \<and> stored_coordinate_data
                 (fst (run_channel_tasks new_store env (standard_conus_worker K) (standard_tasks raw_store)))
               = Some cd \<longrightarrow>
             (\<exists>final. process_standard_conus env K raw_store = Inr final
                \<and> solar_angles final \<noteq> None))
          \<and> (raw_store \<noteq> []
             \<and> stored_coordinate_data
                 (fst (run_channel_tasks new_store env (standard_conus_worker K) (full_disk_tasks raw_store)))
               = Some cd \<longrightarrow>
             solar_angles (process_enhanced_full_disk env K raw_store) \<noteq> None)
          \<and> (stored_coordinate_data
                 (fst (run_channel_tasks OptimizedMemoryStore env (level2_aware_worker K)
                         (level2_tasks domain raw_store)))
               = Some cd \<longrightarrow>
             solar_angles (process_level2_aware env K domain raw_store) \<noteq> None))"
    using f p by blast
qed

text \<open>
  C4, as the code has it.  When the \<^verbatim>\<open>try\<close> block raises and the coordinate arrays are
  not empty, \<^verbatim>\<open>compute_solar_angles_simple\<close> returns a grid of the scene's shape whose
  every value lies in \<open>[20, 120]\<close>, and \<^verbatim>\<open>compute_solar_angles_enhanced\<close> returns a
  grid of the scene's shape whose value lies in \<open>[10, 120]\<close> at every pixel inside the
  Earth disk and is \<open>NaN\<close> at every pixel outside it.  Both are functions of the
  coordinate data and of the parsed scan time alone.  So on each of the three paths,
  when solar angles are enabled, the channel phase has stored such coordinate data and
  the \<^verbatim>\<open>try\<close> block raises, the store that the path returns holds solar angles (on
  the level 2 path that store is the \<^verbatim>\<open>OptimizedMemoryStore\<close>, modelled as the channel
  store of the specification).
  When a coordinate array is empty and the scan time has been parsed, the guarded
  fallback of \<^verbatim>\<open>compute_solar_angles_enhanced\<close> itself raises and the function returns
  \<^verbatim>\<open>(None, None)\<close>.
\<close>

theorem solar_fallback_grids:
  "(x_coords cd \<noteq> [] \<and> y_coords cd \<noteq> [] \<longrightarrow>
      (\<exists>sza cos_sza.
         compute_solar_angles_simple (Raised st) (Some cd) = Inr (Some (sza, cos_sza))
         \<and> shape sza = (length (y_coords cd), length (x_coords cd))
         \<and> (\<forall>i < length (y_coords cd). \<forall>j < length (x_coords cd).
               \<exists>v. cell sza i j = Val v \<and> 20 \<le> v \<and> v \<le> 120))
      \<and> (\<exists>sza cos_sza.
         compute_solar_angles_enhanced (Raised st) (Some cd) = Some (sza, cos_sza)
         \<and> shape sza = (length (y_coords cd), length (x_coords cd))
         \<and> (\<forall>i < length (y_coords cd). \<forall>j < length (x_coords cd).
               if (x_coords cd ! j)\<^sup>2 + (y_coords cd ! i)\<^sup>2 \<le> (arcsin (6378137 / 35786023))\<^sup>2
               then \<exists>v. cell sza i j = Val v \<and> 10 \<le> v \<and> v \<le> 120
               else cell sza i j = NaN))
      \<and> (ENABLE_SOLAR_ANGLES env \<and> (\<forall>t. \<exists>st'. solar_try_block env cd t = Raised st') \<longrightarrow>
           (raw_store \<noteq> []
              \<and> stored_coordinate_data
                  (fst (run_channel_tasks new_store env (standard_conus_worker K) (standard_tasks raw_store)))
                = Some cd \<longrightarrow>
              (\<exists>final. process_standard_conus env K raw_store = Inr final
                 \<and> solar_angles final \<noteq> None))
           \<and> (raw_store \<noteq> []
              \<and> stored_coordinate_data
                  (fst (run_channel_tasks new_store env (standard_conus_worker K) (full_disk_tasks raw_store)))
                = Some cd \<longrightarrow>
              solar_angles (process_enhanced_full_disk env K raw_store) \<noteq> None)
           \<and> (stored_coordinate_data
                  (fst (run_channel_tasks OptimizedMemoryStore env (level2_aware_worker K)
                          (level2_tasks domain raw_store)))
                = Some cd \<longrightarrow>
              solar_angles (process_level2_aware env K domain raw_store) \<noteq> None)))
   \<and> (x_coords cd' = [] \<or> y_coords cd' = [] \<longrightarrow>
        compute_solar_angles_enhanced (Raised (Some hm)) (Some cd') = None)"
  using solar_fallback_nonempty [of cd st env raw_store K domain] enhanced_guard_empty [of cd' hm]
  by blast

theorem solar_fallback_grids_witness:
  "(\<exists>sza cos_sza.
        compute_solar_angles_simple (Raised (Some (18, 30))) (Some (sample_coordinate_data [0, 2] [0]))
          = Inr (Some (sza, cos_sza))
        \<and> shape sza = (1, 2)
        \<and> (\<exists>v. cell sza 0 1 = Val v \<and> 20 \<le> v \<and> v \<le> 120))
   \<and> (\<exists>sza cos_sza.
        compute_solar_angles_enhanced (Raised (Some (18, 30))) (Some (sample_coordinate_data [0, 2] [0]))
          = Some (sza, cos_sza)
        \<and> shape sza = (1, 2)
        \<and> (\<exists>v. cell sza 0 0 = Val v \<and> 10 \<le> v \<and> v \<le> 120)
        \<and> cell sza 0 1 = NaN)
   \<and> (\<exists>final. process_standard_conus sequential_env averaging_kernels sample_raw_store = Inr final
        \<and> solar_angles final \<noteq> None)
   \<and> solar_angles (process_enhanced_full_disk sequential_env averaging_kernels sample_raw_store)
       \<noteq> None
   \<and> solar_angles (process_level2_aware sequential_env averaging_kernels ''full_disk''
                      sample_raw_store) \<noteq> None
   \<and> compute_solar_angles_enhanced (Raised (Some (18, 30)))
         (Some (sample_coordinate_data [] [])) = None"
proof -
  have off: "(arcsin (6378137 / 35786023 :: real))\<^sup>2 < 4"
    by (rule arcsin_sq_less_4) simp_all
  have xy: "x_coords (sample_coordinate_data [0, 2] [0]) \<noteq> []
            \<and> y_coords (sample_coordinate_data [0, 2] [0]) \<noteq> []"
    by (simp add: sample_coordinate_data_def)
  have env: "ENABLE_SOLAR_ANGLES (sequential_env :: pixel run_env)
             \<and> (\<forall>t. \<exists>st'. solar_try_block (sequential_env :: pixel run_env)
                              (sample_coordinate_data [0, 2] [0]) t = Raised st')"
    by (simp add: sequential_env_def)
  have ne: "sample_raw_store \<noteq> []"
    by (simp add: sample_raw_store_def)
  note both = solar_fallback_grids
      [where cd = "sample_coordinate_data [0, 2] [0]" and st = "Some (18, 30)"
         and env = "sequential_env :: pixel run_env" and K = averaging_kernels
         and raw_store = sample_raw_store and domain = "''full_disk''"
         and cd' = "sample_coordinate_data [] []" and hm = "(18, 30)"]
  note all = both [THEN conjunct1, THEN mp, OF xy]
  have g: "compute_solar_angles_enhanced (Raised (Some (18, 30)))
             (Some (sample_coordinate_data [] [])) = None"
    using both [THEN conjunct2] by (simp add: sample_coordinate_data_def)
  have fns: "(\<exists>sza cos_sza.
        compute_solar_angles_simple (Raised (Some (18, 30))) (Some (sample_coordinate_data [0, 2] [0]))
          = Inr (Some (sza, cos_sza))
        \<and> shape sza = (1, 2)
        \<and> (\<exists>v. cell sza 0 1 = Val v \<and> 20 \<le> v \<and> v \<le> 120))
   \<and> (\<exists>sza cos_sza.
        compute_solar_angles_enhanced (Raised (Some (18, 30))) (Some (sample_coordinate_data [0, 2] [0]))
          = Some (sza, cos_sza)
        \<and> shape sza = (1, 2)
        \<and> (\<exists>v. cell sza 0 0 = Val v \<and> 10 \<le> v \<and> v \<le> 120)
        \<and> cell sza 0 1 = NaN)"
    using off all [THEN conjunct1] all [THEN conjunct2, THEN conjunct1]
    by (auto simp add: sample_coordinate_data_def)
  note procs = all [THEN conjunct2, THEN conjunct2, THEN mp, OF env]
  have p1: "\<exists>final. process_standard_conus sequential_env averaging_kernels sample_raw_store = Inr final
        \<and> solar_angles final \<noteq> None"
    using procs [THEN conjunct1] ne sample_standard_phase by blast
  have p2: "solar_angles (process_enhanced_full_disk sequential_env averaging_kernels sample_raw_store)
       \<noteq> None"
    using procs [THEN conjunct2, THEN conjunct1] ne sample_full_disk_phase by blast
  have p3: "solar_angles (process_level2_aware sequential_env averaging_kernels ''full_disk''
                      sample_raw_store) \<noteq> None"
    using procs [THEN conjunct2, THEN conjunct2] sample_level2_phase by blast
  show ?thesis using fns p1 p2 p3 g by blast
qed

text \<open>
  The claim as stated fails for \<^verbatim>\<open>compute_solar_angles_enhanced\<close>: a pixel outside the
  Earth disk (here \<open>x = 2\<close> radians) holds \<open>NaN\<close>, which is no angle in \<open>[0, 180]\<close>, and
  when the guarded fallback itself raises (here on empty coordinate arrays) the function
  returns \<^verbatim>\<open>(None, None)\<close>.
\<close>

theorem solar_fallback_counterexample:
  "compute_solar_angles_enhanced (Raised (Some (18, 30))) (Some (sample_coordinate_data [2] [0]))
     = Some (NdArray (1, 1) [NaN], NdArray (1, 1) [NaN])
   \<and> compute_solar_angles_enhanced (Raised (Some (18, 30))) (Some (sample_coordinate_data [] []))
     = None"
proof -
  have "(arcsin (6378137 / 35786023 :: real))\<^sup>2 < 4"
    by (rule arcsin_sq_less_4) simp_all
  then have off: "\<not> (4 \<le> (arcsin (6378137 / 35786023 :: real))\<^sup>2)" by simp
  have m: "create_valid_coordinate_mask (Axes xs ys) default_sat_height =
     Inr (tabulate2 (length ys, length xs)
            (\<lambda>i j. (xs ! j)\<^sup>2 + (ys ! i)\<^sup>2 \<le> (arcsin (6378137 / 35786023))\<^sup>2),
          tabulate2 (length ys, length xs) (\<lambda>i j. xs ! j * 35786023),
          tabulate2 (length ys, length xs) (\<lambda>i j. ys ! i * 35786023))" for xs ys
    using create_valid_coordinate_mask_Axes [of 35786023 xs ys]
    by (simp add: default_sat_height_def)
  show ?thesis
    using off
    by (simp add: compute_solar_angles_enhanced_def enhanced_fallback_def m Let_def
        sample_coordinate_data_def tabulate2_def cell_def)
qed

subsection \<open>Reference shape (C10)\<close>

lemma fold_largest_so_far:
  "fold largest_so_far ds (m, r) = (m', r') \<Longrightarrow>
     (m' = m \<and> r' = r \<and> (\<forall>d \<in> set ds. pixel_count d \<le> m))
     \<or> (\<exists>d \<in> set ds. r' = Some (native_shape d) \<and> m' = pixel_count d \<and> m < m'
            \<and> (\<forall>d' \<in> set ds. pixel_count d' \<le> m'))"
proof (induction ds arbitrary: m r)
  case Nil
  then show ?case by simp
next
  case (Cons d ds)
  show ?case
  proof (cases "m < pixel_count d")
    case True
    then have "largest_so_far d (m, r) = (pixel_count d, Some (native_shape d))"
      by (simp add: largest_so_far_def)
    then have "fold largest_so_far ds (pixel_count d, Some (native_shape d)) = (m', r')"
      using Cons.prems by simp
    from Cons.IH [OF this] True show ?thesis
      by (elim disjE) (auto intro: less_imp_le order_trans less_trans)
  next
    case False
    then have "largest_so_far d (m, r) = (m, r)"
      by (simp add: largest_so_far_def)
    then have "fold largest_so_far ds (m, r) = (m', r')"
      using Cons.prems by simp
    from Cons.IH [OF this] False show ?thesis
      by (elim disjE) (auto intro: order_trans)
  qed
qed

text \<open>
  C10, as the code has it.  On every path each task carries the one reference shape.
  It is the native shape of \<open>C02\<close> when \<open>C02\<close> was loaded.  Otherwise, when some
  loaded channel has a positive pixel count, it is the native shape of a loaded channel
  whose pixel count no other loaded channel exceeds; and when no loaded channel has a
  positive pixel count there is no reference shape (\<^verbatim>\<open>None\<close>).
\<close>

theorem reference_shape_choice:
  "(\<forall>t \<in> set (standard_tasks store). snd (snd (snd t)) = determine_reference_shape store)
   \<and> (\<forall>t \<in> set (full_disk_tasks store). snd (snd (snd t)) = determine_reference_shape store)
   \<and> (\<forall>t \<in> set (level2_tasks domain store).
         fst (snd (snd (snd t))) = determine_reference_shape store)
   \<and> (\<forall>c02. map_of store ''C02'' = Some c02 \<longrightarrow>
         determine_reference_shape store = Some (native_shape c02))
   \<and> (map_of store ''C02'' = None \<and> (\<exists>d \<in> set (map snd store). 0 < pixel_count d) \<longrightarrow>
         (\<exists>d \<in> set (map snd store).
            determine_reference_shape store = Some (native_shape d)
            \<and> (\<forall>d' \<in> set (map snd store). pixel_count d' \<le> pixel_count d)))
   \<and> (map_of store ''C02'' = None \<and> (\<forall>d \<in> set (map snd store). pixel_count d = 0) \<longrightarrow>
         determine_reference_shape store = None)"
proof (intro conjI allI impI ballI)
  fix t assume "t \<in> set (standard_tasks store)"
  then show "snd (snd (snd t)) = determine_reference_shape store"
    by (auto simp add: standard_tasks_def Let_def)
next
  fix t assume "t \<in> set (full_disk_tasks store)"
  then show "snd (snd (snd t)) = determine_reference_shape store"
    by (auto simp add: full_disk_tasks_def Let_def)
next
  fix t assume "t \<in> set (level2_tasks domain store)"
  then show "fst (snd (snd (snd t))) = determine_reference_shape store"
    by (auto simp add: level2_tasks_def Let_def)
next
  fix c02 assume "map_of store ''C02'' = Some c02"
  then show "determine_reference_shape store = Some (native_shape c02)"
    by (simp add: determine_reference_shape_def)
next
  assume a: "map_of store ''C02'' = None \<and> (\<exists>d \<in> set (map snd store). 0 < pixel_count d)"
  obtain m' r' where f: "fold largest_so_far (map snd store) (0, None) = (m', r')"
    by (cases "fold largest_so_far (map snd store) (0, None)")
  have r: "determine_reference_shape store = r'"
    using a f by (simp add: determine_reference_shape_def)
  from fold_largest_so_far [OF f] a
  show "\<exists>d \<in> set (map snd store).
            determine_reference_shape store = Some (native_shape d)
            \<and> (\<forall>d' \<in> set (map snd store). pixel_count d' \<le> pixel_count d)"
    unfolding r by (elim disjE) fastforce+
next
  assume a: "map_of store ''C02'' = None \<and> (\<forall>d \<in> set (map snd store). pixel_count d = 0)"
  obtain m' r' where f: "fold largest_so_far (map snd store) (0, None) = (m', r')"
    by (cases "fold largest_so_far (map snd store) (0, None)")
  have r: "determine_reference_shape store = r'"
    using a f by (simp add: determine_reference_shape_def)
  from fold_largest_so_far [OF f] a
  show "determine_reference_shape store = None"
    unfolding r by (elim disjE) fastforce+
qed

theorem reference_shape_choice_witness:
  "determine_reference_shape
      [(''C13'', sample_record ''ir'' (2, 3) (np_full (2, 3) (Val 1))),
       (''C02'', sample_record ''visible'' (1, 1) (np_full (1, 1) (Val 1)))] = Some (1, 1)
   \<and> (\<exists>d \<in> set (map snd
                    [(''C13'', sample_record ''ir'' (2, 3) (np_full (2, 3) (Val 1))),
                     (''C14'', sample_record ''ir'' (4, 5) (np_full (4, 5) (Val 1)))]).
         determine_reference_shape
           [(''C13'', sample_record ''ir'' (2, 3) (np_full (2, 3) (Val 1))),
            (''C14'', sample_record ''ir'' (4, 5) (np_full (4, 5) (Val 1)))] = Some (native_shape d)
         \<and> pixel_count d = 20)"
  using reference_shape_choice
      [of "[(''C13'', sample_record ''ir'' (2, 3) (np_full (2, 3) (Val 1))),
            (''C02'', sample_record ''visible'' (1, 1) (np_full (1, 1) (Val 1)))]"]
    reference_shape_choice
      [of "[(''C13'', sample_record ''ir'' (2, 3) (np_full (2, 3) (Val 1))),
            (''C14'', sample_record ''ir'' (4, 5) (np_full (4, 5) (Val 1)))]"]
  by (auto simp add: sample_record_def pixel_count_def)

text \<open>
  The claim as stated fails where every loaded channel has an empty array: the scan
  starts from a maximum of zero and compares strictly, so the shape \<open>(0, 10)\<close>, which has
  the greatest pixel count among the loaded channels, is not chosen.
\<close>

theorem reference_shape_counterexample:
  "determine_reference_shape [(''C13'', sample_record ''ir'' (0, 10) (np_full (0, 10) (Val 1)))] = None
   \<and> native_shape (sample_record ''ir'' (0, 10) (np_full (0, 10) (Val 1))) = (0, 10)"
  by (simp add: determine_reference_shape_def largest_so_far_def pixel_count_def sample_record_def)

subsection \<open>Order of the stages of a worker (C1)\<close>

lemma upscale_block_same: "upscale_block K s s a = Inr a"
  by (simp add: upscale_block_def)

text \<open>
  C1, as the code has it.  \<^verbatim>\<open>level2_aware_worker\<close> on a level 1b record calibrates the
  raw radiance, then resamples the calibrated array, then enhances (the order of the
  specification); on a level 2 record it takes the stored calibrated array, without a
  calibration step, resamples it and enhances.  \<^verbatim>\<open>standard_conus_worker\<close>, which the
  \<open>standard_conus\<close> and \<open>enhanced_full_disk\<close> paths run, resamples the raw radiance first,
  then calibrates, then enhances; where the target shape is the native shape, as on the
  full-disk path, that is the order of the specification with nothing to resample.
\<close>

theorem worker_stage_order:
  "(data_level raw \<noteq> Some ''level2'' \<and> radiance raw = Some rad \<longrightarrow>
      level2_aware_worker K (code, raw, target, ref, domain) =
        worker_result_of code raw target
          (Some (case data_level raw of None \<Rightarrow> ''level1b'' | Some l \<Rightarrow> l))
          (spec_pipeline K code raw target rad))
   \<and> (data_level raw = Some ''level2'' \<and> calibrated_data raw = Some cal \<longrightarrow>
      level2_aware_worker K (code, raw, target, ref, domain) =
        worker_result_of code raw target (Some ''level2'')
          (case upscale_block K (native_shape raw) target cal of
             Inl e \<Rightarrow> Inl e
           | Inr upscaled \<Rightarrow> Inr (upscaled, enhancement_block K raw code upscaled)))
   \<and> (radiance raw = Some rad \<longrightarrow>
      standard_conus_worker K (code, raw, target, ref) =
        worker_result_of code raw target None
          (case upscale_block K (native_shape raw) target rad of
             Inl e \<Rightarrow> Inl e
           | Inr upscaled \<Rightarrow>
               (case calibration_block K code raw upscaled of
                  Inl e \<Rightarrow> Inl e
                | Inr cal2 \<Rightarrow> Inr (cal2, enhancement_block K raw code cal2))))
   \<and> (radiance raw = Some rad \<and> target = native_shape raw \<longrightarrow>
      standard_conus_worker K (code, raw, target, ref) =
        worker_result_of code raw target None (spec_pipeline K code raw target rad))"
proof (intro conjI impI)
  assume "data_level raw \<noteq> Some ''level2'' \<and> radiance raw = Some rad"
  then show "level2_aware_worker K (code, raw, target, ref, domain) =
        worker_result_of code raw target
          (Some (case data_level raw of None \<Rightarrow> ''level1b'' | Some l \<Rightarrow> l))
          (spec_pipeline K code raw target rad)"
    by (auto simp add: level2_aware_worker_def spec_pipeline_def Let_def split: option.splits)
next
  assume "data_level raw = Some ''level2'' \<and> calibrated_data raw = Some cal"
  then show "level2_aware_worker K (code, raw, target, ref, domain) =
        worker_result_of code raw target (Some ''level2'')
          (case upscale_block K (native_shape raw) target cal of
             Inl e \<Rightarrow> Inl e
           | Inr upscaled \<Rightarrow> Inr (upscaled, enhancement_block K raw code upscaled))"
    by (simp add: level2_aware_worker_def Let_def)
next
  assume "radiance raw = Some rad"
  then show "standard_conus_worker K (code, raw, target, ref) =
        worker_result_of code raw target None
          (case upscale_block K (native_shape raw) target rad of
             Inl e \<Rightarrow> Inl e
           | Inr upscaled \<Rightarrow>
               (case calibration_block K code raw upscaled of
                  Inl e \<Rightarrow> Inl e
                | Inr cal2 \<Rightarrow> Inr (cal2, enhancement_block K raw code cal2)))"
    by (simp add: standard_conus_worker_def)
next
  assume "radiance raw = Some rad \<and> target = native_shape raw"
  then show "standard_conus_worker K (code, raw, target, ref) =
        worker_result_of code raw target None (spec_pipeline K code raw target rad)"
    by (simp add: standard_conus_worker_def spec_pipeline_def upscale_block_same
        split: sum.splits)
qed

lemma c13_row: "planck_constants ''C13'' None = (747.3, 868.467, 0.53083, 0.99111)"
  by (simp add: planck_constants_def CHANNEL_CONSTANTS_def C13_CONSTANTS_def unpack_constants_def)

lemma wf_tabulate2 [simp]: "wf_array (tabulate2 s f)"
  by (simp add: wf_array_def)

lemma shape_map_array [simp]: "shape (map_array g a) = shape a"
  by (simp add: map_array_def)

lemma cell_map_array:
  "wf_array a \<Longrightarrow> i < fst (shape a) \<Longrightarrow> j < snd (shape a) \<Longrightarrow>
   cell (map_array g a) i j = g (cell a i j)"
  using flat_index_bound [of i "fst (shape a)" j "snd (shape a)"]
  by (simp add: cell_def map_array_def wf_array_def)

lemma averaging_4x:
  "numba_fast_upscale_4x (upscale_kernels averaging_kernels) d s i j =
     mean_pixel (cell d (i div 4) (j div 4))
       (cell d (i div 4) (min ((j + 2) div 4) (snd (shape d) - 1)))"
  by (simp add: averaging_kernels_def nearest_kernels_def)

lemma averaging_bt:
  "numba_radiance_to_brightness_temp averaging_kernels = numpy_brightness_temp"
  by (simp add: averaging_kernels_def)

lemma averaging_enh: "enhance_ir_channel averaging_kernels a c = a"
  by (simp add: averaging_kernels_def)

text \<open>
  The claim as stated fails on the \<open>standard_conus\<close> path.  With an interpolating kernel
  and the radiances \<open>-1\<close> and \<open>3\<close>, the worker interpolates the radiance to \<open>1\<close> and
  calibrates it to a temperature, where calibrating first gives \<open>NaN\<close> for \<open>-1\<close> and
  the interpolation keeps \<open>NaN\<close>.
\<close>

theorem worker_stage_order_counterexample:
  "calibrated_cell
      (standard_conus_worker averaging_kernels
         (''C13'', sample_record ''ir'' (1, 2) (NdArray (1, 2) [Val (- 1), Val 3]), (4, 8), Some (1, 2)))
      0 2
     = Some (Val ((868.467 / ln (747.3 / 1 + 1) - 0.53083) / 0.99111))
   \<and> calibrated_cell
      (worker_result_of ''C13'' (sample_record ''ir'' (1, 2) (NdArray (1, 2) [Val (- 1), Val 3]))
         (4, 8) None
         (spec_pipeline averaging_kernels ''C13''
            (sample_record ''ir'' (1, 2) (NdArray (1, 2) [Val (- 1), Val 3])) (4, 8)
            (NdArray (1, 2) [Val (- 1), Val 3])))
      0 2
     = Some NaN"
proof -
  define rad0 where "rad0 = NdArray (1, 2) [Val (- 1), Val 3]"
  define raw0 where "raw0 = sample_record ''ir'' (1, 2) rad0"
  define f where "f = (\<lambda>p. case p of NaN \<Rightarrow> NaN
       | Val r \<Rightarrow> if 0 < r then Val ((868.467 / ln (747.3 / r + 1) - 0.53083) / 0.99111) else NaN)"
  have raw: "radiance raw0 = Some rad0" "channel_type raw0 = ''ir''"
      "kappa0 raw0 = None" "simple_mock_ds raw0 = None"
    by (simp_all add: raw0_def sample_record_def simple_mock_ds_def)
  have ns: "native_shape raw0 = (1, 2)"
    by (simp add: raw0_def sample_record_def)
  have up: "upscale_block averaging_kernels (native_shape raw0) (4, 8) a
      = Inr (tabulate2 (fst (shape a) * 4, snd (shape a) * 4)
               (numba_fast_upscale_4x (upscale_kernels averaging_kernels) a
                  (fst (shape a) * 4, snd (shape a) * 4)))"
    if "fst (shape a) < 2 ^ 51" "snd (shape a) < 2 ^ 51" for a
    using that by (simp add: ns upscale_block_def Let_def fast_upscale_array_4x)
  have nb: "numpy_brightness_temp a 747.3 868.467 0.53083 0.99111 = map_array f a" for a
    unfolding numpy_brightness_temp_def f_def by (rule refl)
  have "calibration_block averaging_kernels ''C13'' raw0 a
      = Inr (numpy_brightness_temp a 747.3 868.467 0.53083 0.99111)" for a
    unfolding calibration_block_def radiance_to_brightness_temp_def raw c13_row averaging_bt
      NUMBA_AVAILABLE_def by simp
  then have cal: "calibration_block averaging_kernels ''C13'' raw0 a = Inr (map_array f a)" for a
    unfolding nb .
  have c00: "cell rad0 0 0 = Val (- 1)" and c01: "cell rad0 0 (Suc 0) = Val 3"
    by (simp_all add: rad0_def cell_def)
  have s0: "shape rad0 = (1, 2)" by (simp add: rad0_def)
  have wf0: "wf_array rad0" by (simp add: rad0_def wf_array_def)
  have 1: "calibrated_cell
      (standard_conus_worker averaging_kernels (''C13'', raw0, (4, 8), Some (1, 2))) 0 2
      = Some (f (Val 1))"
    by (simp add: standard_conus_worker_def raw up cal worker_result_of_def calibrated_cell_def
        cell_map_array s0 averaging_4x c00 c01 mean_pixel_def)
  have 2: "calibrated_cell
      (worker_result_of ''C13'' raw0 (4, 8) None
         (spec_pipeline averaging_kernels ''C13'' raw0 (4, 8) rad0)) 0 2
      = Some (mean_pixel (f (Val (- 1))) (f (Val 3)))"
    by (simp add: spec_pipeline_def raw up cal worker_result_of_def calibrated_cell_def
        s0 averaging_4x cell_map_array wf0 c00 c01)
  show ?thesis
    using 1 2 by (simp add: raw0_def rad0_def f_def mean_pixel_def)
qed


theorem worker_stage_order_witness:
  "level2_aware_worker averaging_kernels
      (''C13'', sample_record ''ir'' (1, 2) (NdArray (1, 2) [Val (- 1), Val 3]), (4, 8),
       Some (1, 2), ''conus'')
     = worker_result_of ''C13'' (sample_record ''ir'' (1, 2) (NdArray (1, 2) [Val (- 1), Val 3]))
         (4, 8) (Some ''level1b'')
         (spec_pipeline averaging_kernels ''C13''
            (sample_record ''ir'' (1, 2) (NdArray (1, 2) [Val (- 1), Val 3])) (4, 8)
            (NdArray (1, 2) [Val (- 1), Val 3]))
   \<and> level2_aware_worker averaging_kernels
      (''C13'',
       (sample_record ''ir'' (1, 2) (NdArray (1, 2) [Val (- 1), Val 3]))
         \<lparr> calibrated_data := Some (NdArray (1, 2) [Val 250, Val 300]),
           data_level := Some ''level2'' \<rparr>,
       (1, 2), Some (1, 2), ''full_disk'')
     = Success ''C13'' (NdArray (1, 2) [Val 250, Val 300]) (NdArray (1, 2) [Val 250, Val 300]) ''ir''
         \<lparr> md_file_path = ''C13.nc'', md_shape = (1, 2), md_band_id = Some 13,
           md_data_level = Some ''level2'',
           md_time_coverage_start = ''2024-06-01T18:00:00.0Z'',
           md_time_coverage_end = ''2024-06-01T18:05:00.0Z'',
           md_orbital_slot = ''GOES-East'' \<rparr>
         None
   \<and> standard_conus_worker averaging_kernels
      (''C13'', sample_record ''ir'' (1, 2) (NdArray (1, 2) [Val (- 1), Val 3]), (1, 2), Some (1, 2))
     = worker_result_of ''C13'' (sample_record ''ir'' (1, 2) (NdArray (1, 2) [Val (- 1), Val 3]))
         (1, 2) None
         (spec_pipeline averaging_kernels ''C13''
            (sample_record ''ir'' (1, 2) (NdArray (1, 2) [Val (- 1), Val 3])) (1, 2)
            (NdArray (1, 2) [Val (- 1), Val 3]))"
proof -
  let ?rad = "NdArray (1, 2) [Val (- 1), Val 3]"
  let ?raw = "sample_record ''ir'' (1, 2) ?rad"
  let ?raw2 = "?raw \<lparr> calibrated_data := Some (NdArray (1, 2) [Val 250, Val 300]),
                      data_level := Some ''level2'' \<rparr>"
  have dl: "data_level ?raw = Some ''level1b''"
    by (simp add: sample_record_def)
  have h1: "data_level ?raw \<noteq> Some ''level2'' \<and> radiance ?raw = Some ?rad"
    by (simp add: sample_record_def)
  have h2: "data_level ?raw2 = Some ''level2''
      \<and> calibrated_data ?raw2 = Some (NdArray (1, 2) [Val 250, Val 300])"
    by simp
  have h3: "radiance ?raw = Some ?rad \<and> (1, 2) = native_shape ?raw"
    by (simp add: sample_record_def)
  have a: "level2_aware_worker averaging_kernels (''C13'', ?raw, (4, 8), Some (1, 2), ''conus'')
     = worker_result_of ''C13'' ?raw (4, 8) (Some ''level1b'')
         (spec_pipeline averaging_kernels ''C13'' ?raw (4, 8) ?rad)"
    using worker_stage_order
      [where raw = ?raw and rad = ?rad and K = averaging_kernels and code = "''C13''"
         and target = "(4, 8)" and ref = "Some (1, 2)" and domain = "''conus''"] h1
    by (simp only: dl option.simps simp_thms)
  have ns2: "native_shape ?raw2 = (1, 2)"
    by (simp add: sample_record_def)
  have "level2_aware_worker averaging_kernels (''C13'', ?raw2, (1, 2), Some (1, 2), ''full_disk'')
     = worker_result_of ''C13'' ?raw2 (1, 2) (Some ''level2'')
         (case upscale_block averaging_kernels (native_shape ?raw2) (1, 2)
                 (NdArray (1, 2) [Val 250, Val 300]) of
            Inl e \<Rightarrow> Inl e
          | Inr upscaled \<Rightarrow> Inr (upscaled, enhancement_block averaging_kernels ?raw2 ''C13'' upscaled))"
    using worker_stage_order
      [where raw = ?raw2 and K = averaging_kernels and code = "''C13''"
         and target = "(1, 2)" and ref = "Some (1, 2)" and domain = "''full_disk''"
         and cal = "NdArray (1, 2) [Val 250, Val 300]"] h2
    by (simp only: simp_thms)
  then have b: "level2_aware_worker averaging_kernels
        (''C13'', ?raw2, (1, 2), Some (1, 2), ''full_disk'')
     = Success ''C13'' (NdArray (1, 2) [Val 250, Val 300]) (NdArray (1, 2) [Val 250, Val 300]) ''ir''
         \<lparr> md_file_path = ''C13.nc'', md_shape = (1, 2), md_band_id = Some 13,
           md_data_level = Some ''level2'',
           md_time_coverage_start = ''2024-06-01T18:00:00.0Z'',
           md_time_coverage_end = ''2024-06-01T18:05:00.0Z'',
           md_orbital_slot = ''GOES-East'' \<rparr>
         None"
    unfolding ns2 upscale_block_same
    by (simp add: worker_result_of_def enhancement_block_def averaging_enh sample_record_def)
  have c: "standard_conus_worker averaging_kernels (''C13'', ?raw, (1, 2), Some (1, 2))
     = worker_result_of ''C13'' ?raw (1, 2) None
         (spec_pipeline averaging_kernels ''C13'' ?raw (1, 2) ?rad)"
    by (rule worker_stage_order
      [where raw = ?raw and rad = ?rad and K = averaging_kernels and code = "''C13''"
         and target = "(1, 2)" and ref = "Some (1, 2)",
       THEN conjunct2, THEN conjunct2, THEN conjunct2, rule_format, OF h3])
  show ?thesis
    using a b c by (intro conjI)
qed

subsection \<open>Sequential and pooled runs (C6)\<close>

lemma map_of_dict_set: "map_of (dict_set d k v) = (map_of d)(k \<mapsto> v)"
  by (induction d k v rule: dict_set.induct) (auto simp add: fun_eq_iff)

lemma store_view_merge:
  "store_view (fst (merge_result r state)) = view_update r (store_view (fst state))"
  by (cases state; cases r)
    (simp_all add: merge_result_def view_update_def store_view_def store_channel_def
      store_coordinate_data_def map_of_dict_set Let_def split: option.splits)

lemma store_view_fold:
  "store_view (fst (fold merge_result rs state)) = fold view_update rs (store_view (fst state))"
  by (induction rs arbitrary: state) (simp_all add: store_view_merge)

lemma view_update_commute:
  "result_code x \<noteq> result_code y \<Longrightarrow> view_update x (view_update y v) = view_update y (view_update x v)"
  by (cases x; cases y) (auto simp add: view_update_def result_code_def fun_upd_twist)

lemma fold_view_update_permuted:
  assumes "distinct (map result_code rs)" "mset rs' = mset rs"
  shows "fold view_update rs' = fold view_update rs"
proof (rule fold_multiset_equiv [symmetric])
  fix x y
  assume xy: "x \<in> set rs" "y \<in> set rs"
  show "view_update x \<circ> view_update y = view_update y \<circ> view_update x"
  proof (cases "x = y")
    case True
    then show ?thesis by simp
  next
    case False
    then have "result_code x \<noteq> result_code y"
      using assms(1) xy by (auto simp add: distinct_map inj_on_def)
    then show ?thesis
      by (auto simp add: fun_eq_iff view_update_commute)
  qed
next
  show "mset rs = mset rs'" using assms(2) by simp
qed

lemma result_code_worker_result_of [simp]:
  "result_code (worker_result_of code raw target level outcome) = code"
  by (auto simp add: worker_result_of_def result_code_def split: sum.splits)

lemma result_code_standard [simp]:
  "result_code (standard_conus_worker K t) = fst t"
  by (cases t) (simp add: standard_conus_worker_def)

lemma result_code_level2 [simp]:
  "result_code (level2_aware_worker K t) = fst t"
  by (cases t) (simp add: level2_aware_worker_def Let_def)

lemma fst_standard_tasks [simp]: "map fst (standard_tasks store) = map fst store"
  by (simp add: standard_tasks_def Let_def split_def o_def)

lemma fst_full_disk_tasks [simp]: "map fst (full_disk_tasks store) = map fst store"
  by (simp add: full_disk_tasks_def Let_def split_def o_def)

lemma fst_level2_tasks [simp]: "map fst (level2_tasks domain store) = map fst store"
  by (simp add: level2_tasks_def Let_def split_def o_def)

lemma run_channel_tasks_view:
  assumes "distinct (map (\<lambda>t. result_code (worker t)) tasks)"
    and "\<forall>rs. mset (as_completed env rs) = mset rs"
  shows "store_view (fst (run_channel_tasks st0 env worker tasks))
     = fold view_update (map worker tasks) (store_view st0)"
proof -
  have d: "distinct (map result_code (map worker tasks))"
    using assms(1) by (simp add: o_def)
  have "fold view_update (as_completed env (map worker tasks)) = fold view_update (map worker tasks)"
    using fold_view_update_permuted [OF d] assms(2) by blast
  then show ?thesis
    by (simp add: run_channel_tasks_def store_view_fold)
qed

lemma store_view_solar [simp]: "store_view (st \<lparr> solar_angles := a \<rparr>) = store_view st"
  by (simp add: store_view_def)


lemma standard_phase_view:
  assumes "distinct (map fst store)" "\<forall>rs. mset (as_completed env rs) = mset rs"
  shows "store_view (fst (run_channel_tasks new_store env (standard_conus_worker K) (standard_tasks store)))
     = fold view_update (map (standard_conus_worker K) (standard_tasks store)) (store_view new_store)"
  using assms by (intro run_channel_tasks_view) (simp_all add: map_map [symmetric] del: map_map)

lemma full_disk_phase_view:
  assumes "distinct (map fst store)" "\<forall>rs. mset (as_completed env rs) = mset rs"
  shows "store_view (fst (run_channel_tasks new_store env (standard_conus_worker K) (full_disk_tasks store)))
     = fold view_update (map (standard_conus_worker K) (full_disk_tasks store)) (store_view new_store)"
  using assms by (intro run_channel_tasks_view) (simp_all add: map_map [symmetric] del: map_map)

lemma level2_phase_view:
  assumes "distinct (map fst store)" "\<forall>rs. mset (as_completed env rs) = mset rs"
  shows "store_view (fst (run_channel_tasks OptimizedMemoryStore env (level2_aware_worker K) (level2_tasks domain store)))
     = fold view_update (map (level2_aware_worker K) (level2_tasks domain store))
         (store_view OptimizedMemoryStore)"
  using assms by (intro run_channel_tasks_view) (simp_all add: map_map [symmetric] del: map_map)

lemma process_level2_aware_view:
  "store_view (process_level2_aware env K domain store)
     = store_view (fst (run_channel_tasks OptimizedMemoryStore env (level2_aware_worker K) (level2_tasks domain store)))"
  by (simp add: process_level2_aware_def Let_def split: option.splits)

lemma process_enhanced_full_disk_view:
  "store \<noteq> [] \<Longrightarrow> store_view (process_enhanced_full_disk env K store)
     = store_view (fst (run_channel_tasks new_store env (standard_conus_worker K) (full_disk_tasks store)))"
  by (simp add: process_enhanced_full_disk_def Let_def split: option.splits)

lemma process_standard_conus_view:
  "store \<noteq> [] \<Longrightarrow> process_standard_conus env K store = Inr st \<Longrightarrow>
   store_view st
     = store_view (fst (run_channel_tasks new_store env (standard_conus_worker K) (standard_tasks store)))"
  by (auto simp add: process_standard_conus_def Let_def split: option.splits sum.splits if_splits)

text \<open>
  C6.  The pool is the order in which it hands back the results, any permutation of
  them; a worker is a function of its task.  For a raw store with distinct channel codes
  (it is a dictionary) and any two environments, with the pool or without it and
  whatever the order of completion, the contents of the channel store by channel code
  (calibrated array, enhanced array, channel type, shape and metadata) are the same,
  after the channel phase and at the end of each of the three paths.  On the level 2
  path the store is the \<^verbatim>\<open>OptimizedMemoryStore\<close>, whose class is not in the sources and is
  modelled as the channel store of the specification.
\<close>

theorem aggregation_order_independent:
  "distinct (map fst store)
   \<and> (\<forall>rs. mset (as_completed env rs) = mset rs)
   \<and> (\<forall>rs. mset (as_completed env' rs) = mset rs) \<longrightarrow>
     store_view (fst (run_channel_tasks new_store env (standard_conus_worker K) (standard_tasks store)))
       = store_view (fst (run_channel_tasks new_store env' (standard_conus_worker K) (standard_tasks store)))
     \<and> (\<forall>st st'. process_standard_conus env K store = Inr st
                  \<and> process_standard_conus env' K store = Inr st' \<longrightarrow>
           store_view st = store_view st')
     \<and> store_view (process_enhanced_full_disk env K store)
         = store_view (process_enhanced_full_disk env' K store)
     \<and> store_view (process_level2_aware env K domain store)
         = store_view (process_level2_aware env' K domain store)"
proof (intro impI conjI allI)
  assume a: "distinct (map fst store)
   \<and> (\<forall>rs. mset (as_completed env rs) = mset rs)
   \<and> (\<forall>rs. mset (as_completed env' rs) = mset rs)"
  then have d: "distinct (map fst store)"
    and p: "\<forall>rs. mset (as_completed env rs) = mset rs"
    and p': "\<forall>rs. mset (as_completed env' rs) = mset rs"
    by simp_all
  show s: "store_view (fst (run_channel_tasks new_store env (standard_conus_worker K) (standard_tasks store)))
       = store_view (fst (run_channel_tasks new_store env' (standard_conus_worker K) (standard_tasks store)))"
    by (simp only: standard_phase_view [OF d p] standard_phase_view [OF d p'])
  show "store_view (process_enhanced_full_disk env K store)
         = store_view (process_enhanced_full_disk env' K store)"
  proof (cases "store = []")
    case True
    then show ?thesis by (simp add: process_enhanced_full_disk_def)
  next
    case False
    then show ?thesis
      by (simp only: process_enhanced_full_disk_view [OF False]
          full_disk_phase_view [OF d p] full_disk_phase_view [OF d p'])
  qed
  show "store_view (process_level2_aware env K domain store)
         = store_view (process_level2_aware env' K domain store)"
    by (simp only: process_level2_aware_view level2_phase_view [OF d p] level2_phase_view [OF d p'])
  fix st st'
  assume r: "process_standard_conus env K store = Inr st
                  \<and> process_standard_conus env' K store = Inr st'"
  show "store_view st = store_view st'"
  proof (cases "store = []")
    case True
    then show ?thesis using r by (simp add: process_standard_conus_def)
  next
    case False
    show ?thesis
      using r s process_standard_conus_view [OF False, of env K st]
        process_standard_conus_view [OF False, of env' K st']
      by simp
  qed
qed

theorem aggregation_order_independent_witness:
  "store_view (process_level2_aware reversing_pool_env averaging_kernels ''conus''
       [(''C13'', sample_record ''ir'' (1, 2) (NdArray (1, 2) [Val 1, Val 3])),
        (''C02'', sample_record ''visible'' (1, 1) (NdArray (1, 1) [Val 2]))])
     = store_view (process_level2_aware sequential_env averaging_kernels ''conus''
       [(''C13'', sample_record ''ir'' (1, 2) (NdArray (1, 2) [Val 1, Val 3])),
        (''C02'', sample_record ''visible'' (1, 1) (NdArray (1, 1) [Val 2]))])
   \<and> store_view (process_enhanced_full_disk reversing_pool_env averaging_kernels
       [(''C13'', sample_record ''ir'' (1, 2) (NdArray (1, 2) [Val 1, Val 3])),
        (''C02'', sample_record ''visible'' (1, 1) (NdArray (1, 1) [Val 2]))])
     = store_view (process_enhanced_full_disk sequential_env averaging_kernels
       [(''C13'', sample_record ''ir'' (1, 2) (NdArray (1, 2) [Val 1, Val 3])),
        (''C02'', sample_record ''visible'' (1, 1) (NdArray (1, 1) [Val 2]))])"
  using aggregation_order_independent
    [where store = "[(''C13'', sample_record ''ir'' (1, 2) (NdArray (1, 2) [Val 1, Val 3])),
        (''C02'', sample_record ''visible'' (1, 1) (NdArray (1, 1) [Val 2]))]"
      and env = "reversing_pool_env :: pixel run_env" and env' = "sequential_env :: pixel run_env"
      and K = averaging_kernels and domain = "''conus''"]
  by (simp add: reversing_pool_env_def sequential_env_def)

subsection \<open>Independent RGB products (C5)\<close>

lemma possible_products_iff:
  "(n, i) \<in> set (possible_products available requested) \<longleftrightarrow>
     n \<in> set requested \<and> map_of RGB_CATALOG n = Some i
     \<and> missing_channels (required_channels i) available = []"
  by (auto simp add: possible_products_def split: option.splits if_splits)

lemma report_build_product:
  "set (report run) \<subseteq> set (report (build_product reg cd solar pr run))"
  by (cases pr) (auto simp add: build_product_def split: option.splits sum.splits rgb_result.splits)

lemma report_fold_build:
  "set (report run) \<subseteq> set (report (fold (build_product reg cd solar) ps run))"
proof (induction ps arbitrary: run)
  case Nil
  then show ?case by simp
next
  case (Cons pr ps)
  show ?case
    using report_build_product [of run reg cd solar pr]
      Cons.IH [of "build_product reg cd solar pr run"]
    by auto
qed

lemma products_build_other:
  "fst pr \<noteq> n \<Longrightarrow>
   map_of (rgb_products (build_product reg cd solar pr run)) n = map_of (rgb_products run) n"
  by (cases pr)
    (auto simp add: build_product_def map_of_dict_set split: option.splits sum.splits rgb_result.splits)

lemma products_build_same:
  "reg (worker_name i) = Some w \<Longrightarrow>
   map_of (rgb_products (build_product reg cd solar (n, i) run)) n =
     (case w cd solar of Inr (RgbSuccess a m) \<Rightarrow> Some a | _ \<Rightarrow> map_of (rgb_products run) n)"
  by (auto simp add: build_product_def map_of_dict_set split: option.splits sum.splits rgb_result.splits)

lemma event_build_same:
  "reg (worker_name i) = Some w \<Longrightarrow>
   (case w cd solar of
      Inl e \<Rightarrow> ProductException n e
    | Inr (RgbFailure err) \<Rightarrow> ProductFailed n err
    | Inr (RgbSuccess a m) \<Rightarrow> ProductCreated n) \<in> set (report (build_product reg cd solar (n, i) run))"
  by (auto simp add: build_product_def split: option.splits sum.splits rgb_result.splits)

lemma products_fold_absent:
  "n \<notin> fst ` set ps \<Longrightarrow>
   map_of (rgb_products (fold (build_product reg cd solar) ps run)) n = map_of (rgb_products run) n"
proof (induction ps arbitrary: run)
  case Nil
  then show ?case by simp
next
  case (Cons pr ps)
  then have "fst pr \<noteq> n" by auto
  then show ?case
    using Cons products_build_other [of pr n reg cd solar run] by simp
qed

lemma products_fold_present:
  assumes "(n, i) \<in> set ps" "\<forall>i'. (n, i') \<in> set ps \<longrightarrow> i' = i" "reg (worker_name i) = Some w"
  shows "map_of (rgb_products (fold (build_product reg cd solar) ps run)) n =
     (case w cd solar of Inr (RgbSuccess a m) \<Rightarrow> Some a | _ \<Rightarrow> map_of (rgb_products run) n)"
  using assms(1,2)
proof (induction ps arbitrary: run)
  case Nil
  then show ?case by simp
next
  case (Cons pr ps)
  obtain n' i' where pr: "pr = (n', i')" by (cases pr)
  show ?case
  proof (cases "(n, i) \<in> set ps")
    case True
    have u: "\<forall>i'. (n, i') \<in> set ps \<longrightarrow> i' = i" using Cons.prems(2) by auto
    have ih: "map_of (rgb_products (fold (build_product reg cd solar) ps
                (build_product reg cd solar pr run))) n =
       (case w cd solar of Inr (RgbSuccess a m) \<Rightarrow> Some a
        | _ \<Rightarrow> map_of (rgb_products (build_product reg cd solar pr run)) n)"
      by (rule Cons.IH [OF True u])
    show ?thesis
    proof (cases "n' = n")
      case True
      then have "i' = i" using Cons.prems(2) pr by auto
      then show ?thesis
        using ih True pr products_build_same [where reg = reg and i = i and w = w and cd = cd and solar = solar
          and n = n and run = run, OF assms(3)]
        by (auto split: sum.splits rgb_result.splits)
    next
      case False
      then show ?thesis
        using ih pr products_build_other [of pr n reg cd solar run]
        by (simp split: sum.splits rgb_result.splits)
    qed
  next
    case False
    then have p: "pr = (n, i)" using Cons.prems(1) by auto
    have "n \<notin> fst ` set ps"
      using False Cons.prems(2) by force
    then show ?thesis
      using products_fold_absent [of n ps reg cd solar "build_product reg cd solar pr run"]
        products_build_same [where reg = reg and i = i and w = w and cd = cd and solar = solar
          and n = n and run = run, OF assms(3)] p
      by simp
  qed
qed

lemma event_fold_present:
  assumes "(n, i) \<in> set ps" "reg (worker_name i) = Some w"
  shows "(case w cd solar of
      Inl e \<Rightarrow> ProductException n e
    | Inr (RgbFailure err) \<Rightarrow> ProductFailed n err
    | Inr (RgbSuccess a m) \<Rightarrow> ProductCreated n)
     \<in> set (report (fold (build_product reg cd solar) ps run))"
  using assms(1)
proof (induction ps arbitrary: run)
  case Nil
  then show ?case by simp
next
  case (Cons pr ps)
  show ?case
  proof (cases "pr = (n, i)")
    case True
    then show ?thesis
      using event_build_same [where reg = reg and i = i and w = w and cd = cd and solar = solar
          and n = n and run = run, OF assms(2)]
        report_fold_build [of "build_product reg cd solar pr run" reg cd solar ps]
      by auto
  next
    case False
    then have "(n, i) \<in> set ps" using Cons.prems by auto
    then show ?thesis using Cons.IH by simp
  qed
qed


lemma create_rgb_products_unified_fold:
  "create_rgb_products_unified reg to_create chans solar =
     fold (build_product reg (map_of chans) solar)
       (possible_products (map fst chans) (requested_products to_create))
       \<lparr> rgb_products = [],
         report = map (availability_event (map fst chans)) (requested_products to_create) \<rparr>"
  by (simp add: create_rgb_products_unified_def Let_def)

text \<open>
  C5.  For a requested product of the catalogue: when some of its channels are not in
  the store, the report holds its missing-channels entry and the product set has no
  entry for it; when all are there and its worker is registered, the worker is run, the
  report holds what came of it, and the product set holds the worker's image exactly
  when the worker returned one.  What the run holds for a product is decided by its own
  worker alone, whatever the other workers return or raise.
\<close>

theorem products_built_independently:
  "rgb_name \<in> set (requested_products to_create) \<and> map_of RGB_CATALOG rgb_name = Some info \<longrightarrow>
     (missing_channels (required_channels info) (map fst chans) \<noteq> [] \<longrightarrow>
        map_of (rgb_products (create_rgb_products_unified reg to_create chans solar)) rgb_name = None
        \<and> MissingChannels rgb_name (missing_channels (required_channels info) (map fst chans))
            \<in> set (report (create_rgb_products_unified reg to_create chans solar)))
     \<and> (missing_channels (required_channels info) (map fst chans) = []
          \<and> reg (worker_name info) = Some w \<longrightarrow>
        map_of (rgb_products (create_rgb_products_unified reg to_create chans solar)) rgb_name
          = (case w (map_of chans) solar of
               Inl e \<Rightarrow> None
             | Inr (RgbFailure err) \<Rightarrow> None
             | Inr (RgbSuccess rgb_data method) \<Rightarrow> Some rgb_data)
        \<and> (case w (map_of chans) solar of
               Inl e \<Rightarrow> ProductException rgb_name e
             | Inr (RgbFailure err) \<Rightarrow> ProductFailed rgb_name err
             | Inr (RgbSuccess rgb_data method) \<Rightarrow> ProductCreated rgb_name)
            \<in> set (report (create_rgb_products_unified reg to_create chans solar)))"
proof (intro impI conjI)
  assume a: "rgb_name \<in> set (requested_products to_create) \<and> map_of RGB_CATALOG rgb_name = Some info"
    and m: "missing_channels (required_channels info) (map fst chans) \<noteq> []"
  let ?ps = "possible_products (map fst chans) (requested_products to_create)"
  let ?run0 = "\<lparr> rgb_products = [],
         report = map (availability_event (map fst chans)) (requested_products to_create) \<rparr>"
  have "rgb_name \<notin> fst ` set ?ps"
    using a m by (auto simp add: possible_products_iff)
  then show "map_of (rgb_products (create_rgb_products_unified reg to_create chans solar)) rgb_name
      = None"
    using products_fold_absent [of rgb_name ?ps reg "map_of chans" solar ?run0]
    by (simp add: create_rgb_products_unified_fold)
  have "availability_event (map fst chans) rgb_name
      = MissingChannels rgb_name (missing_channels (required_channels info) (map fst chans))"
    using a m by (simp add: availability_event_def)
  then have "MissingChannels rgb_name (missing_channels (required_channels info) (map fst chans))
      \<in> set (report ?run0)"
    using a by force
  then show "MissingChannels rgb_name (missing_channels (required_channels info) (map fst chans))
            \<in> set (report (create_rgb_products_unified reg to_create chans solar))"
    using report_fold_build [of ?run0 reg "map_of chans" solar ?ps]
    unfolding create_rgb_products_unified_fold by blast
next
  assume a: "rgb_name \<in> set (requested_products to_create) \<and> map_of RGB_CATALOG rgb_name = Some info"
    and m: "missing_channels (required_channels info) (map fst chans) = []
          \<and> reg (worker_name info) = Some w"
  let ?ps = "possible_products (map fst chans) (requested_products to_create)"
  let ?run0 = "\<lparr> rgb_products = [],
         report = map (availability_event (map fst chans)) (requested_products to_create) \<rparr>"
  have mem: "(rgb_name, info) \<in> set ?ps"
    using a m by (simp add: possible_products_iff)
  have uniq: "\<forall>i'. (rgb_name, i') \<in> set ?ps \<longrightarrow> i' = info"
    using a by (simp add: possible_products_iff)
  have r: "reg (worker_name info) = Some w" using m by simp
  show "map_of (rgb_products (create_rgb_products_unified reg to_create chans solar)) rgb_name
          = (case w (map_of chans) solar of
               Inl e \<Rightarrow> None
             | Inr (RgbFailure err) \<Rightarrow> None
             | Inr (RgbSuccess rgb_data method) \<Rightarrow> Some rgb_data)"
    using products_fold_present [where n = rgb_name and i = info and ps = ?ps and reg = reg
        and w = w and cd = "map_of chans" and solar = solar and run = ?run0, OF mem uniq r]
    by (simp add: create_rgb_products_unified_fold split: sum.splits rgb_result.splits)
  show "(case w (map_of chans) solar of
               Inl e \<Rightarrow> ProductException rgb_name e
             | Inr (RgbFailure err) \<Rightarrow> ProductFailed rgb_name err
             | Inr (RgbSuccess rgb_data method) \<Rightarrow> ProductCreated rgb_name)
            \<in> set (report (create_rgb_products_unified reg to_create chans solar))"
    using event_fold_present [where n = rgb_name and i = info and ps = ?ps and reg = reg
        and w = w and cd = "map_of chans" and solar = solar and run = ?run0, OF mem r]
    by (simp add: create_rgb_products_unified_fold)
qed

theorem products_built_independently_witness:
  "map_of (rgb_products
       (create_rgb_products_unified sample_registry
          (Some [''true_color'', ''geocolor'', ''sandwich'']) sample_channels None)) ''geocolor''
     = None
   \<and> MissingChannels ''geocolor'' [''C07'']
       \<in> set (report
           (create_rgb_products_unified sample_registry
              (Some [''true_color'', ''geocolor'', ''sandwich'']) sample_channels None))
   \<and> map_of (rgb_products
       (create_rgb_products_unified sample_registry
          (Some [''true_color'', ''geocolor'', ''sandwich'']) sample_channels None)) ''true_color''
     = None
   \<and> ProductException ''true_color'' (ValueError ''out of memory'')
       \<in> set (report
           (create_rgb_products_unified sample_registry
              (Some [''true_color'', ''geocolor'', ''sandwich'']) sample_channels None))
   \<and> map_of (rgb_products
       (create_rgb_products_unified sample_registry
          (Some [''true_color'', ''geocolor'', ''sandwich'']) sample_channels None)) ''sandwich''
     = Some (NdArray (1, 1) [(0, 0, 0)])"
proof -
  let ?req = "Some [''true_color'', ''geocolor'', ''sandwich'']"
  have g: "map_of RGB_CATALOG ''geocolor''
      = Some \<lparr> required_channels = [''C01'', ''C02'', ''C03'', ''C07'', ''C13''],
               worker_name = ''rgb_worker_geocolor'', category = ''core'' \<rparr>"
    by (simp add: RGB_CATALOG_def)
  have t: "map_of RGB_CATALOG ''true_color''
      = Some \<lparr> required_channels = [''C01'', ''C02'', ''C03''],
               worker_name = ''rgb_worker_true_color'', category = ''basic'' \<rparr>"
    by (simp add: RGB_CATALOG_def)
  have sw: "map_of RGB_CATALOG ''sandwich''
      = Some \<lparr> required_channels = [''C02'', ''C13''],
               worker_name = ''rgb_worker_sandwich_optimized'', category = ''composite'' \<rparr>"
    by (simp add: RGB_CATALOG_def)
  have w1: "sample_registry ''rgb_worker_true_color''
      = Some (\<lambda>channels_data solar. Inl (ValueError ''out of memory''))"
    by (simp add: sample_registry_def)
  have w2: "sample_registry ''rgb_worker_sandwich_optimized''
      = Some (rgb_worker_sandwich_optimized black_kernels)"
    by (simp add: sample_registry_def)
  have out: "rgb_worker_sandwich_optimized black_kernels (map_of sample_channels) None
      = Inr (RgbSuccess (NdArray (1, 1) [(0, 0, 0)]) ''sandwich_temperature_filtered_solar_corrected'')"
    by (simp add: rgb_worker_sandwich_optimized_def missing_from_def sample_channels_def
        calibrated_of_def sample_entry_def black_kernels_def map_array_def Let_def)
  have ks: "map fst sample_channels = [''C01'', ''C02'', ''C03'', ''C13'']"
    by (simp add: sample_channels_def)
  have a: "map_of (rgb_products (create_rgb_products_unified sample_registry ?req sample_channels None))
        ''geocolor'' = None
     \<and> MissingChannels ''geocolor'' [''C07'']
        \<in> set (report (create_rgb_products_unified sample_registry ?req sample_channels None))"
    using products_built_independently
      [where rgb_name = "''geocolor''" and to_create = ?req and chans = sample_channels
         and reg = sample_registry and solar = None
         and info = "\<lparr> required_channels = [''C01'', ''C02'', ''C03'', ''C07'', ''C13''],
               worker_name = ''rgb_worker_geocolor'', category = ''core'' \<rparr>"]
      g
    by (simp add: requested_products_def missing_channels_def ks)
  have b: "map_of (rgb_products (create_rgb_products_unified sample_registry ?req sample_channels None))
        ''true_color'' = None
     \<and> ProductException ''true_color'' (ValueError ''out of memory'')
        \<in> set (report (create_rgb_products_unified sample_registry ?req sample_channels None))"
    using products_built_independently
      [where rgb_name = "''true_color''" and to_create = ?req and chans = sample_channels
         and reg = sample_registry and solar = None
         and info = "\<lparr> required_channels = [''C01'', ''C02'', ''C03''],
               worker_name = ''rgb_worker_true_color'', category = ''basic'' \<rparr>"
         and w = "\<lambda>channels_data solar. Inl (ValueError ''out of memory'')"] t w1
    by (simp add: requested_products_def missing_channels_def ks)
  have c: "map_of (rgb_products (create_rgb_products_unified sample_registry ?req sample_channels None))
        ''sandwich'' = Some (NdArray (1, 1) [(0, 0, 0)])"
    using products_built_independently
      [where rgb_name = "''sandwich''" and to_create = ?req and chans = sample_channels
         and reg = sample_registry and solar = None
         and info = "\<lparr> required_channels = [''C02'', ''C13''],
               worker_name = ''rgb_worker_sandwich_optimized'', category = ''composite'' \<rparr>"
         and w = "rgb_worker_sandwich_optimized black_kernels"] sw w2
    by (simp add: requested_products_def missing_channels_def ks out)
  show ?thesis using a b c by simp
qed

subsection \<open>Default solar zenith angle (C7)\<close>

text \<open>
  C7, as the code has it.  Without solar angles each of the five registered workers that
  read them, given its channels, still returns its product, built by its kernel from a
  grid that holds the worker's own default at every pixel: 45 degrees with cosine
  \<open>0.707\<close> in \<^verbatim>\<open>rgb_worker_geocolor\<close>, the cosine \<open>0.707\<close> in \<^verbatim>\<open>rgb_worker_true_color\<close>, 60
  degrees in \<^verbatim>\<open>rgb_worker_cloud_microphysics\<close>, 80 degrees in
  \<^verbatim>\<open>rgb_worker_day_snow_fog_night_fog_core\<close> and in \<^verbatim>\<open>rgb_worker_sandwich_optimized\<close>.  For
  the geocolor worker this holds when coordinate data has been stored and its land-mask
  and coordinate-grid helpers return.
\<close>

theorem default_solar_zenith_angle:
  "(missing_from [''C01'', ''C02'', ''C03'', ''C07'', ''C13''] chans = []
      \<and> geocolor_land_mask R = Inr land_mask
      \<and> create_coordinate_grids R (x_coords coords) (y_coords coords)
            (shape (calibrated_of chans ''C01'')) = Inr grids \<longrightarrow>
      rgb_worker_geocolor R (Some coords) chans None =
        Inr (RgbSuccess
               (numba_geocolor_core R (calibrated_of chans ''C01'') (calibrated_of chans ''C02'')
                  (calibrated_of chans ''C03'') (calibrated_of chans ''C13'')
                  (calibrated_of chans ''C07'')
                  (np_full (shape (calibrated_of chans ''C01'')) (Val 0.707))
                  (np_full (shape (calibrated_of chans ''C01'')) (Val 45)) land_mask grids)
               ''geocolor_enhanced_mesoscale''))
   \<and> (missing_from [''C01'', ''C02'', ''C03''] chans = [] \<longrightarrow>
      rgb_worker_true_color R chans None =
        Inr (RgbSuccess
               (numba_true_color_core_enhanced R (calibrated_of chans ''C01'')
                  (calibrated_of chans ''C02'') (calibrated_of chans ''C03'')
                  (np_full (shape (calibrated_of chans ''C01'')) (Val 0.707)))
               ''true_color_enhanced''))
   \<and> (missing_from [''C02'', ''C05'', ''C07'', ''C13'', ''C15''] chans = [] \<longrightarrow>
      rgb_worker_cloud_microphysics R chans None =
        Inr (RgbSuccess
               (numba_cloud_microphysics_core R (calibrated_of chans ''C02'')
                  (calibrated_of chans ''C05'') (calibrated_of chans ''C07'')
                  (calibrated_of chans ''C13'') (calibrated_of chans ''C15'')
                  (np_full (shape (calibrated_of chans ''C02'')) (Val 60)))
               ''cloud_microphysics_goes2go_night''))
   \<and> (missing_from [''C03'', ''C05'', ''C07'', ''C13''] chans = [] \<longrightarrow>
      rgb_worker_day_snow_fog_night_fog_core R chans None =
        Inr (RgbSuccess
               (numba_day_snow_fog_night_fog_core R (calibrated_of chans ''C03'')
                  (calibrated_of chans ''C05'') (calibrated_of chans ''C07'')
                  (calibrated_of chans ''C13'')
                  (np_full (shape (calibrated_of chans ''C03'')) (Val 80)))
               ''fog_detection_24h_day_snow_fog_night_fog''))
   \<and> (missing_from [''C02'', ''C13''] chans = [] \<longrightarrow>
      rgb_worker_sandwich_optimized R chans None =
        Inr (RgbSuccess
               (numba_sandwich_enhanced_core R (calibrated_of chans ''C02'')
                  (map_array kelvin_to_celsius (calibrated_of chans ''C13''))
                  (np_full (shape (calibrated_of chans ''C02'')) (Val 80)))
               ''sandwich_temperature_filtered_solar_corrected''))
   \<and> (\<forall>i < fst s. \<forall>j < snd s.
         cell (snd (geocolor_solar_inputs s None)) i j = Val 45
         \<and> cell (fst (geocolor_solar_inputs s None)) i j = Val 0.707
         \<and> cell (true_color_cos_sza s None) i j = Val 0.707
         \<and> cell (cloud_microphysics_sza s None) i j = Val 60
         \<and> cell (day_snow_fog_night_fog_sza s None) i j = Val 80
         \<and> cell (sandwich_sza s None) i j = Val 80)"
proof (intro conjI impI allI)
  assume "missing_from [''C01'', ''C02'', ''C03'', ''C07'', ''C13''] chans = []
      \<and> geocolor_land_mask R = Inr land_mask
      \<and> create_coordinate_grids R (x_coords coords) (y_coords coords)
            (shape (calibrated_of chans ''C01'')) = Inr grids"
  then show "rgb_worker_geocolor R (Some coords) chans None =
        Inr (RgbSuccess
               (numba_geocolor_core R (calibrated_of chans ''C01'') (calibrated_of chans ''C02'')
                  (calibrated_of chans ''C03'') (calibrated_of chans ''C13'')
                  (calibrated_of chans ''C07'')
                  (np_full (shape (calibrated_of chans ''C01'')) (Val 0.707))
                  (np_full (shape (calibrated_of chans ''C01'')) (Val 45)) land_mask grids)
               ''geocolor_enhanced_mesoscale'')"
    by (simp add: rgb_worker_geocolor_def geocolor_solar_inputs_def Let_def)
next
  assume "missing_from [''C01'', ''C02'', ''C03''] chans = []"
  then show "rgb_worker_true_color R chans None =
        Inr (RgbSuccess
               (numba_true_color_core_enhanced R (calibrated_of chans ''C01'')
                  (calibrated_of chans ''C02'') (calibrated_of chans ''C03'')
                  (np_full (shape (calibrated_of chans ''C01'')) (Val 0.707)))
               ''true_color_enhanced'')"
    by (simp add: rgb_worker_true_color_def true_color_cos_sza_def Let_def)
next
  assume "missing_from [''C02'', ''C05'', ''C07'', ''C13'', ''C15''] chans = []"
  then show "rgb_worker_cloud_microphysics R chans None =
        Inr (RgbSuccess
               (numba_cloud_microphysics_core R (calibrated_of chans ''C02'')
                  (calibrated_of chans ''C05'') (calibrated_of chans ''C07'')
                  (calibrated_of chans ''C13'') (calibrated_of chans ''C15'')
                  (np_full (shape (calibrated_of chans ''C02'')) (Val 60)))
               ''cloud_microphysics_goes2go_night'')"
    by (simp add: rgb_worker_cloud_microphysics_def cloud_microphysics_sza_def Let_def)
next
  assume "missing_from [''C03'', ''C05'', ''C07'', ''C13''] chans = []"
  then show "rgb_worker_day_snow_fog_night_fog_core R chans None =
        Inr (RgbSuccess
               (numba_day_snow_fog_night_fog_core R (calibrated_of chans ''C03'')
                  (calibrated_of chans ''C05'') (calibrated_of chans ''C07'')
                  (calibrated_of chans ''C13'')
                  (np_full (shape (calibrated_of chans ''C03'')) (Val 80)))
               ''fog_detection_24h_day_snow_fog_night_fog'')"
    by (simp add: rgb_worker_day_snow_fog_night_fog_core_def day_snow_fog_night_fog_sza_def
        NUMBA_AVAILABLE_def Let_def)
next
  assume "missing_from [''C02'', ''C13''] chans = []"
  then show "rgb_worker_sandwich_optimized R chans None =
        Inr (RgbSuccess
               (numba_sandwich_enhanced_core R (calibrated_of chans ''C02'')
                  (map_array kelvin_to_celsius (calibrated_of chans ''C13''))
                  (np_full (shape (calibrated_of chans ''C02'')) (Val 80)))
               ''sandwich_temperature_filtered_solar_corrected'')"
    by (simp add: rgb_worker_sandwich_optimized_def sandwich_sza_def Let_def)
next
  fix i j assume "i < fst s" "j < snd s"
  then show "cell (snd (geocolor_solar_inputs s None)) i j = Val 45"
    and "cell (fst (geocolor_solar_inputs s None)) i j = Val 0.707"
    and "cell (true_color_cos_sza s None) i j = Val 0.707"
    and "cell (cloud_microphysics_sza s None) i j = Val 60"
    and "cell (day_snow_fog_night_fog_sza s None) i j = Val 80"
    and "cell (sandwich_sza s None) i j = Val 80"
    by (simp_all add: geocolor_solar_inputs_def true_color_cos_sza_def cloud_microphysics_sza_def
        day_snow_fog_night_fog_sza_def sandwich_sza_def cell_np_full)
qed

lemma sample_all_channels_present:
  "missing_from [''C01'', ''C02'', ''C03'', ''C07'', ''C13''] (map_of sample_all_channels) = []"
  "missing_from [''C01'', ''C02'', ''C03''] (map_of sample_all_channels) = []"
  "missing_from [''C02'', ''C05'', ''C07'', ''C13'', ''C15''] (map_of sample_all_channels) = []"
  "missing_from [''C03'', ''C05'', ''C07'', ''C13''] (map_of sample_all_channels) = []"
  "missing_from [''C02'', ''C13''] (map_of sample_all_channels) = []"
  by (simp_all add: missing_from_def sample_all_channels_def)

lemma black_kernels_paint:
  "numba_geocolor_core black_kernels (calibrated_of (map_of sample_all_channels) ''C01'')
       a1 a2 a3 a4 a5 a6 m g = NdArray (1, 1) [(0, 0, 0)]"
  "numba_true_color_core_enhanced black_kernels (calibrated_of (map_of sample_all_channels) ''C01'')
       a1 a2 a3 = NdArray (1, 1) [(0, 0, 0)]"
  "numba_cloud_microphysics_core black_kernels (calibrated_of (map_of sample_all_channels) ''C02'')
       a1 a2 a3 a4 a5 = NdArray (1, 1) [(0, 0, 0)]"
  "numba_day_snow_fog_night_fog_core black_kernels
       (calibrated_of (map_of sample_all_channels) ''C03'') a1 a2 a3 a4 = NdArray (1, 1) [(0, 0, 0)]"
  "numba_sandwich_enhanced_core black_kernels (calibrated_of (map_of sample_all_channels) ''C02'')
       a1 a2 = NdArray (1, 1) [(0, 0, 0)]"
  by (simp_all add: black_kernels_def calibrated_of_def sample_all_channels_def sample_entry_def
      map_array_def)

theorem default_solar_zenith_angle_witness:
  "rgb_worker_geocolor black_kernels (Some (sample_coordinate_data [0] [0]))
       (map_of sample_all_channels) None
     = Inr (RgbSuccess (NdArray (1, 1) [(0, 0, 0)]) ''geocolor_enhanced_mesoscale'')
   \<and> rgb_worker_true_color black_kernels (map_of sample_all_channels) None
     = Inr (RgbSuccess (NdArray (1, 1) [(0, 0, 0)]) ''true_color_enhanced'')
   \<and> rgb_worker_cloud_microphysics black_kernels (map_of sample_all_channels) None
     = Inr (RgbSuccess (NdArray (1, 1) [(0, 0, 0)]) ''cloud_microphysics_goes2go_night'')
   \<and> rgb_worker_day_snow_fog_night_fog_core black_kernels (map_of sample_all_channels) None
     = Inr (RgbSuccess (NdArray (1, 1) [(0, 0, 0)]) ''fog_detection_24h_day_snow_fog_night_fog'')
   \<and> rgb_worker_sandwich_optimized black_kernels (map_of sample_all_channels) None
     = Inr (RgbSuccess (NdArray (1, 1) [(0, 0, 0)]) ''sandwich_temperature_filtered_solar_corrected'')
   \<and> cell (snd (geocolor_solar_inputs (2, 3) None)) 1 2 = Val 45
   \<and> cell (fst (geocolor_solar_inputs (2, 3) None)) 1 2 = Val 0.707
   \<and> cell (true_color_cos_sza (2, 3) None) 1 2 = Val 0.707
   \<and> cell (cloud_microphysics_sza (2, 3) None) 1 2 = Val 60
   \<and> cell (day_snow_fog_night_fog_sza (2, 3) None) 1 2 = Val 80
   \<and> cell (sandwich_sza (2, 3) None) 1 2 = Val 80"
proof -
  have lm: "geocolor_land_mask black_kernels = Inr ()"
    and cg: "create_coordinate_grids black_kernels xs ys sh = Inr ()" for xs ys sh
    by (simp_all add: black_kernels_def)
  show ?thesis
    using default_solar_zenith_angle
      [where chans = "map_of sample_all_channels" and R = black_kernels and s = "(2, 3)"
         and coords = "sample_coordinate_data [0] [0]" and land_mask = "()" and grids = "()"]
    by (simp add: sample_all_channels_present black_kernels_paint lm cg)
qed

text \<open>
  The claim as stated fails: the default is not one twilight angle.  Only the 80 degrees
  of the sandwich worker is the source's twilight default; geocolor substitutes 45
  degrees and cloud microphysics 60 degrees.
\<close>

theorem default_solar_zenith_angle_counterexample:
  "snd (geocolor_solar_inputs (1, 1) None) = NdArray (1, 1) [Val 45]
   \<and> cloud_microphysics_sza (1, 1) None = NdArray (1, 1) [Val 60]
   \<and> sandwich_sza (1, 1) None = NdArray (1, 1) [Val 80]
   \<and> snd (geocolor_solar_inputs (1, 1) None) \<noteq> sandwich_sza (1, 1) None
   \<and> cloud_microphysics_sza (1, 1) None \<noteq> sandwich_sza (1, 1) None"
  by (simp add: geocolor_solar_inputs_def cloud_microphysics_sza_def sandwich_sza_def np_full_def)

end
